theory Spec2Isabelle
  imports Main "HOL-Library.Word" "HOL-Library.Sublist"
begin

unbundle bit_operations_syntax

section \<open>Python values and exceptions\<close>

text \<open>
  The values that travel through \<^verbatim>\<open>operation_params\<close> and through the results of the
  spreadsheet library: what \<^verbatim>\<open>json.loads\<close> can produce. A dict is the list of its items
  in insertion order; its keys are strings (\<^verbatim>\<open>Dict[str, Any]\<close>). A float is carried as
  mantissa and exponent; no operation of the server looks inside one.
\<close>

datatype pyval =
    PNone
  | PBool bool
  | PInt int
  | PFloat int int
  | PStr string
  | PList "pyval list"
  | PDict "(string \<times> pyval) list"

type_synonym kwargs = "(string \<times> pyval) list"

text \<open>
  Exception classes. The eight domain classes come from \<^verbatim>\<open>excel_mcp.exceptions\<close>, a
  module that is not among the sources: after the spec's error taxonomy, which lists them
  side by side, none is taken to be a subclass of another. The others are built in. \<^verbatim>\<open>OtherException n\<close> is any further subclass of
  \<^verbatim>\<open>Exception\<close>, named \<^verbatim>\<open>n\<close> (what \<^verbatim>\<open>requests\<close> or the operating system raise).
  An exception value is its class, its \<^verbatim>\<open>str()\<close> and the cause given by an explicit
  \<^verbatim>\<open>raise ... from\<close>. Interrupts that are not subclasses of \<^verbatim>\<open>Exception\<close>
  (\<^verbatim>\<open>KeyboardInterrupt\<close>, \<^verbatim>\<open>SystemExit\<close>) and the interpreter's implicit
  \<^verbatim>\<open>__context__\<close> link are outside the model.
\<close>

datatype exc_kind =
    ValidationError
  | WorkbookError
  | SheetError
  | DataError
  | FormattingError
  | CalculationError
  | PivotError
  | ChartError
  | ValueError
  | JSONDecodeError
  | TypeError
  | AttributeError
  | KeyError
  | FileNotFoundError
  | OtherException string

datatype exc = Exc (kind: exc_kind) (message: string) (cause: "exc option")

definition type_name :: "pyval \<Rightarrow> string" where
  "type_name v = (case v of
       PNone \<Rightarrow> ''NoneType''
     | PBool _ \<Rightarrow> ''bool''
     | PInt _ \<Rightarrow> ''int''
     | PFloat _ _ \<Rightarrow> ''float''
     | PStr _ \<Rightarrow> ''str''
     | PList _ \<Rightarrow> ''list''
     | PDict _ \<Rightarrow> ''dict'')"

definition squote :: string where
  "squote = [CHR 0x27]"

definition newline :: string where
  "newline = [CHR 0x0A]"

section \<open>String and path functions of the standard library (POSIX)\<close>

text \<open>\<^verbatim>\<open>s.split(sep)\<close> for a one-character separator: never empty, the pieces between
  the separators.\<close>

fun str_split :: "char \<Rightarrow> string \<Rightarrow> string list" where
  "str_split sep [] = [[]]"
| "str_split sep (c # cs) =
     (if c = sep then [] # str_split sep cs
      else (case str_split sep cs of
              [] \<Rightarrow> [[c]]
            | p # ps \<Rightarrow> (c # p) # ps))"

definition os_path_isabs :: "string \<Rightarrow> bool" where
  "os_path_isabs s = (case s of [] \<Rightarrow> False | c # _ \<Rightarrow> c = CHR ''/'')"

definition os_path_join :: "string \<Rightarrow> string \<Rightarrow> string" where
  "os_path_join a b =
     (if os_path_isabs b then b
      else if a = [] \<or> last a = CHR ''/'' then a @ b
      else a @ ''/'' @ b)"

text \<open>\<^verbatim>\<open>p[p.rfind('/') + 1:]\<close>\<close>

definition os_path_basename :: "string \<Rightarrow> string" where
  "os_path_basename p = rev (takeWhile (\<lambda>c. c \<noteq> CHR ''/'') (rev p))"

text \<open>\<^verbatim>\<open>head = p[:p.rfind('/') + 1]\<close>, then the trailing slashes are stripped unless
  the head consists of slashes only.\<close>

definition os_path_dirname :: "string \<Rightarrow> string" where
  "os_path_dirname p =
     (let head = rev (dropWhile (\<lambda>c. c \<noteq> CHR ''/'') (rev p))
      in if head \<noteq> [] \<and> (\<exists>c \<in> set head. c \<noteq> CHR ''/'')
         then rev (dropWhile (\<lambda>c. c = CHR ''/'') (rev head))
         else head)"

text \<open>\<^verbatim>\<open>str(uuid.uuid4())\<close>: the 128-bit value as 32 lower-case hex digits, grouped
  8-4-4-4-12.\<close>

definition hex_digit :: "nat \<Rightarrow> char" where
  "hex_digit n = ''0123456789abcdef'' ! (n mod 16)"

definition hex32 :: "128 word \<Rightarrow> string" where
  "hex32 u = map (\<lambda>i. hex_digit (unat (drop_bit (4 * i) u AND 15))) (rev [0..<32])"

definition uuid_str :: "128 word \<Rightarrow> string" where
  "uuid_str u =
     (let h = hex32 u
      in take 8 h @ ''-'' @ take 4 (drop 8 h) @ ''-'' @ take 4 (drop 12 h) @ ''-''
         @ take 4 (drop 16 h) @ ''-'' @ drop 20 h)"

section \<open>The world: files, network, collaborators\<close>

text \<open>
  One run of a tool threads a world: the files on disk (path to content; directories
  are not modelled) and the trace of what the run did to the outside, oldest first:
  the HTTP requests sent, the tools the orchestrator invoked, and the calls into the
  spreadsheet library. The lines the code writes to its log are left out: they change
  neither a result nor a file that the code reads.
\<close>

datatype event =
    HttpGet string
  | HttpPost string string string
  | ToolCall string string kwargs
  | LibCall string string kwargs

record world =
  files :: "string \<rightharpoonup> string"
  trace :: "event list"

record get_response =
  status_error :: "exc option"
  chunks :: "string list"
  stream_error :: "exc option"

record post_response =
  status_code :: int
  body_text :: string

text \<open>
  What the code takes from its surroundings, fixed for one run.
  \<^item> \<^verbatim>\<open>EXCEL_FILES_PATH\<close>, \<^verbatim>\<open>tempfile.gettempdir()\<close>, the value drawn by \<^verbatim>\<open>uuid.uuid4()\<close>;
  \<^item> \<^verbatim>\<open>requests.get(url, stream=True)\<close>: an exception, or a response with what
    \<^verbatim>\<open>raise_for_status()\<close> raises (if anything), the chunks \<^verbatim>\<open>iter_content\<close> delivers
    and the exception that ends the stream early (if any);
  \<^item> \<^verbatim>\<open>requests.post(endpoint, files={'file': (filename, file)})\<close>: an exception or
    status code and body text;
  \<^item> \<^verbatim>\<open>json.loads\<close>;
  \<^item> \<^verbatim>\<open>os_fault call path\<close>: the exception with which the operating system refuses
    a file call for reasons the file map does not show (permissions, full disk);
  \<^item> \<^verbatim>\<open>py_repr\<close>: \<^verbatim>\<open>str()\<close> of a value that is not a string;
  \<^item> the texts of the interpreter's own \<^verbatim>\<open>TypeError\<close>s, which vary with its version;
  \<^item> \<^verbatim>\<open>workbook_py name path args\<close>: what \<^verbatim>\<open>create_workbook\<close>, \<^verbatim>\<open>create_sheet\<close> and
    \<^verbatim>\<open>get_workbook_info\<close> of workbook.py do when a tool calls them. They drive openpyxl
    and pathlib; every statement below holds whatever they do to the world;
  \<^item> \<^verbatim>\<open>lib\<close>, below.
\<close>

text \<open>
  Modelled from the spec: the spreadsheet operation library (\<^verbatim>\<open>excel_mcp.validation\<close>,
  \<^verbatim>\<open>calculations\<close>, \<^verbatim>\<open>formatting\<close>, \<^verbatim>\<open>data\<close>, \<^verbatim>\<open>chart\<close>, \<^verbatim>\<open>pivot\<close>, \<^verbatim>\<open>sheet\<close>) is not
  among the sources. By the spec's system overview it "performs actual cell/sheet/chart/pivot
  mutations against a spreadsheet document given a file path and structured parameters;
  returns a result record or signals a typed failure". So \<^verbatim>\<open>lib name path args content\<close>
  takes the function's name, the path, the remaining arguments by name and the present
  content of the file at the path (\<^verbatim>\<open>None\<close> when there is none), and gives the outcome and
  the new content of that file; it touches no other file.
\<close>

record env =
  EXCEL_FILES_PATH :: string
  gettempdir :: string
  uuid4 :: "128 word"
  http_get :: "string \<Rightarrow> exc + get_response"
  http_post :: "string \<Rightarrow> string \<Rightarrow> string \<Rightarrow> exc + post_response"
  json_loads :: "string \<Rightarrow> exc + pyval"
  os_fault :: "string \<Rightarrow> string \<Rightarrow> exc option"
  py_repr :: "pyval \<Rightarrow> string"
  bind_error_text :: "string \<Rightarrow> kwargs \<Rightarrow> string"
  type_error_text :: "string \<Rightarrow> pyval \<Rightarrow> string"
  workbook_py :: "string \<Rightarrow> string \<Rightarrow> kwargs \<Rightarrow> world \<Rightarrow> (exc + pyval) \<times> world"
  lib :: "string \<Rightarrow> string \<Rightarrow> kwargs \<Rightarrow> string option \<Rightarrow> (exc + pyval) \<times> string option"

subsection \<open>Raising, sequencing, handling\<close>

type_synonym 'a run = "world \<Rightarrow> (exc + 'a) \<times> world"

definition returns :: "'a \<Rightarrow> 'a run" where
  "returns a w = (Inr a, w)"

definition raises :: "exc \<Rightarrow> 'a run" where
  "raises e w = (Inl e, w)"

definition then_do :: "'a run \<Rightarrow> ('a \<Rightarrow> 'b run) \<Rightarrow> 'b run" where
  "then_do m f w = (case m w of (Inl e, w') \<Rightarrow> (Inl e, w') | (Inr a, w') \<Rightarrow> f a w')"

definition try_except :: "'a run \<Rightarrow> (exc \<Rightarrow> 'a run) \<Rightarrow> 'a run" where
  "try_except m h w = (case m w of (Inl e, w') \<Rightarrow> h e w' | (Inr a, w') \<Rightarrow> (Inr a, w'))"

definition pure_result :: "exc + 'a \<Rightarrow> 'a run" where
  "pure_result r w = (r, w)"

definition log_event :: "event \<Rightarrow> world \<Rightarrow> world" where
  "log_event ev w = w\<lparr>trace := trace w @ [ev]\<rparr>"


section \<open>File and network calls\<close>

text \<open>The error of a file call on a path that has no file.\<close>

definition no_such_file :: "string \<Rightarrow> exc" where
  "no_such_file p =
     Exc FileNotFoundError
       (''[Errno 2] No such file or directory: '' @ squote @ p @ squote) None"

definition os_path_exists :: "world \<Rightarrow> string \<Rightarrow> bool" where
  "os_path_exists w p = (files w p \<noteq> None)"

text \<open>\<^verbatim>\<open>os.makedirs(d, exist_ok=True)\<close>: the empty path is refused; directories
  themselves are not part of the file map.\<close>

definition os_makedirs :: "env \<Rightarrow> string \<Rightarrow> unit run" where
  "os_makedirs env d =
     (if d = [] then raises (no_such_file d)
      else (case os_fault env ''makedirs'' d of
              Some e \<Rightarrow> raises e
            | None \<Rightarrow> returns ()))"

text \<open>\<^verbatim>\<open>open(p, 'wb')\<close> creates or truncates the file.\<close>

definition open_wb :: "env \<Rightarrow> string \<Rightarrow> unit run" where
  "open_wb env p w =
     (case os_fault env ''open_wb'' p of
        Some e \<Rightarrow> (Inl e, w)
      | None \<Rightarrow> (Inr (), w\<lparr>files := (files w)(p \<mapsto> [])\<rparr>))"

definition file_write :: "string \<Rightarrow> string \<Rightarrow> world \<Rightarrow> world" where
  "file_write p chunk w =
     w\<lparr>files := (files w)(p \<mapsto> (case files w p of None \<Rightarrow> chunk | Some c \<Rightarrow> c @ chunk))\<rparr>"

text \<open>\<^verbatim>\<open>open(p, 'rb')\<close>, read in full by the HTTP client.\<close>

definition open_rb :: "env \<Rightarrow> string \<Rightarrow> string run" where
  "open_rb env p w =
     (case files w p of
        None \<Rightarrow> (Inl (no_such_file p), w)
      | Some c \<Rightarrow> (case os_fault env ''open_rb'' p of
                     Some e \<Rightarrow> (Inl e, w)
                   | None \<Rightarrow> (Inr c, w)))"

definition shutil_copy2 :: "env \<Rightarrow> string \<Rightarrow> string \<Rightarrow> unit run" where
  "shutil_copy2 env src dst w =
     (case files w src of
        None \<Rightarrow> (Inl (no_such_file src), w)
      | Some c \<Rightarrow> (case os_fault env ''copy2'' dst of
                     Some e \<Rightarrow> (Inl e, w)
                   | None \<Rightarrow> (Inr (), w\<lparr>files := (files w)(dst \<mapsto> c)\<rparr>)))"

definition os_remove :: "env \<Rightarrow> string \<Rightarrow> unit run" where
  "os_remove env p w =
     (case files w p of
        None \<Rightarrow> (Inl (no_such_file p), w)
      | Some c \<Rightarrow> (case os_fault env ''remove'' p of
                     Some e \<Rightarrow> (Inl e, w)
                   | None \<Rightarrow> (Inr (), w\<lparr>files := (files w)(p := None)\<rparr>)))"

definition requests_get :: "env \<Rightarrow> string \<Rightarrow> get_response run" where
  "requests_get env url w = (http_get env url, log_event (HttpGet url) w)"

definition requests_post :: "env \<Rightarrow> string \<Rightarrow> string \<Rightarrow> string \<Rightarrow> post_response run" where
  "requests_post env endpoint filename content w =
     (http_post env endpoint filename content, log_event (HttpPost endpoint filename content) w)"

definition lib_call :: "env \<Rightarrow> string \<Rightarrow> string \<Rightarrow> kwargs \<Rightarrow> pyval run" where
  "lib_call env name path args w =
     (let w1 = log_event (LibCall name path args) w;
          (r, c) = lib env name path args (files w1 path)
      in (r, w1\<lparr>files := (files w1)(path := c)\<rparr>))"

section \<open>workbook.py\<close>

definition FILE_SERVER_URL :: string where
  "FILE_SERVER_URL = ''http://localhost:3001''"

definition UPLOAD_ENDPOINT :: string where
  "UPLOAD_ENDPOINT = FILE_SERVER_URL @ ''/upload''"

definition FILE_ACCESS_BASE_URL :: string where
  "FILE_ACCESS_BASE_URL = FILE_SERVER_URL @ ''/files/''"

record upload_result =
  up_message :: string
  file_url :: string
  up_filename :: string

definition upload_file_to_server :: "env \<Rightarrow> string \<Rightarrow> upload_result run" where
  "upload_file_to_server env filepath =
     try_except
       (\<lambda>w. if \<not> os_path_exists w filepath
            then raises (Exc WorkbookError (''File not found: '' @ filepath) None) w
            else
              (let filename = os_path_basename filepath
               in then_do (open_rb env filepath) (\<lambda>file.
                  then_do (requests_post env UPLOAD_ENDPOINT filename file) (\<lambda>response.
                    if status_code response \<noteq> 200
                    then raises (Exc WorkbookError
                                   (''Failed to upload file: '' @ body_text response) None)
                    else returns \<lparr>up_message = ''File uploaded successfully'',
                                  file_url = FILE_ACCESS_BASE_URL @ filename,
                                  up_filename = filename\<rparr>))) w)
       (\<lambda>e. raises (Exc WorkbookError (''Failed to upload file: '' @ message e) None))"

definition download_file_from_url :: "env \<Rightarrow> string \<Rightarrow> string \<Rightarrow> string run" where
  "download_file_from_url env url save_path =
     try_except
       (then_do (requests_get env url) (\<lambda>response.
        then_do (case status_error response of Some e \<Rightarrow> raises e | None \<Rightarrow> returns ()) (\<lambda>_.
        then_do (os_makedirs env (os_path_dirname save_path)) (\<lambda>_.
        then_do (open_wb env save_path) (\<lambda>_.
        then_do (\<lambda>w. (Inr (), fold (file_write save_path) (chunks response) w)) (\<lambda>_.
        then_do (case stream_error response of Some e \<Rightarrow> raises e | None \<Rightarrow> returns ()) (\<lambda>_.
        returns save_path)))))))
       (\<lambda>e. raises (Exc WorkbookError (''Failed to download file: '' @ message e) None))"


section \<open>Operations on Python values\<close>

definition str_of :: "env \<Rightarrow> pyval \<Rightarrow> string" where
  "str_of env v = (case v of PStr s \<Rightarrow> s | _ \<Rightarrow> py_repr env v)"

definition truthy :: "pyval \<Rightarrow> bool" where
  "truthy v = (case v of
       PNone \<Rightarrow> False
     | PBool b \<Rightarrow> b
     | PInt i \<Rightarrow> i \<noteq> 0
     | PFloat m e \<Rightarrow> m \<noteq> 0
     | PStr s \<Rightarrow> s \<noteq> []
     | PList xs \<Rightarrow> xs \<noteq> []
     | PDict d \<Rightarrow> d \<noteq> [])"

text \<open>\<^verbatim>\<open>v[k]\<close> for a string key.\<close>

definition py_getitem :: "env \<Rightarrow> pyval \<Rightarrow> string \<Rightarrow> exc + pyval" where
  "py_getitem env v k =
     (case v of
        PDict d \<Rightarrow> (case map_of d k of
                      Some x \<Rightarrow> Inr x
                    | None \<Rightarrow> Inl (Exc KeyError (squote @ k @ squote) None))
      | _ \<Rightarrow> Inl (Exc TypeError (type_error_text env ''getitem'' v) None))"

text \<open>\<^verbatim>\<open>k in v\<close> for a string \<^verbatim>\<open>k\<close>.\<close>

definition py_contains :: "env \<Rightarrow> string \<Rightarrow> pyval \<Rightarrow> exc + bool" where
  "py_contains env k v =
     (case v of
        PDict d \<Rightarrow> Inr (k \<in> set (map fst d))
      | PList xs \<Rightarrow> Inr (PStr k \<in> set xs)
      | PStr s \<Rightarrow> Inr (sublist k s)
      | _ \<Rightarrow> Inl (Exc TypeError (type_error_text env ''contains'' v) None))"

text \<open>\<^verbatim>\<open>for x in v\<close>\<close>

definition py_iter :: "env \<Rightarrow> pyval \<Rightarrow> exc + pyval list" where
  "py_iter env v =
     (case v of
        PList xs \<Rightarrow> Inr xs
      | PDict d \<Rightarrow> Inr (map (\<lambda>(k, x). PStr k) d)
      | PStr s \<Rightarrow> Inr (map (\<lambda>c. PStr [c]) s)
      | _ \<Rightarrow> Inl (Exc TypeError (type_error_text env ''iter'' v) None))"

text \<open>\<^verbatim>\<open>v.items()\<close>\<close>

definition py_items :: "pyval \<Rightarrow> exc + kwargs" where
  "py_items v =
     (case v of
        PDict d \<Rightarrow> Inr d
      | _ \<Rightarrow> Inl (Exc AttributeError
                    (squote @ type_name v @ squote @ '' object has no attribute ''
                       @ squote @ ''items'' @ squote) None))"

text \<open>A dict built by inserting items one after the other: a key met again keeps its
  place and takes the later value.\<close>

fun dict_set :: "string \<Rightarrow> pyval \<Rightarrow> kwargs \<Rightarrow> kwargs" where
  "dict_set k v [] = [(k, v)]"
| "dict_set k v ((k', v') # d) =
     (if k' = k then (k, v) # d else (k', v') # dict_set k v d)"

definition dict_from_items :: "kwargs \<Rightarrow> kwargs" where
  "dict_from_items xs = foldl (\<lambda>d (k, v). dict_set k v d) [] xs"

fun str_join :: "string \<Rightarrow> string list \<Rightarrow> string" where
  "str_join sep [] = []"
| "str_join sep [x] = x"
| "str_join sep (x # y # ys) = x @ sep @ str_join sep (y # ys)"

subsection \<open>Calling with keyword arguments\<close>

text \<open>
  A signature lists the parameters after \<^verbatim>\<open>filepath\<close> with their defaults (\<^verbatim>\<open>None\<close>: the
  parameter is required). \<^verbatim>\<open>f(path, **params)\<close> raises \<^verbatim>\<open>TypeError\<close> when a key names no
  parameter (or names \<^verbatim>\<open>filepath\<close>, given twice then) or when a required parameter is
  missing; otherwise the body runs with every parameter bound.
\<close>

type_synonym signature = "(string \<times> pyval option) list"

definition bind_kwargs :: "env \<Rightarrow> string \<Rightarrow> signature \<Rightarrow> kwargs \<Rightarrow> exc + kwargs" where
  "bind_kwargs env name sig params =
     (let unexpected = filter (\<lambda>k. k \<notin> set (map fst sig)) (map fst params);
          missing = filter (\<lambda>(n, d). d = None \<and> n \<notin> set (map fst params)) sig
      in if unexpected \<noteq> [] \<or> missing \<noteq> []
         then Inl (Exc TypeError (bind_error_text env name params) None)
         else Inr (map (\<lambda>(n, d). (n, case map_of params n of
                                        Some v \<Rightarrow> v
                                      | None \<Rightarrow> (case d of Some v \<Rightarrow> v | None \<Rightarrow> PNone))) sig))"

definition arg :: "kwargs \<Rightarrow> string \<Rightarrow> pyval" where
  "arg a n = (case map_of a n of Some v \<Rightarrow> v | None \<Rightarrow> PNone)"

definition args_of :: "kwargs \<Rightarrow> string list \<Rightarrow> kwargs" where
  "args_of a names = map (\<lambda>n. (n, arg a n)) names"


section \<open>server.py: the direct tools\<close>

definition get_excel_path :: "env \<Rightarrow> string \<Rightarrow> string" where
  "get_excel_path env filename =
     (if os_path_isabs filename then filename
      else os_path_join (EXCEL_FILES_PATH env) filename)"

text \<open>
  Every tool ends in the same two handlers: the listed domain errors become the string
  \<^verbatim>\<open>"Error: " + str(e)\<close>; any other exception is logged and raised again as it is.
  A tool below takes its \<^verbatim>\<open>filepath\<close> and its other parameters, bound by name. The
  decorator \<^verbatim>\<open>@mcp.tool()\<close> registers a function and leaves the name bound to the function
  itself, so a call of a tool from inside the module is a call of the function below.
\<close>

definition tool_except :: "exc_kind list \<Rightarrow> pyval run \<Rightarrow> pyval run" where
  "tool_except kinds body =
     try_except body
       (\<lambda>e. if kind e \<in> set kinds then returns (PStr (''Error: '' @ message e))
            else raises e)"

text \<open>The body of the \<^verbatim>\<open>try\<close> statement, lines 96 to 105.\<close>

definition apply_formula_try :: "env \<Rightarrow> string \<Rightarrow> kwargs \<Rightarrow> pyval run" where
  "apply_formula_try env filepath a =
    (let full_path = get_excel_path env filepath
     in then_do (lib_call env ''validation.validate_formula_in_cell_operation'' full_path
                   (args_of a [''sheet_name'', ''cell'', ''formula''])) (\<lambda>validation.
        if (case validation of PDict d \<Rightarrow> ''error'' \<in> set (map fst d) | _ \<Rightarrow> False)
        then then_do (pure_result (py_getitem env validation ''error'')) (\<lambda>err.
             returns (PStr (''Error: '' @ str_of env err)))
        else then_do (lib_call env ''calculations.apply_formula'' full_path
                        (args_of a [''sheet_name'', ''cell'', ''formula''])) (\<lambda>result.
             pure_result (py_getitem env result ''message''))))"

definition apply_formula :: "env \<Rightarrow> string \<Rightarrow> kwargs \<Rightarrow> pyval run" where
  "apply_formula env filepath a =
     tool_except [ValidationError, CalculationError] (apply_formula_try env filepath a)"

definition validate_formula_syntax :: "env \<Rightarrow> string \<Rightarrow> kwargs \<Rightarrow> pyval run" where
  "validate_formula_syntax env filepath a =
     tool_except [ValidationError, CalculationError]
       (let full_path = get_excel_path env filepath
        in then_do (lib_call env ''validation.validate_formula_in_cell_operation'' full_path
                      (args_of a [''sheet_name'', ''cell'', ''formula''])) (\<lambda>result.
           pure_result (py_getitem env result ''message'')))"

text \<open>The body of the \<^verbatim>\<open>try\<close> statement, lines 153 to 176.\<close>

definition format_range_try :: "env \<Rightarrow> string \<Rightarrow> kwargs \<Rightarrow> pyval run" where
  "format_range_try env filepath a =
    (let full_path = get_excel_path env filepath
     in then_do (lib_call env ''formatting.format_range'' full_path
                   (args_of a [''sheet_name'', ''start_cell'', ''end_cell'', ''bold'',
                      ''italic'', ''underline'', ''font_size'', ''font_color'', ''bg_color'',
                      ''border_style'', ''border_color'', ''number_format'', ''alignment'',
                      ''wrap_text'', ''merge_cells'', ''protection'',
                      ''conditional_format''])) (\<lambda>result.
        returns (PStr ''Range formatted successfully'')))"

definition format_range :: "env \<Rightarrow> string \<Rightarrow> kwargs \<Rightarrow> pyval run" where
  "format_range env filepath a =
     tool_except [ValidationError, FormattingError] (format_range_try env filepath a)"

definition read_data_from_excel :: "env \<Rightarrow> string \<Rightarrow> kwargs \<Rightarrow> pyval run" where
  "read_data_from_excel env filepath a =
     tool_except []
       (let full_path = get_excel_path env filepath
        in then_do (lib_call env ''data.read_excel_range'' full_path
                      (args_of a [''sheet_name'', ''start_cell'', ''end_cell'',
                         ''preview_only''])) (\<lambda>result.
           if \<not> truthy result then returns (PStr ''No data found in specified range'')
           else then_do (pure_result (py_iter env result)) (\<lambda>rows.
                returns (PStr (str_join newline (map (str_of env) rows))))))"

text \<open>The body of the \<^verbatim>\<open>try\<close> statement, lines 215 to 217.\<close>

definition write_data_to_excel_try :: "env \<Rightarrow> string \<Rightarrow> kwargs \<Rightarrow> pyval run" where
  "write_data_to_excel_try env filepath a =
    (let full_path = get_excel_path env filepath
     in then_do (lib_call env ''data.write_data'' full_path
                   (args_of a [''sheet_name'', ''data'', ''start_cell'',
                      ''write_headers''])) (\<lambda>result.
        pure_result (py_getitem env result ''message'')))"

definition write_data_to_excel :: "env \<Rightarrow> string \<Rightarrow> kwargs \<Rightarrow> pyval run" where
  "write_data_to_excel env filepath a =
     tool_except [ValidationError, DataError] (write_data_to_excel_try env filepath a)"

definition create_workbook :: "env \<Rightarrow> string \<Rightarrow> kwargs \<Rightarrow> pyval run" where
  "create_workbook env filepath a =
     tool_except [WorkbookError]
       (let full_path = get_excel_path env filepath
        in then_do (workbook_py env ''create_workbook'' full_path
                      (args_of a [''upload''])) (\<lambda>result.
           if \<not> truthy (arg a ''upload'')
           then returns (PStr (''Created workbook at '' @ full_path))
           else then_do (pure_result (py_contains env ''file_url'' result)) (\<lambda>has_url.
                if has_url
                then then_do (pure_result (py_getitem env result ''file_url'')) (\<lambda>u.
                     returns (PStr (''Created workbook at '' @ full_path
                                      @ '' and uploaded to '' @ str_of env u)))
                else returns (PStr (''Created workbook at '' @ full_path)))))"

definition create_worksheet :: "env \<Rightarrow> string \<Rightarrow> kwargs \<Rightarrow> pyval run" where
  "create_worksheet env filepath a =
     tool_except [ValidationError, WorkbookError]
       (let full_path = get_excel_path env filepath
        in then_do (workbook_py env ''create_sheet'' full_path
                      (args_of a [''sheet_name''])) (\<lambda>result.
           pure_result (py_getitem env result ''message'')))"

text \<open>The body of the \<^verbatim>\<open>try\<close> statement, lines 269 to 280.\<close>

definition create_chart_try :: "env \<Rightarrow> string \<Rightarrow> kwargs \<Rightarrow> pyval run" where
  "create_chart_try env filepath a =
    (let full_path = get_excel_path env filepath
     in then_do (lib_call env ''chart.create_chart_in_sheet'' full_path
                   (args_of a [''sheet_name'', ''data_range'', ''chart_type'',
                      ''target_cell'', ''title'', ''x_axis'', ''y_axis''])) (\<lambda>result.
        pure_result (py_getitem env result ''message'')))"

definition create_chart :: "env \<Rightarrow> string \<Rightarrow> kwargs \<Rightarrow> pyval run" where
  "create_chart env filepath a =
     tool_except [ValidationError, ChartError] (create_chart_try env filepath a)"

text \<open>The body of the \<^verbatim>\<open>try\<close> statement, lines 299 to 309.\<close>

definition create_pivot_table_try :: "env \<Rightarrow> string \<Rightarrow> kwargs \<Rightarrow> pyval run" where
  "create_pivot_table_try env filepath a =
    (let full_path = get_excel_path env filepath
     in then_do (lib_call env ''pivot.create_pivot_table'' full_path
                   [(''sheet_name'', arg a ''sheet_name''),
                    (''data_range'', arg a ''data_range''),
                    (''rows'', arg a ''rows''),
                    (''values'', arg a ''values''),
                    (''columns'', if truthy (arg a ''columns'') then arg a ''columns''
                                   else PList []),
                    (''agg_func'', arg a ''agg_func'')]) (\<lambda>result.
        pure_result (py_getitem env result ''message'')))"

definition create_pivot_table :: "env \<Rightarrow> string \<Rightarrow> kwargs \<Rightarrow> pyval run" where
  "create_pivot_table env filepath a =
     tool_except [ValidationError, PivotError] (create_pivot_table_try env filepath a)"

text \<open>The tools that hand their parameters to one library function and return its
  \<^verbatim>\<open>"message"\<close>.\<close>

definition message_tool ::
  "env \<Rightarrow> exc_kind list \<Rightarrow> string \<Rightarrow> string list \<Rightarrow> string \<Rightarrow> kwargs \<Rightarrow> pyval run" where
  "message_tool env kinds callee names filepath a =
     tool_except kinds
       (let full_path = get_excel_path env filepath
        in then_do (lib_call env callee full_path (args_of a names)) (\<lambda>result.
           pure_result (py_getitem env result ''message'')))"

definition copy_worksheet :: "env \<Rightarrow> string \<Rightarrow> kwargs \<Rightarrow> pyval run" where
  "copy_worksheet env =
     message_tool env [ValidationError, SheetError] ''sheet.copy_sheet''
       [''source_sheet'', ''target_sheet'']"

definition delete_worksheet :: "env \<Rightarrow> string \<Rightarrow> kwargs \<Rightarrow> pyval run" where
  "delete_worksheet env =
     message_tool env [ValidationError, SheetError] ''sheet.delete_sheet'' [''sheet_name'']"

definition rename_worksheet :: "env \<Rightarrow> string \<Rightarrow> kwargs \<Rightarrow> pyval run" where
  "rename_worksheet env =
     message_tool env [ValidationError, SheetError] ''sheet.rename_sheet''
       [''old_name'', ''new_name'']"

definition get_workbook_metadata :: "env \<Rightarrow> string \<Rightarrow> kwargs \<Rightarrow> pyval run" where
  "get_workbook_metadata env filepath a =
     tool_except [WorkbookError]
       (let full_path = get_excel_path env filepath
        in then_do (workbook_py env ''get_workbook_info'' full_path
                      (args_of a [''include_ranges''])) (\<lambda>result.
           returns (PStr (str_of env result))))"

definition merge_cells :: "env \<Rightarrow> string \<Rightarrow> kwargs \<Rightarrow> pyval run" where
  "merge_cells env =
     message_tool env [ValidationError, SheetError] ''sheet.merge_range''
       [''sheet_name'', ''start_cell'', ''end_cell'']"

definition unmerge_cells :: "env \<Rightarrow> string \<Rightarrow> kwargs \<Rightarrow> pyval run" where
  "unmerge_cells env =
     message_tool env [ValidationError, SheetError] ''sheet.unmerge_range''
       [''sheet_name'', ''start_cell'', ''end_cell'']"

definition copy_range :: "env \<Rightarrow> string \<Rightarrow> kwargs \<Rightarrow> pyval run" where
  "copy_range env =
     message_tool env [ValidationError, SheetError] ''sheet.copy_range_operation''
       [''sheet_name'', ''source_start'', ''source_end'', ''target_start'', ''target_sheet'']"

definition delete_range :: "env \<Rightarrow> string \<Rightarrow> kwargs \<Rightarrow> pyval run" where
  "delete_range env =
     message_tool env [ValidationError, SheetError] ''sheet.delete_range_operation''
       [''sheet_name'', ''start_cell'', ''end_cell'', ''shift_direction'']"

definition validate_excel_range :: "env \<Rightarrow> string \<Rightarrow> kwargs \<Rightarrow> pyval run" where
  "validate_excel_range env filepath a =
     tool_except [ValidationError]
       (let full_path = get_excel_path env filepath;
            range_str = (if \<not> truthy (arg a ''end_cell'') then arg a ''start_cell''
                         else PStr (str_of env (arg a ''start_cell'') @ '':''
                                      @ str_of env (arg a ''end_cell'')))
        in then_do (lib_call env ''validation.validate_range_in_sheet_operation'' full_path
                      [(''sheet_name'', arg a ''sheet_name''),
                       (''range_str'', range_str)]) (\<lambda>result.
           pure_result (py_getitem env result ''message'')))"

text \<open>The tools that take a \<^verbatim>\<open>filepath\<close>, by name.\<close>

definition direct_tools :: "env \<Rightarrow> (string \<times> (string \<Rightarrow> kwargs \<Rightarrow> pyval run)) list" where
  "direct_tools env =
     [(''apply_formula'', apply_formula env),
      (''validate_formula_syntax'', validate_formula_syntax env),
      (''format_range'', format_range env),
      (''read_data_from_excel'', read_data_from_excel env),
      (''write_data_to_excel'', write_data_to_excel env),
      (''create_workbook'', create_workbook env),
      (''create_worksheet'', create_worksheet env),
      (''create_chart'', create_chart env),
      (''create_pivot_table'', create_pivot_table env),
      (''copy_worksheet'', copy_worksheet env),
      (''delete_worksheet'', delete_worksheet env),
      (''rename_worksheet'', rename_worksheet env),
      (''get_workbook_metadata'', get_workbook_metadata env),
      (''merge_cells'', merge_cells env),
      (''unmerge_cells'', unmerge_cells env),
      (''copy_range'', copy_range env),
      (''delete_range'', delete_range env),
      (''validate_excel_range'', validate_excel_range env)]"


section \<open>server.py: process_excel_from_url\<close>

text \<open>The parameters after \<^verbatim>\<open>filepath\<close> of the five tools the orchestrator can call,
  with their defaults.\<close>

definition format_range_sig :: signature where
  "format_range_sig =
     [(''sheet_name'', None), (''start_cell'', None), (''end_cell'', Some PNone),
      (''bold'', Some (PBool False)), (''italic'', Some (PBool False)),
      (''underline'', Some (PBool False)), (''font_size'', Some PNone),
      (''font_color'', Some PNone), (''bg_color'', Some PNone),
      (''border_style'', Some PNone), (''border_color'', Some PNone),
      (''number_format'', Some PNone), (''alignment'', Some PNone),
      (''wrap_text'', Some (PBool False)), (''merge_cells'', Some (PBool False)),
      (''protection'', Some PNone), (''conditional_format'', Some PNone)]"

definition apply_formula_sig :: signature where
  "apply_formula_sig = [(''sheet_name'', None), (''cell'', None), (''formula'', None)]"

definition write_data_to_excel_sig :: signature where
  "write_data_to_excel_sig =
     [(''sheet_name'', None), (''data'', None), (''start_cell'', Some (PStr ''A1'')),
      (''write_headers'', Some (PBool True))]"

definition create_chart_sig :: signature where
  "create_chart_sig =
     [(''sheet_name'', None), (''data_range'', None), (''chart_type'', None),
      (''target_cell'', None), (''title'', Some (PStr [])), (''x_axis'', Some (PStr [])),
      (''y_axis'', Some (PStr []))]"

definition create_pivot_table_sig :: signature where
  "create_pivot_table_sig =
     [(''sheet_name'', None), (''data_range'', None), (''rows'', None), (''values'', None),
      (''columns'', Some PNone), (''agg_func'', Some (PStr ''mean''))]"

text \<open>\<^verbatim>\<open>tool(processed_filepath, **params)\<close>: the call is recorded, the parameters are
  bound, the body runs.\<close>

definition call_tool ::
  "env \<Rightarrow> string \<Rightarrow> signature \<Rightarrow> (string \<Rightarrow> kwargs \<Rightarrow> pyval run) \<Rightarrow> string \<Rightarrow> kwargs
     \<Rightarrow> pyval run" where
  "call_tool env name sig body path params w =
     (let w1 = log_event (ToolCall name path params) w
      in case bind_kwargs env name sig params of
           Inl e \<Rightarrow> (Inl e, w1)
         | Inr a \<Rightarrow> body path a w1)"

text \<open>\<^verbatim>\<open>{k: v for k, v in operation_params.items() if k != "filepath"}\<close>\<close>

definition without_filepath :: "pyval \<Rightarrow> exc + kwargs" where
  "without_filepath operation_params =
     (case py_items operation_params of
        Inl e \<Rightarrow> Inl e
      | Inr items \<Rightarrow> Inr (dict_from_items (filter (\<lambda>(k, v). k \<noteq> ''filepath'') items)))"

text \<open>Lines 518 to 525: a string is decoded as JSON.\<close>

definition normalize_params :: "env \<Rightarrow> pyval \<Rightarrow> exc + pyval" where
  "normalize_params env operation_params =
     (case operation_params of
        PStr s \<Rightarrow>
          (case json_loads env s of
             Inl e \<Rightarrow> if kind e = JSONDecodeError
                      then Inl (Exc ValueError ''Invalid JSON format in operation_params'' None)
                      else Inl e
           | Inr v \<Rightarrow> Inr v)
      | _ \<Rightarrow> Inr operation_params)"

text \<open>Lines 527 to 546: the chain of comparisons on the operation's name.\<close>

definition dispatch :: "env \<Rightarrow> string \<Rightarrow> string \<Rightarrow> pyval \<Rightarrow> pyval run" where
  "dispatch env operation processed_filepath operation_params =
     (if operation = ''format_range'' then
        then_do (pure_result (without_filepath operation_params)) (\<lambda>params.
        call_tool env ''format_range'' format_range_sig (format_range env)
          processed_filepath params)
      else if operation = ''apply_formula'' then
        then_do (pure_result (without_filepath operation_params)) (\<lambda>params.
        call_tool env ''apply_formula'' apply_formula_sig (apply_formula env)
          processed_filepath params)
      else if operation = ''write_data_to_excel'' then
        then_do (pure_result (without_filepath operation_params)) (\<lambda>params.
        call_tool env ''write_data_to_excel'' write_data_to_excel_sig (write_data_to_excel env)
          processed_filepath params)
      else if operation = ''create_chart'' then
        then_do (pure_result (without_filepath operation_params)) (\<lambda>params.
        call_tool env ''create_chart'' create_chart_sig (create_chart env)
          processed_filepath params)
      else if operation = ''create_pivot_table'' then
        then_do (pure_result (without_filepath operation_params)) (\<lambda>params.
        call_tool env ''create_pivot_table'' create_pivot_table_sig (create_pivot_table env)
          processed_filepath params)
      else raises (Exc ValueError (''Unsupported operation: '' @ operation) None))"

definition temp_filepath :: "env \<Rightarrow> string" where
  "temp_filepath env =
     os_path_join (gettempdir env) (''temp_excel_'' @ uuid_str (uuid4 env) @ ''.xlsx'')"

definition processed_filepath :: "env \<Rightarrow> string \<Rightarrow> string" where
  "processed_filepath env url =
     (let original_filename = os_path_basename (last (str_split CHR ''/'' url));
          processed_filename = ''processed_'' @ original_filename
      in os_path_join (EXCEL_FILES_PATH env) processed_filename)"

definition success_message :: "env \<Rightarrow> string \<Rightarrow> upload_result \<Rightarrow> pyval \<Rightarrow> string" where
  "success_message env operation upload_result result_message =
     ''Operation '' @ squote @ operation @ squote
       @ '' completed successfully. Processed file available at: '' @ file_url upload_result
       @ newline @ ''Operation result: '' @ str_of env result_message"

text \<open>The body of the \<^verbatim>\<open>try\<close> statement, lines 494 to 555.\<close>

definition process_excel_from_url_body ::
  "env \<Rightarrow> string \<Rightarrow> string \<Rightarrow> pyval \<Rightarrow> string run" where
  "process_excel_from_url_body env url operation operation_params =
     then_do (download_file_from_url env url (temp_filepath env)) (\<lambda>_.
     then_do (shutil_copy2 env (temp_filepath env) (processed_filepath env url)) (\<lambda>_.
     then_do (pure_result (normalize_params env operation_params)) (\<lambda>operation_params.
     then_do (dispatch env operation (processed_filepath env url) operation_params)
       (\<lambda>result_message.
     then_do (upload_file_to_server env (processed_filepath env url)) (\<lambda>upload_result.
     then_do (os_remove env (temp_filepath env)) (\<lambda>_.
     returns (success_message env operation upload_result result_message)))))))"

text \<open>Lines 556 to 558: \<^verbatim>\<open>except Exception as e\<close>, a new \<^verbatim>\<open>WorkbookError\<close> raised without
  \<^verbatim>\<open>from\<close>.\<close>

definition process_excel_from_url :: "env \<Rightarrow> string \<Rightarrow> string \<Rightarrow> pyval \<Rightarrow> string run" where
  "process_excel_from_url env url operation operation_params =
     try_except (process_excel_from_url_body env url operation operation_params)
       (\<lambda>e. raises (Exc WorkbookError
                       (''Failed to process Excel from URL: '' @ message e) None))"

text \<open>The five names the chain of comparisons knows.\<close>

definition supported_operations :: "string list" where
  "supported_operations =
     [''format_range'', ''apply_formula'', ''write_data_to_excel'', ''create_chart'',
      ''create_pivot_table'']"

section \<open>The registry and the trace\<close>

text \<open>
  The spec's operation registry, after its words: "a fixed mapping from operation name to
  the corresponding spreadsheet-operation entry point", here with the entry point's
  signature. The code has no such table; its chain of comparisons is \<^verbatim>\<open>dispatch\<close>, and
  the two are compared below.
\<close>

definition operation_registry ::
  "env \<Rightarrow> (string \<times> signature \<times> (string \<Rightarrow> kwargs \<Rightarrow> pyval run)) list" where
  "operation_registry env =
     [(''format_range'', format_range_sig, format_range env),
      (''apply_formula'', apply_formula_sig, apply_formula env),
      (''write_data_to_excel'', write_data_to_excel_sig, write_data_to_excel env),
      (''create_chart'', create_chart_sig, create_chart env),
      (''create_pivot_table'', create_pivot_table_sig, create_pivot_table env)]"

fun is_tool_call :: "event \<Rightarrow> bool" where
  "is_tool_call (ToolCall name path params) = True"
| "is_tool_call ev = False"


section \<open>What a call into the library may change\<close>

text \<open>From \<^verbatim>\<open>w\<close> to \<^verbatim>\<open>w'\<close> only the file at \<^verbatim>\<open>p\<close> changed, and only calls into the
  library with that path were added to the trace.\<close>

definition lib_step :: "string \<Rightarrow> world \<Rightarrow> world \<Rightarrow> bool" where
  "lib_step p w w' \<longleftrightarrow>
     (\<forall>q. q \<noteq> p \<longrightarrow> files w' q = files w q) \<and>
     (\<exists>evs. trace w' = trace w @ evs \<and> (\<forall>ev \<in> set evs. \<exists>n a. ev = LibCall n p a))"

section \<open>A sample environment\<close>

text \<open>
  An environment to evaluate the definitions on. The working directory is
  \<^verbatim>\<open>/srv/excel_files\<close>. The download delivers two chunks, except that
  \<^verbatim>\<open>http://x/missing.xlsx\<close> is answered 404. The file server accepts every upload but
  \<^verbatim>\<open>processed_huge.xlsx\<close>, which it refuses with status 413. A library function fails on a
  file that does not exist, the formula validation fails with a \<^verbatim>\<open>ValidationError\<close> on the
  formula \<^verbatim>\<open>A1+1\<close>, \<^verbatim>\<open>calculations.apply_formula\<close> fails with a \<^verbatim>\<open>CalculationError\<close>
  on the formula \<^verbatim>\<open>=1/0\<close>, every function fails with a \<^verbatim>\<open>SheetError\<close> on the sheet
  \<^verbatim>\<open>Missing\<close>; otherwise it succeeds and appends a mark to the file. Of the JSON texts the
  decoder knows the empty object and the empty array.
\<close>

definition demo_lib ::
  "string \<Rightarrow> string \<Rightarrow> kwargs \<Rightarrow> string option \<Rightarrow> (exc + pyval) \<times> string option" where
  "demo_lib name path args content =
     (case content of
        None \<Rightarrow> (Inl (no_such_file path), None)
      | Some c \<Rightarrow>
          if name = ''validation.validate_formula_in_cell_operation''
               \<and> map_of args ''formula'' = Some (PStr ''A1+1'')
          then (Inl (Exc ValidationError ''Formula must start with ='' None), Some c)
          else if name = ''calculations.apply_formula''
               \<and> map_of args ''formula'' = Some (PStr ''=1/0'')
          then (Inl (Exc CalculationError ''division by zero'' None), Some c)
          else if map_of args ''sheet_name'' = Some (PStr ''Missing'')
          then (Inl (Exc SheetError ''Sheet Missing not found'' None), Some c)
          else (Inr (PDict [(''message'', PStr (name @ '' done''))]), Some (c @ ''+'')))"

definition demo_json :: "string \<Rightarrow> exc + pyval" where
  "demo_json s =
     (if s = ''{}'' then Inr (PDict [])
      else if s = ''[]'' then Inr (PList [])
      else Inl (Exc JSONDecodeError ''Expecting value'' None))"

definition demo_get :: "string \<Rightarrow> exc + get_response" where
  "demo_get url =
     (if url = ''http://x/missing.xlsx''
      then Inr \<lparr>status_error = Some (Exc (OtherException ''HTTPError'')
                                       ''404 Client Error: Not Found'' None),
                chunks = [], stream_error = None\<rparr>
      else Inr \<lparr>status_error = None, chunks = [''PK'', ''34''], stream_error = None\<rparr>)"

definition demo_post :: "string \<Rightarrow> string \<Rightarrow> string \<Rightarrow> exc + post_response" where
  "demo_post endpoint name content =
     (if name = ''processed_huge.xlsx''
      then Inr \<lparr>status_code = 413, body_text = ''file too large''\<rparr>
      else Inr \<lparr>status_code = 200, body_text = ''ok''\<rparr>)"

definition demo_env :: env where
  "demo_env =
     \<lparr>EXCEL_FILES_PATH = ''/srv/excel_files'',
      gettempdir = ''/tmp'',
      uuid4 = 0,
      http_get = demo_get,
      http_post = demo_post,
      json_loads = demo_json,
      os_fault = (\<lambda>call path. None),
      py_repr = (\<lambda>v. ''<value>''),
      bind_error_text = (\<lambda>name params. name @ ''() got unexpected arguments''),
      type_error_text = (\<lambda>what v. ''unsupported operand''),
      workbook_py = (\<lambda>name path args w. (Inr (PDict [(''message'', PStr ''done'')]), w)),
      lib = demo_lib\<rparr>"

definition demo_url :: string where
  "demo_url = ''http://x/test.xlsx''"

definition demo_params :: pyval where
  "demo_params =
     PDict [(''filepath'', PStr ''other.xlsx''), (''sheet_name'', PStr ''Sheet1''),
            (''cell'', PStr ''B2''), (''formula'', PStr ''=A1+1'')]"

definition empty_world :: world where
  "empty_world = \<lparr>files = Map.empty, trace = []\<rparr>"

section \<open>Paths\<close>

lemma takeWhile_no_slash:
  "CHR ''/'' \<notin> set b \<Longrightarrow> takeWhile (\<lambda>c. c \<noteq> CHR ''/'') (rev b) = rev b"
  by (rule takeWhile_eq_all_conv [THEN iffD2]) auto

lemma basename_no_slash: "CHR ''/'' \<notin> set b \<Longrightarrow> os_path_basename b = b"
  by (simp add: os_path_basename_def takeWhile_no_slash)

lemma basename_append_slash: "os_path_basename (a @ CHR ''/'' # b) = os_path_basename b"
proof (cases "CHR ''/'' \<in> set b")
  case True
  then show ?thesis by (auto simp: os_path_basename_def takeWhile_append)
next
  case False
  then show ?thesis by (simp add: os_path_basename_def takeWhile_append takeWhile_no_slash)
qed

lemma basename_has_no_slash: "CHR ''/'' \<notin> set (os_path_basename p)"
  unfolding os_path_basename_def
  by (metis (mono_tags, lifting) set_rev set_takeWhileD)

lemma basename_append_last_slash:
  assumes "a \<noteq> []" and "last a = CHR ''/''"
  shows "os_path_basename (a @ b) = os_path_basename b"
proof -
  obtain a' where a: "a = a' @ [CHR ''/'']"
    using assms by (metis append_butlast_last_id)
  show ?thesis
    unfolding a by (simp add: basename_append_slash)
qed

lemma basename_join: "os_path_basename (os_path_join a b) = os_path_basename b"
proof (cases "a = []")
  case True
  then show ?thesis by (simp add: os_path_join_def)
next
  case False
  then show ?thesis
    by (simp add: os_path_join_def basename_append_slash basename_append_last_slash)
qed

lemma str_split_nonempty: "str_split sep s \<noteq> []"
  by (induction s) (auto split: list.splits)

lemma str_split_no_sep: "sep \<notin> set s \<Longrightarrow> str_split sep s = [s]"
  by (induction s) auto

lemma str_split_sep: "sep \<in> set s \<Longrightarrow> tl (str_split sep s) \<noteq> []"
  by (induction s) (auto simp: str_split_nonempty split: list.splits)

lemma last_str_split: "last (str_split CHR ''/'' url) = os_path_basename url"
proof (induction url)
  case Nil
  then show ?case by (simp add: os_path_basename_def)
next
  case (Cons c cs)
  show ?case
  proof (cases "c = CHR ''/''")
    case True
    have "os_path_basename (c # cs) = os_path_basename cs"
      using True basename_append_slash [of "[]" cs] by simp
    then show ?thesis
      using True Cons.IH by (simp add: str_split_nonempty)
  next
    case False
    show ?thesis
    proof (cases "CHR ''/'' \<in> set cs")
      case True
      then obtain p q ps where sp: "str_split CHR ''/'' cs = p # q # ps"
        using str_split_sep [OF True] str_split_nonempty [of "CHR ''/''" cs]
        by (metis list.exhaust list.sel(3))
      have "os_path_basename (c # cs) = os_path_basename cs"
        using True by (auto simp: os_path_basename_def takeWhile_append)
      then show ?thesis
        using False Cons.IH sp by simp
    next
      case nos: False
      then show ?thesis
        using False by (simp add: str_split_no_sep basename_no_slash)
    qed
  qed
qed

lemma hex_digit_cases: "hex_digit n \<in> set ''0123456789abcdef''"
  unfolding hex_digit_def by (rule nth_mem) simp

lemma hex_digit_no_slash: "hex_digit n \<noteq> CHR ''/''"
  using hex_digit_cases [of n] by auto

lemma hex32_no_slash: "CHR ''/'' \<notin> set (hex32 u)"
  using hex_digit_no_slash by (fastforce simp: hex32_def)

lemma uuid_str_no_slash: "CHR ''/'' \<notin> set (uuid_str u)"
proof -
  have "\<And>n. CHR ''/'' \<notin> set (take n (hex32 u))" "\<And>n. CHR ''/'' \<notin> set (drop n (hex32 u))"
    using hex32_no_slash by (meson in_set_takeD in_set_dropD)+
  then show ?thesis
    using hex32_no_slash by (auto simp: uuid_str_def Let_def dest: in_set_takeD in_set_dropD)
qed

lemma basename_temp:
  "os_path_basename (temp_filepath env) = ''temp_excel_'' @ uuid_str (uuid4 env) @ ''.xlsx''"
  unfolding temp_filepath_def basename_join
  by (rule basename_no_slash) (simp add: uuid_str_no_slash)

lemma basename_processed:
  "os_path_basename (processed_filepath env url) = ''processed_'' @ os_path_basename url"
  by (simp add: processed_filepath_def basename_join last_str_split basename_no_slash
      basename_has_no_slash)

lemma basename_get_excel_path:
  "os_path_basename (get_excel_path env p) = os_path_basename p"
  by (simp add: get_excel_path_def basename_join)

lemma temp_ne_processed: "temp_filepath env \<noteq> processed_filepath env url"
proof
  assume "temp_filepath env = processed_filepath env url"
  then have "os_path_basename (temp_filepath env) = os_path_basename (processed_filepath env url)"
    by simp
  then show False
    by (simp add: basename_temp basename_processed)
qed

lemma temp_ne_resolved: "get_excel_path env (processed_filepath env url) \<noteq> temp_filepath env"
proof
  assume "get_excel_path env (processed_filepath env url) = temp_filepath env"
  then have "os_path_basename (get_excel_path env (processed_filepath env url))
      = os_path_basename (temp_filepath env)"
    by simp
  then show False
    by (simp add: basename_get_excel_path basename_temp basename_processed)
qed

lemma processed_filepath_eq:
  "processed_filepath env url =
     os_path_join (EXCEL_FILES_PATH env) (''processed_'' @ os_path_basename url)"
  by (simp add: processed_filepath_def last_str_split basename_no_slash basename_has_no_slash)

section \<open>The stages, one by one\<close>

lemma lib_step_refl: "lib_step p w w"
  by (simp add: lib_step_def)

lemma lib_step_trans: "lib_step p w w1 \<Longrightarrow> lib_step p w1 w2 \<Longrightarrow> lib_step p w w2"
  unfolding lib_step_def by (elim conjE exE) (rule conjI, simp, rule_tac x = "evs @ evsa" in exI, auto)

lemma lib_call_step: "lib_call env n p a w = (r, w') \<Longrightarrow> lib_step p w w'"
  by (auto simp: lib_call_def lib_step_def log_event_def Let_def split: prod.splits)

lemma then_do_step:
  assumes "then_do m f w = (r, w')"
    and "\<And>w r w'. m w = (r, w') \<Longrightarrow> lib_step p w w'"
    and "\<And>x w r w'. f x w = (r, w') \<Longrightarrow> lib_step p w w'"
  shows "lib_step p w w'"
  using assms(1) assms(2) assms(3) lib_step_trans
  by (fastforce simp: then_do_def split: prod.splits sum.splits)

lemma try_except_step:
  assumes "try_except m h w = (r, w')"
    and "\<And>w r w'. m w = (r, w') \<Longrightarrow> lib_step p w w'"
    and "\<And>x w r w'. h x w = (r, w') \<Longrightarrow> lib_step p w w'"
  shows "lib_step p w w'"
  using assms(1) assms(2) assms(3) lib_step_trans
  by (fastforce simp: try_except_def split: prod.splits sum.splits)

lemma pure_step: "pure_result x w = (r, w') \<Longrightarrow> lib_step p w w'"
  by (auto simp: pure_result_def lib_step_refl)

lemma returns_step: "returns x w = (r, w') \<Longrightarrow> lib_step p w w'"
  by (auto simp: returns_def lib_step_refl)

lemma raises_step: "raises x w = (r, w') \<Longrightarrow> lib_step p w w'"
  by (auto simp: raises_def lib_step_refl)

lemma tool_except_step:
  assumes "tool_except kinds body w = (r, w')"
    and "\<And>w r w'. body w = (r, w') \<Longrightarrow> lib_step p w w'"
  shows "lib_step p w w'"
  using assms(1) unfolding tool_except_def
  by (rule try_except_step) (auto intro: assms(2) returns_step raises_step split: if_splits)

lemma message_tool_step:
  "message_tool env kinds callee names filepath a w = (r, w')
     \<Longrightarrow> lib_step (get_excel_path env filepath) w w'"
  unfolding message_tool_def Let_def
  by (erule tool_except_step, erule then_do_step, erule lib_call_step, erule pure_step)

lemma apply_formula_step:
  "apply_formula env filepath a w = (r, w') \<Longrightarrow> lib_step (get_excel_path env filepath) w w'"
  unfolding apply_formula_def apply_formula_try_def Let_def
  apply (erule tool_except_step, erule then_do_step, erule lib_call_step)
  apply (simp split: if_splits)
   apply (erule then_do_step, erule pure_step, erule returns_step)
  apply (erule then_do_step, erule lib_call_step, erule pure_step)
  done

lemma format_range_step:
  "format_range env filepath a w = (r, w') \<Longrightarrow> lib_step (get_excel_path env filepath) w w'"
  unfolding format_range_def format_range_try_def Let_def
  by (erule tool_except_step, erule then_do_step, erule lib_call_step, erule returns_step)

lemma write_data_to_excel_step:
  "write_data_to_excel env filepath a w = (r, w')
     \<Longrightarrow> lib_step (get_excel_path env filepath) w w'"
  unfolding write_data_to_excel_def write_data_to_excel_try_def Let_def
  by (erule tool_except_step, erule then_do_step, erule lib_call_step, erule pure_step)

lemma create_chart_step:
  "create_chart env filepath a w = (r, w') \<Longrightarrow> lib_step (get_excel_path env filepath) w w'"
  unfolding create_chart_def create_chart_try_def Let_def
  by (erule tool_except_step, erule then_do_step, erule lib_call_step, erule pure_step)

lemma create_pivot_table_step:
  "create_pivot_table env filepath a w = (r, w')
     \<Longrightarrow> lib_step (get_excel_path env filepath) w w'"
  unfolding create_pivot_table_def create_pivot_table_try_def Let_def
  by (erule tool_except_step, erule then_do_step, erule lib_call_step, erule pure_step)

lemma upload_missing:
  "files w p = None \<Longrightarrow>
     upload_file_to_server env p w =
       (Inl (Exc WorkbookError (''Failed to upload file: File not found: '' @ p) None), w)"
  by (simp add: upload_file_to_server_def try_except_def raises_def os_path_exists_def)

lemma upload_non200:
  assumes "files w p = Some c" and "os_fault env ''open_rb'' p = None"
    and "http_post env UPLOAD_ENDPOINT (os_path_basename p) c = Inr resp"
    and "status_code resp \<noteq> 200"
  shows "upload_file_to_server env p w =
     (Inl (Exc WorkbookError
         (''Failed to upload file: Failed to upload file: '' @ body_text resp) None),
      log_event (HttpPost UPLOAD_ENDPOINT (os_path_basename p) c) w)"
  using assms
  by (simp add: upload_file_to_server_def try_except_def raises_def os_path_exists_def
      then_do_def open_rb_def requests_post_def Let_def)

lemma upload_200:
  assumes "files w p = Some c" and "os_fault env ''open_rb'' p = None"
    and "http_post env UPLOAD_ENDPOINT (os_path_basename p) c = Inr resp"
    and "status_code resp = 200"
  shows "upload_file_to_server env p w =
     (Inr \<lparr>up_message = ''File uploaded successfully'',
           file_url = FILE_ACCESS_BASE_URL @ os_path_basename p,
           up_filename = os_path_basename p\<rparr>,
      log_event (HttpPost UPLOAD_ENDPOINT (os_path_basename p) c) w)"
  using assms
  by (simp add: upload_file_to_server_def try_except_def returns_def os_path_exists_def
      then_do_def open_rb_def requests_post_def Let_def)

lemma upload_success:
  assumes "upload_file_to_server env p w = (Inr up, w')"
  shows "\<exists>c resp. files w p = Some c \<and> os_fault env ''open_rb'' p = None
      \<and> http_post env UPLOAD_ENDPOINT (os_path_basename p) c = Inr resp
      \<and> status_code resp = 200
      \<and> up = \<lparr>up_message = ''File uploaded successfully'',
                file_url = FILE_ACCESS_BASE_URL @ os_path_basename p,
                up_filename = os_path_basename p\<rparr>
      \<and> w' = log_event (HttpPost UPLOAD_ENDPOINT (os_path_basename p) c) w"
  using assms
  by (auto simp: upload_file_to_server_def try_except_def returns_def raises_def
      os_path_exists_def then_do_def open_rb_def requests_post_def Let_def
      split: if_splits option.splits sum.splits prod.splits)

lemma upload_world:
  assumes "upload_file_to_server env p w = (r, w')"
  shows "files w' = files w \<and>
     (w' = w \<or> (\<exists>c. files w p = Some c
                  \<and> w' = log_event (HttpPost UPLOAD_ENDPOINT (os_path_basename p) c) w))"
  using assms
  by (auto simp: upload_file_to_server_def try_except_def returns_def raises_def
      os_path_exists_def then_do_def open_rb_def requests_post_def Let_def log_event_def
      split: if_splits option.splits sum.splits prod.splits)

lemma upload_failure:
  assumes "upload_file_to_server env p w = (Inl e, w')"
  shows "kind e = WorkbookError \<and> cause e = None
     \<and> (\<exists>d. message e = ''Failed to upload file: '' @ d)"
  using assms
  by (auto simp: upload_file_to_server_def try_except_def returns_def raises_def
      os_path_exists_def then_do_def open_rb_def requests_post_def Let_def log_event_def
      split: if_splits option.splits sum.splits prod.splits)

lemma fold_file_write_trace: "trace (fold (file_write p) cs w) = trace w"
  by (induction cs arbitrary: w) (auto simp: file_write_def)

lemma fold_file_write_other: "q \<noteq> p \<Longrightarrow> files (fold (file_write p) cs w) q = files w q"
  by (induction cs arbitrary: w) (auto simp: file_write_def)

lemma fold_file_write_exists:
  "files w p = Some c \<Longrightarrow> \<exists>y. files (fold (file_write p) cs w) p = Some y"
  by (induction cs arbitrary: w c) (auto simp: file_write_def)

lemma download_world:
  assumes "download_file_from_url env url sp w = (r, w')"
  shows "trace w' = trace w @ [HttpGet url] \<and> (\<forall>q. q \<noteq> sp \<longrightarrow> files w' q = files w q)"
  using assms
  by (auto simp: download_file_from_url_def try_except_def then_do_def requests_get_def
      log_event_def raises_def returns_def os_makedirs_def open_wb_def
      fold_file_write_trace fold_file_write_other
      split: sum.splits prod.splits option.splits if_splits)

lemma download_success:
  assumes "download_file_from_url env url sp w = (Inr x, w')"
  shows "x = sp \<and> files w' sp \<noteq> None"
  using assms
  by (auto simp: download_file_from_url_def try_except_def then_do_def requests_get_def
      log_event_def raises_def returns_def os_makedirs_def open_wb_def
      fold_file_write_exists
      split: sum.splits prod.splits option.splits if_splits)

lemma download_failure:
  assumes "download_file_from_url env url sp w = (Inl e, w')"
  shows "kind e = WorkbookError \<and> cause e = None
     \<and> (\<exists>d. message e = ''Failed to download file: '' @ d)"
  using assms
  by (auto simp: download_file_from_url_def try_except_def then_do_def requests_get_def
      log_event_def raises_def returns_def os_makedirs_def open_wb_def
      split: sum.splits prod.splits option.splits if_splits)

lemma copy2_world:
  assumes "shutil_copy2 env s d w = (r, w')"
  shows "trace w' = trace w \<and> (\<forall>q. q \<noteq> d \<longrightarrow> files w' q = files w q)
     \<and> (r = Inr () \<longrightarrow> files w' d = files w s \<and> files w s \<noteq> None)
     \<and> (\<forall>e. r = Inl e \<longrightarrow> w' = w)"
  using assms
  by (auto simp: shutil_copy2_def split: option.splits)

lemma os_remove_world:
  assumes "os_remove env p w = (r, w')"
  shows "trace w' = trace w \<and> (\<forall>q. q \<noteq> p \<longrightarrow> files w' q = files w q)
     \<and> (r = Inr () \<longrightarrow> files w' p = None)
     \<and> (\<forall>e. r = Inl e \<longrightarrow> w' = w)"
  using assms
  by (auto simp: os_remove_def split: option.splits)

lemma dispatch_unsupported:
  "operation \<notin> set supported_operations \<Longrightarrow>
     dispatch env operation p ps w =
       (Inl (Exc ValueError (''Unsupported operation: '' @ operation) None), w)"
  by (simp add: dispatch_def supported_operations_def raises_def)

lemma call_tool_step:
  assumes "call_tool env name sig body p params w = (r, w')"
    and "\<And>a w r w'. body p a w = (r, w') \<Longrightarrow> lib_step q w w'"
  shows "lib_step q (log_event (ToolCall name p params) w) w'"
  using assms
  by (auto simp: call_tool_def Let_def lib_step_refl split: sum.splits)

lemma dispatch_world:
  assumes "dispatch env operation p ps w = (r, w')"
  shows "w' = w \<or> (\<exists>params. operation \<in> set supported_operations
           \<and> without_filepath ps = Inr params
           \<and> lib_step (get_excel_path env p) (log_event (ToolCall operation p params) w) w')"
  using assms
  unfolding dispatch_def supported_operations_def then_do_def pure_result_def raises_def
  by (auto split: if_splits sum.splits
      dest: call_tool_step [OF _ format_range_step] call_tool_step [OF _ apply_formula_step]
        call_tool_step [OF _ write_data_to_excel_step] call_tool_step [OF _ create_chart_step]
        call_tool_step [OF _ create_pivot_table_step])

lemma dispatch_supported:
  assumes "dispatch env operation p ps w = (r, w')"
    and "operation \<in> set supported_operations"
    and "without_filepath ps = Inr params"
  shows "lib_step (get_excel_path env p) (log_event (ToolCall operation p params) w) w'"
  using assms
  unfolding dispatch_def supported_operations_def then_do_def pure_result_def raises_def
  by (auto split: if_splits sum.splits
      dest: call_tool_step [OF _ format_range_step] call_tool_step [OF _ apply_formula_step]
        call_tool_step [OF _ write_data_to_excel_step] call_tool_step [OF _ create_chart_step]
        call_tool_step [OF _ create_pivot_table_step])

lemma dispatch_files:
  assumes "dispatch env operation p ps w = (r, w')" and "q \<noteq> get_excel_path env p"
  shows "files w' q = files w q"
  using dispatch_world [OF assms(1)] assms(2)
  by (auto simp: lib_step_def log_event_def)

section \<open>The sample run\<close>

lemma uuid_str_zero: "uuid_str 0 = ''00000000-0000-0000-0000-000000000000''"
  by code_simp

lemma demo_temp:
  "temp_filepath demo_env = ''/tmp/temp_excel_00000000-0000-0000-0000-000000000000.xlsx''"
  by (simp add: temp_filepath_def demo_env_def uuid_str_zero os_path_join_def os_path_isabs_def)

lemma demo_processed:
  "processed_filepath demo_env demo_url = ''/srv/excel_files/processed_test.xlsx''"
  by (simp add: processed_filepath_def demo_env_def demo_url_def os_path_join_def
      os_path_isabs_def os_path_basename_def)

lemma demo_run_fst:
  "fst (process_excel_from_url demo_env demo_url ''apply_formula'' demo_params empty_world) =
     Inr (''Operation '' @ squote @ ''apply_formula'' @ squote
            @ '' completed successfully. Processed file available at: ''
            @ ''http://localhost:3001/files/processed_test.xlsx'' @ newline
            @ ''Operation result: calculations.apply_formula done'')"
  by code_simp

lemma demo_download:
  "download_file_from_url demo_env demo_url (temp_filepath demo_env) empty_world =
     (Inr (temp_filepath demo_env),
      \<lparr>files = [temp_filepath demo_env \<mapsto> ''PK34''], trace = [HttpGet demo_url]\<rparr>)"
  unfolding demo_temp
  by (simp add: download_file_from_url_def try_except_def then_do_def requests_get_def
      log_event_def returns_def os_makedirs_def open_wb_def file_write_def
      os_path_dirname_def demo_env_def demo_get_def demo_url_def empty_world_def)

section \<open>The orchestrator, stage by stage\<close>

lemma peu_success_stages:
  assumes "process_excel_from_url env url operation operation_params w = (Inr s, w')"
  shows "\<exists>x w1 w2 ps msg w3 up w4.
      download_file_from_url env url (temp_filepath env) w = (Inr x, w1)
      \<and> shutil_copy2 env (temp_filepath env) (processed_filepath env url) w1 = (Inr (), w2)
      \<and> normalize_params env operation_params = Inr ps
      \<and> dispatch env operation (processed_filepath env url) ps w2 = (Inr msg, w3)
      \<and> upload_file_to_server env (processed_filepath env url) w3 = (Inr up, w4)
      \<and> os_remove env (temp_filepath env) w4 = (Inr (), w')
      \<and> s = success_message env operation up msg"
  using assms
  unfolding process_excel_from_url_def process_excel_from_url_body_def try_except_def
    then_do_def pure_result_def returns_def raises_def
  by (auto split: sum.splits prod.splits)

lemma peu_failure_stages:
  assumes "process_excel_from_url env url operation operation_params w = (Inl e, w')"
  shows "\<exists>e0. e = Exc WorkbookError (''Failed to process Excel from URL: '' @ message e0) None
     \<and> (download_file_from_url env url (temp_filepath env) w = (Inl e0, w')
        \<or> (\<exists>x w1. download_file_from_url env url (temp_filepath env) w = (Inr x, w1)
            \<and> (shutil_copy2 env (temp_filepath env) (processed_filepath env url) w1 = (Inl e0, w')
               \<or> (\<exists>w2. shutil_copy2 env (temp_filepath env) (processed_filepath env url) w1
                            = (Inr (), w2)
                   \<and> (normalize_params env operation_params = Inl e0 \<and> w' = w2
                      \<or> (\<exists>ps. normalize_params env operation_params = Inr ps
                          \<and> (dispatch env operation (processed_filepath env url) ps w2 = (Inl e0, w')
                             \<or> (\<exists>msg w3. dispatch env operation (processed_filepath env url) ps w2
                                            = (Inr msg, w3)
                                 \<and> (upload_file_to_server env (processed_filepath env url) w3
                                       = (Inl e0, w')
                                    \<or> (\<exists>up w4. upload_file_to_server env
                                                    (processed_filepath env url) w3 = (Inr up, w4)
                                        \<and> os_remove env (temp_filepath env) w4
                                              = (Inl e0, w')))))))))))"
  using assms
  unfolding process_excel_from_url_def process_excel_from_url_body_def try_except_def
    then_do_def pure_result_def returns_def raises_def
  by (auto split: sum.splits prod.splits)

lemma peu_download_fails:
  assumes "download_file_from_url env url (temp_filepath env) w = (Inl e0, w1)"
  shows "process_excel_from_url env url operation operation_params w =
     (Inl (Exc WorkbookError (''Failed to process Excel from URL: '' @ message e0) None), w1)"
  using assms
  unfolding process_excel_from_url_def process_excel_from_url_body_def try_except_def
    then_do_def pure_result_def returns_def raises_def
  by simp

lemma peu_copy_fails:
  assumes "download_file_from_url env url (temp_filepath env) w = (Inr x, w1)"
    and "shutil_copy2 env (temp_filepath env) (processed_filepath env url) w1 = (Inl e0, w2)"
  shows "process_excel_from_url env url operation operation_params w =
     (Inl (Exc WorkbookError (''Failed to process Excel from URL: '' @ message e0) None), w2)"
  using assms
  unfolding process_excel_from_url_def process_excel_from_url_body_def try_except_def
    then_do_def pure_result_def returns_def raises_def
  by simp

lemma peu_normalize_fails:
  assumes "download_file_from_url env url (temp_filepath env) w = (Inr x, w1)"
    and "shutil_copy2 env (temp_filepath env) (processed_filepath env url) w1 = (Inr (), w2)"
    and "normalize_params env operation_params = Inl e0"
  shows "process_excel_from_url env url operation operation_params w =
     (Inl (Exc WorkbookError (''Failed to process Excel from URL: '' @ message e0) None), w2)"
  using assms
  unfolding process_excel_from_url_def process_excel_from_url_body_def try_except_def
    then_do_def pure_result_def returns_def raises_def
  by simp

lemma peu_dispatch_fails:
  assumes "download_file_from_url env url (temp_filepath env) w = (Inr x, w1)"
    and "shutil_copy2 env (temp_filepath env) (processed_filepath env url) w1 = (Inr (), w2)"
    and "normalize_params env operation_params = Inr ps"
    and "dispatch env operation (processed_filepath env url) ps w2 = (Inl e0, w3)"
  shows "process_excel_from_url env url operation operation_params w =
     (Inl (Exc WorkbookError (''Failed to process Excel from URL: '' @ message e0) None), w3)"
  using assms
  unfolding process_excel_from_url_def process_excel_from_url_body_def try_except_def
    then_do_def pure_result_def returns_def raises_def
  by simp

lemma peu_upload_fails:
  assumes "download_file_from_url env url (temp_filepath env) w = (Inr x, w1)"
    and "shutil_copy2 env (temp_filepath env) (processed_filepath env url) w1 = (Inr (), w2)"
    and "normalize_params env operation_params = Inr ps"
    and "dispatch env operation (processed_filepath env url) ps w2 = (Inr msg, w3)"
    and "upload_file_to_server env (processed_filepath env url) w3 = (Inl e0, w4)"
  shows "process_excel_from_url env url operation operation_params w =
     (Inl (Exc WorkbookError (''Failed to process Excel from URL: '' @ message e0) None), w4)"
  using assms
  unfolding process_excel_from_url_def process_excel_from_url_body_def try_except_def
    then_do_def pure_result_def returns_def raises_def
  by simp

lemma peu_remove_fails:
  assumes "download_file_from_url env url (temp_filepath env) w = (Inr x, w1)"
    and "shutil_copy2 env (temp_filepath env) (processed_filepath env url) w1 = (Inr (), w2)"
    and "normalize_params env operation_params = Inr ps"
    and "dispatch env operation (processed_filepath env url) ps w2 = (Inr msg, w3)"
    and "upload_file_to_server env (processed_filepath env url) w3 = (Inr up, w4)"
    and "os_remove env (temp_filepath env) w4 = (Inl e0, w5)"
  shows "process_excel_from_url env url operation operation_params w =
     (Inl (Exc WorkbookError (''Failed to process Excel from URL: '' @ message e0) None), w5)"
  using assms
  unfolding process_excel_from_url_def process_excel_from_url_body_def try_except_def
    then_do_def pure_result_def returns_def raises_def
  by simp

lemma peu_succeeds:
  assumes "download_file_from_url env url (temp_filepath env) w = (Inr x, w1)"
    and "shutil_copy2 env (temp_filepath env) (processed_filepath env url) w1 = (Inr (), w2)"
    and "normalize_params env operation_params = Inr ps"
    and "dispatch env operation (processed_filepath env url) ps w2 = (Inr msg, w3)"
    and "upload_file_to_server env (processed_filepath env url) w3 = (Inr up, w4)"
    and "os_remove env (temp_filepath env) w4 = (Inr (), w5)"
  shows "process_excel_from_url env url operation operation_params w =
     (Inr (success_message env operation up msg), w5)"
  using assms
  unfolding process_excel_from_url_def process_excel_from_url_body_def try_except_def
    then_do_def pure_result_def returns_def raises_def
  by simp

lemma peu_no_dispatch:
  assumes nd: "(\<exists>e0. normalize_params env operation_params = Inl e0)
               \<or> operation \<notin> set supported_operations"
  shows "\<exists>e w'. process_excel_from_url env url operation operation_params w = (Inl e, w')
           \<and> kind e = WorkbookError \<and> trace w' = trace w @ [HttpGet url]"
proof (cases "download_file_from_url env url (temp_filepath env) w")
  case (Pair r1 w1)
  note d = download_world [OF Pair]
  show ?thesis
  proof (cases r1)
    case (Inl e0)
    then have "download_file_from_url env url (temp_filepath env) w = (Inl e0, w1)"
      using Pair by simp
    from peu_download_fails [OF this] show ?thesis
      using d by simp
  next
    case (Inr x)
    then have dl: "download_file_from_url env url (temp_filepath env) w = (Inr x, w1)"
      using Pair by simp
    show ?thesis
    proof (cases "shutil_copy2 env (temp_filepath env) (processed_filepath env url) w1")
      case cp: (Pair r2 w2)
      note c = copy2_world [OF cp]
      show ?thesis
      proof (cases r2)
        case (Inl e0)
        then have "shutil_copy2 env (temp_filepath env) (processed_filepath env url) w1
            = (Inl e0, w2)"
          using cp by simp
        from peu_copy_fails [OF dl this] show ?thesis
          using c d by simp
      next
        case r2: (Inr u)
        then have cp': "shutil_copy2 env (temp_filepath env) (processed_filepath env url) w1
            = (Inr (), w2)"
          using cp by simp
        show ?thesis
        proof (cases "normalize_params env operation_params")
          case (Inl e0)
          from peu_normalize_fails [OF dl cp' this] show ?thesis
            using c d by simp
        next
          case ps: (Inr ps)
          then have "operation \<notin> set supported_operations"
            using nd by simp
          then have "dispatch env operation (processed_filepath env url) ps w2 =
              (Inl (Exc ValueError (''Unsupported operation: '' @ operation) None), w2)"
            by (rule dispatch_unsupported)
          from peu_dispatch_fails [OF dl cp' ps this] show ?thesis
            using c d by simp
        qed
      qed
    qed
  qed
qed

lemma demo_stage_copy:
  "shutil_copy2 demo_env (temp_filepath demo_env) (processed_filepath demo_env demo_url)
     \<lparr>files = [temp_filepath demo_env \<mapsto> ''PK34''], trace = [HttpGet demo_url]\<rparr>
   = (Inr (),
      \<lparr>files = [temp_filepath demo_env \<mapsto> ''PK34'',
                 processed_filepath demo_env demo_url \<mapsto> ''PK34''],
       trace = [HttpGet demo_url]\<rparr>)"
  by (simp add: shutil_copy2_def demo_env_def)

lemma demo_normalize: "normalize_params demo_env demo_params = Inr demo_params"
  by (simp add: normalize_params_def demo_params_def)

lemma file_access_url:
  "FILE_ACCESS_BASE_URL @ os_path_basename (processed_filepath env url)
     = ''http://localhost:3001/files/processed_'' @ os_path_basename url"
  by (simp add: FILE_ACCESS_BASE_URL_def FILE_SERVER_URL_def basename_processed)

lemma str_of_string: "str_of env (PStr m) = m"
  by (simp add: str_of_def)

lemma dict_set_fresh: "k \<notin> set (map fst d) \<Longrightarrow> dict_set k v d = d @ [(k, v)]"
  by (induction d) auto

lemma dict_set_keys: "set (map fst (dict_set k v d)) = insert k (set (map fst d))"
proof (induction d)
  case Nil
  then show ?case by simp
next
  case (Cons x d)
  obtain k' v' where x: "x = (k', v')" by (cases x)
  have "set (map fst (dict_set k v ((k', v') # d))) = insert k (insert k' (set (map fst d)))"
    using Cons.IH by (cases "k' = k") (simp_all add: insert_commute del: set_map)
  then show ?case
    using x by (simp del: set_map)
qed

lemma foldl_dict_set_keys:
  "set (map fst (foldl (\<lambda>d (k, v). dict_set k v d) acc xs))
     = set (map fst acc) \<union> set (map fst xs)"
proof (induction xs arbitrary: acc)
  case Nil
  then show ?case by simp
next
  case (Cons x xs)
  obtain k v where x: "x = (k, v)" by (cases x)
  show ?case
    using Cons.IH [of "dict_set k v acc"] dict_set_keys [of k v acc] x
    by (simp del: set_map)
qed

lemma foldl_dict_set_distinct:
  "distinct (map fst (acc @ xs)) \<Longrightarrow> foldl (\<lambda>d (k, v). dict_set k v d) acc xs = acc @ xs"
proof (induction xs arbitrary: acc)
  case Nil
  then show ?case by simp
next
  case (Cons x xs)
  obtain k v where x: "x = (k, v)" by (cases x)
  have "k \<notin> set (map fst acc)"
    using Cons.prems x by auto
  then have "dict_set k v acc = acc @ [(k, v)]"
    by (rule dict_set_fresh)
  moreover have "distinct (map fst ((acc @ [(k, v)]) @ xs))"
    using Cons.prems x by simp
  ultimately show ?case
    using Cons.IH [of "acc @ [(k, v)]"] x by simp
qed

lemma dict_from_items_keys: "set (map fst (dict_from_items xs)) = set (map fst xs)"
  using foldl_dict_set_keys [of "[]" xs] by (simp add: dict_from_items_def)

lemma dict_from_items_distinct: "distinct (map fst xs) \<Longrightarrow> dict_from_items xs = xs"
  using foldl_dict_set_distinct [of "[]" xs] by (simp add: dict_from_items_def)

lemma registry_supported:
  "(map_of (operation_registry env) operation = None) = (operation \<notin> set supported_operations)"
  by (simp add: operation_registry_def supported_operations_def)

lemma dispatch_registry:
  assumes "map_of (operation_registry env) operation = Some (sig, tool)"
  shows "dispatch env operation p (PDict d) w
           = call_tool env operation sig tool p
               (dict_from_items (filter (\<lambda>(k, v). k \<noteq> ''filepath'') d)) w"
  using assms
  by (auto simp: operation_registry_def dispatch_def then_do_def pure_result_def
      without_filepath_def py_items_def split: if_splits)

lemma peu_tail:
  assumes "download_file_from_url env url (temp_filepath env) w = (Inr x, w1)"
    and "shutil_copy2 env (temp_filepath env) (processed_filepath env url) w1 = (Inr (), w2)"
    and "normalize_params env operation_params = Inr ps"
    and "dispatch env operation (processed_filepath env url) ps w2 = (r, w3)"
  shows "\<exists>evs. trace (snd (process_excel_from_url env url operation operation_params w))
                 = trace w3 @ evs
           \<and> (\<forall>ev \<in> set evs. \<not> is_tool_call ev)
           \<and> (\<forall>e. r = Inl e \<longrightarrow> evs = [])"
proof (cases r)
  case (Inl e0)
  then show ?thesis
    using peu_dispatch_fails [OF assms(1) assms(2) assms(3), of operation e0 w3] assms(4)
    by simp
next
  case (Inr msg)
  then have di: "dispatch env operation (processed_filepath env url) ps w2 = (Inr msg, w3)"
    using assms(4) by simp
  obtain r4 w4 where up: "upload_file_to_server env (processed_filepath env url) w3 = (r4, w4)"
    by (cases "upload_file_to_server env (processed_filepath env url) w3")
  from upload_world [OF up] obtain evs where
    t4: "trace w4 = trace w3 @ evs" "\<forall>ev \<in> set evs. \<not> is_tool_call ev"
    by (auto simp: log_event_def)
  show ?thesis
  proof (cases r4)
    case (Inl e0)
    then show ?thesis
      using peu_upload_fails [OF assms(1) assms(2) assms(3) di, of e0 w4] up t4 Inr by auto
  next
    case upok: (Inr u)
    obtain r5 w5 where rm: "os_remove env (temp_filepath env) w4 = (r5, w5)"
      by (cases "os_remove env (temp_filepath env) w4")
    have t5: "trace w5 = trace w4"
      using os_remove_world [OF rm] by simp
    show ?thesis
    proof (cases r5)
      case (Inl e0)
      then show ?thesis
        using peu_remove_fails [OF assms(1) assms(2) assms(3) di, of u w4 e0 w5] up upok rm
          t4 t5 Inr by auto
    next
      case rmok: (Inr v)
      then show ?thesis
        using peu_succeeds [OF assms(1) assms(2) assms(3) di, of u w4 w5] up upok rm
          t4 t5 Inr by auto
    qed
  qed
qed

lemma lib_step_tool_calls:
  "lib_step q w w' \<Longrightarrow> filter is_tool_call (trace w') = filter is_tool_call (trace w)"
  by (fastforce simp: lib_step_def filter_empty_conv)

lemma filter_none: "\<forall>ev \<in> set evs. \<not> P ev \<Longrightarrow> filter P evs = []"
  by (simp add: filter_empty_conv)

lemma peu_files_after_download:
  assumes d: "download_file_from_url env url (temp_filepath env) w = (Inr x, w1)"
    and f: "process_excel_from_url env url operation operation_params w = (Inl e, w')"
  shows "files w' (temp_filepath env) \<noteq> None"
proof -
  let ?T = "temp_filepath env" and ?P = "processed_filepath env url"
  have t1: "files w1 ?T \<noteq> None"
    using download_success [OF d] by simp
  have ne: "?T \<noteq> ?P" "?T \<noteq> get_excel_path env ?P"
    using temp_ne_processed [of env url] temp_ne_resolved [of env url] by auto
  consider
      (copy) e0 where "shutil_copy2 env ?T ?P w1 = (Inl e0, w')"
    | (norm) w2 where "shutil_copy2 env ?T ?P w1 = (Inr (), w2)" "w' = w2"
    | (disp) e0 w2 ps where "shutil_copy2 env ?T ?P w1 = (Inr (), w2)"
        "dispatch env operation ?P ps w2 = (Inl e0, w')"
    | (upl) e0 w2 ps msg w3 where "shutil_copy2 env ?T ?P w1 = (Inr (), w2)"
        "dispatch env operation ?P ps w2 = (Inr msg, w3)"
        "upload_file_to_server env ?P w3 = (Inl e0, w')"
    | (rem) e0 w2 ps msg w3 up w4 where "shutil_copy2 env ?T ?P w1 = (Inr (), w2)"
        "dispatch env operation ?P ps w2 = (Inr msg, w3)"
        "upload_file_to_server env ?P w3 = (Inr up, w4)"
        "os_remove env ?T w4 = (Inl e0, w')"
    using peu_failure_stages [OF f] d by auto
  then show ?thesis
  proof cases
    case copy
    then show ?thesis
      using copy2_world [OF copy] t1 by simp
  next
    case norm
    then show ?thesis
      using copy2_world [OF norm(1)] t1 ne by simp
  next
    case disp
    then show ?thesis
      using copy2_world [OF disp(1)] dispatch_files [OF disp(2) ne(2)] t1 ne by simp
  next
    case upl
    then show ?thesis
      using copy2_world [OF upl(1)] dispatch_files [OF upl(2) ne(2)] upload_world [OF upl(3)]
        t1 ne by simp
  next
    case rem
    then show ?thesis
      using copy2_world [OF rem(1)] dispatch_files [OF rem(2) ne(2)] upload_world [OF rem(3)]
        os_remove_world [OF rem(4)] t1 ne by simp
  qed
qed

lemma peu_files_success:
  assumes "process_excel_from_url env url operation operation_params w = (Inr s, w')"
  shows "files w' (temp_filepath env) = None \<and> files w' (processed_filepath env url) \<noteq> None"
proof -
  let ?T = "temp_filepath env" and ?P = "processed_filepath env url"
  from peu_success_stages [OF assms] obtain w3 up w4 where
    up: "upload_file_to_server env ?P w3 = (Inr up, w4)"
    and rm: "os_remove env ?T w4 = (Inr (), w')"
    by blast
  have "files w3 ?P \<noteq> None"
    using upload_success [OF up] by auto
  then have "files w4 ?P \<noteq> None"
    using upload_world [OF up] by simp
  moreover have "?P \<noteq> ?T"
    using temp_ne_processed [of env url] by auto
  ultimately show ?thesis
    using os_remove_world [OF rm] by simp
qed

lemma validate_formula_syntax_step:
  "validate_formula_syntax env filepath a w = (r, w')
     \<Longrightarrow> lib_step (get_excel_path env filepath) w w'"
  unfolding validate_formula_syntax_def Let_def
  by (erule tool_except_step, erule then_do_step, erule lib_call_step, erule pure_step)

lemma read_data_from_excel_step:
  "read_data_from_excel env filepath a w = (r, w')
     \<Longrightarrow> lib_step (get_excel_path env filepath) w w'"
  unfolding read_data_from_excel_def Let_def
  apply (erule tool_except_step, erule then_do_step, erule lib_call_step)
  apply (simp split: if_splits)
   apply (erule returns_step)
  apply (erule then_do_step, erule pure_step, erule returns_step)
  done

lemma validate_excel_range_step:
  "validate_excel_range env filepath a w = (r, w')
     \<Longrightarrow> lib_step (get_excel_path env filepath) w w'"
  unfolding validate_excel_range_def Let_def
  by (erule tool_except_step, erule then_do_step, erule lib_call_step, erule pure_step)

lemma message_tool_resolve:
  "get_excel_path env f = get_excel_path env f'
     \<Longrightarrow> message_tool env kinds callee names f a = message_tool env kinds callee names f' a"
  by (simp add: message_tool_def)

lemma lib_tools_resolve:
  assumes "get_excel_path env f = get_excel_path env f'"
  shows "apply_formula env f a = apply_formula env f' a"
    and "validate_formula_syntax env f a = validate_formula_syntax env f' a"
    and "format_range env f a = format_range env f' a"
    and "read_data_from_excel env f a = read_data_from_excel env f' a"
    and "write_data_to_excel env f a = write_data_to_excel env f' a"
    and "create_chart env f a = create_chart env f' a"
    and "create_pivot_table env f a = create_pivot_table env f' a"
    and "validate_excel_range env f a = validate_excel_range env f' a"
  using assms
  by (simp_all add: apply_formula_def apply_formula_try_def validate_formula_syntax_def
      format_range_def format_range_try_def read_data_from_excel_def write_data_to_excel_def
      write_data_to_excel_try_def create_chart_def create_chart_try_def
      create_pivot_table_def create_pivot_table_try_def validate_excel_range_def)

lemma workbook_tools_resolve:
  assumes "get_excel_path env f = get_excel_path env f'"
  shows "create_workbook env f a = create_workbook env f' a"
    and "create_worksheet env f a = create_worksheet env f' a"
    and "get_workbook_metadata env f a = get_workbook_metadata env f' a"
  using assms
  by (simp_all add: create_workbook_def create_worksheet_def get_workbook_metadata_def)

lemma sheet_tools_resolve:
  assumes "get_excel_path env f = get_excel_path env f'"
  shows "copy_worksheet env f a = copy_worksheet env f' a"
    and "delete_worksheet env f a = delete_worksheet env f' a"
    and "rename_worksheet env f a = rename_worksheet env f' a"
    and "merge_cells env f a = merge_cells env f' a"
    and "unmerge_cells env f a = unmerge_cells env f' a"
    and "copy_range env f a = copy_range env f' a"
    and "delete_range env f a = delete_range env f' a"
  using message_tool_resolve [OF assms]
  by (simp_all add: copy_worksheet_def delete_worksheet_def rename_worksheet_def
      merge_cells_def unmerge_cells_def copy_range_def delete_range_def)

lemma direct_tools_resolve:
  assumes "(name, tool) \<in> set (direct_tools env)"
    and "get_excel_path env f = get_excel_path env f'"
  shows "tool f a = tool f' a"
  using assms(1) lib_tools_resolve [OF assms(2)] workbook_tools_resolve [OF assms(2)]
    sheet_tools_resolve [OF assms(2)]
  unfolding direct_tools_def by (elim set_ConsD [elim_format] disjE) simp_all

lemma sheet_tools_step:
  shows "copy_worksheet env f a w = (r, w') \<Longrightarrow> lib_step (get_excel_path env f) w w'"
    and "delete_worksheet env f a w = (r, w') \<Longrightarrow> lib_step (get_excel_path env f) w w'"
    and "rename_worksheet env f a w = (r, w') \<Longrightarrow> lib_step (get_excel_path env f) w w'"
    and "merge_cells env f a w = (r, w') \<Longrightarrow> lib_step (get_excel_path env f) w w'"
    and "unmerge_cells env f a w = (r, w') \<Longrightarrow> lib_step (get_excel_path env f) w w'"
    and "copy_range env f a w = (r, w') \<Longrightarrow> lib_step (get_excel_path env f) w w'"
    and "delete_range env f a w = (r, w') \<Longrightarrow> lib_step (get_excel_path env f) w w'"
  unfolding copy_worksheet_def delete_worksheet_def rename_worksheet_def merge_cells_def
    unmerge_cells_def copy_range_def delete_range_def
  by (erule message_tool_step)+

lemma direct_tools_library_path:
  assumes "(name, tool) \<in> set (direct_tools env)"
    and "name \<notin> {''create_workbook'', ''create_worksheet'', ''get_workbook_metadata''}"
  shows "lib_step (get_excel_path env f) w (snd (tool f a w))"
proof -
  obtain r w' where run: "tool f a w = (r, w')"
    by (cases "tool f a w")
  have "lib_step (get_excel_path env f) w w'"
    using assms run unfolding direct_tools_def
    by (elim set_ConsD [elim_format] disjE)
      (simp_all add: apply_formula_step validate_formula_syntax_step format_range_step
        read_data_from_excel_step write_data_to_excel_step create_chart_step
        create_pivot_table_step validate_excel_range_step sheet_tools_step)
  then show ?thesis
    using run by simp
qed

lemma tool_except_cases:
  "tool_except kinds body w =
     (case body w of
        (Inl e, w') \<Rightarrow>
          (if kind e \<in> set kinds then Inr (PStr (''Error: '' @ message e)) else Inl e, w')
      | (Inr m, w') \<Rightarrow> (Inr m, w'))"
  by (simp add: tool_except_def try_except_def returns_def raises_def
      split: prod.splits sum.splits)

lemma dispatch_runs_tool:
  assumes "map_of (operation_registry env) operation = Some (sig, tool)"
    and "bind_kwargs env operation sig
           (dict_from_items (filter (\<lambda>(k, v). k \<noteq> ''filepath'') d)) = Inr a"
  shows "dispatch env operation p (PDict d) w
     = tool p a (log_event (ToolCall operation p
                   (dict_from_items (filter (\<lambda>(k, v). k \<noteq> ''filepath'') d))) w)"
  using assms(2) by (simp add: dispatch_registry [OF assms(1)] call_tool_def)


subsection \<open>The path the library receives\<close>

text \<open>
  A remark on the path the library receives. The orchestrator hands the processed path to the
  tool, and the tool resolves it through \<^verbatim>\<open>get_excel_path\<close> like any other filepath. With an
  absolute working directory the path stays as it is; with a relative one, such as the
  default \<^verbatim>\<open>./excel_files\<close>, the working directory is put in front a second time.
\<close>

lemma resolved_again_absolute:
  "os_path_isabs (EXCEL_FILES_PATH env) \<Longrightarrow>
     get_excel_path env (processed_filepath env url) = processed_filepath env url"
  by (cases "EXCEL_FILES_PATH env")
    (auto simp: get_excel_path_def processed_filepath_def os_path_join_def os_path_isabs_def
      Let_def)

lemma resolved_again_relative:
  "get_excel_path (demo_env\<lparr>EXCEL_FILES_PATH := ''./excel_files''\<rparr>)
     (processed_filepath (demo_env\<lparr>EXCEL_FILES_PATH := ''./excel_files''\<rparr>) demo_url)
   = ''./excel_files/./excel_files/processed_test.xlsx''"
  by code_simp

lemma map_of_bound:
  "k \<in> set (map fst sig) \<Longrightarrow>
     \<exists>d. map_of (map (\<lambda>(n, d). (n, h n d)) sig) k = Some (h k d)"
  by (induction sig) (auto split: prod.splits)

lemma bind_kwargs_arg:
  assumes "bind_kwargs env name sig params = Inr b" and "map_of params k = Some v"
  shows "arg b k = v"
proof -
  let ?h = "\<lambda>n d. case map_of params n of
                     Some v \<Rightarrow> v
                   | None \<Rightarrow> (case d of Some v \<Rightarrow> v | None \<Rightarrow> PNone)"
  have un: "filter (\<lambda>k. k \<notin> set (map fst sig)) (map fst params) = []"
    and b: "b = map (\<lambda>(n, d). (n, ?h n d)) sig"
    using assms(1) by (auto simp: bind_kwargs_def Let_def split: if_splits)
  have "k \<in> set (map fst params)"
    using assms(2) by (metis map_of_eq_None_iff option.distinct(1) set_map)
  then have "k \<in> set (map fst sig)"
    using un by (auto simp: filter_empty_conv)
  then obtain d where "map_of b k = Some (?h k d)"
    unfolding b using map_of_bound [of k sig ?h] by blast
  then show ?thesis
    using assms(2) by (simp add: arg_def)
qed

lemma dispatch_bind_fails:
  assumes "map_of (operation_registry env) operation = Some (sig, tool)"
    and "bind_kwargs env operation sig
           (dict_from_items (filter (\<lambda>(k, v). k \<noteq> ''filepath'') d)) = Inl e"
  shows "dispatch env operation p (PDict d) w
     = (Inl e, log_event (ToolCall operation p
                   (dict_from_items (filter (\<lambda>(k, v). k \<noteq> ''filepath'') d))) w)"
  using assms(2) by (simp add: dispatch_registry [OF assms(1)] call_tool_def)

lemma registry_entries:
  assumes "map_of (operation_registry env) operation = Some (sig, tool)"
  shows "(operation = ''format_range'' \<and> sig = format_range_sig \<and> tool = format_range env)
     \<or> (operation = ''apply_formula'' \<and> sig = apply_formula_sig \<and> tool = apply_formula env)
     \<or> (operation = ''write_data_to_excel'' \<and> sig = write_data_to_excel_sig
          \<and> tool = write_data_to_excel env)
     \<or> (operation = ''create_chart'' \<and> sig = create_chart_sig \<and> tool = create_chart env)
     \<or> (operation = ''create_pivot_table'' \<and> sig = create_pivot_table_sig
          \<and> tool = create_pivot_table env)"
  using assms by (auto simp: operation_registry_def split: if_splits)




lemma dispatch_try_fails:
  assumes mem: "(opn, sig, body, kinds) \<in> set
       [(''format_range'', format_range_sig, format_range_try env,
           [ValidationError, FormattingError]),
        (''apply_formula'', apply_formula_sig, apply_formula_try env,
           [ValidationError, CalculationError]),
        (''write_data_to_excel'', write_data_to_excel_sig, write_data_to_excel_try env,
           [ValidationError, DataError]),
        (''create_chart'', create_chart_sig, create_chart_try env,
           [ValidationError, ChartError]),
        (''create_pivot_table'', create_pivot_table_sig, create_pivot_table_try env,
           [ValidationError, PivotError])]"
    and bind: "bind_kwargs env opn sig
           (dict_from_items (filter (\<lambda>(k, v). k \<noteq> ''filepath'') d)) = Inr b"
    and body: "body p b (log_event (ToolCall opn p
           (dict_from_items (filter (\<lambda>(k, v). k \<noteq> ''filepath'') d))) w) = (Inl e, w')"
  shows "dispatch env opn p (PDict d) w
     = (if kind e \<in> set kinds then Inr (PStr (''Error: '' @ message e)) else Inl e, w')"
proof -
  have t: "format_range env = (\<lambda>p a. tool_except [ValidationError, FormattingError]
                (format_range_try env p a))"
    "apply_formula env = (\<lambda>p a. tool_except [ValidationError, CalculationError]
                (apply_formula_try env p a))"
    "write_data_to_excel env = (\<lambda>p a. tool_except [ValidationError, DataError]
                (write_data_to_excel_try env p a))"
    "create_chart env = (\<lambda>p a. tool_except [ValidationError, ChartError]
                (create_chart_try env p a))"
    "create_pivot_table env = (\<lambda>p a. tool_except [ValidationError, PivotError]
                (create_pivot_table_try env p a))"
    by (intro ext, simp only: format_range_def apply_formula_def write_data_to_excel_def
        create_chart_def create_pivot_table_def)+
  from mem consider
      "opn = ''format_range''" "sig = format_range_sig" "body = format_range_try env"
        "kinds = [ValidationError, FormattingError]"
    | "opn = ''apply_formula''" "sig = apply_formula_sig" "body = apply_formula_try env"
        "kinds = [ValidationError, CalculationError]"
    | "opn = ''write_data_to_excel''" "sig = write_data_to_excel_sig"
        "body = write_data_to_excel_try env" "kinds = [ValidationError, DataError]"
    | "opn = ''create_chart''" "sig = create_chart_sig" "body = create_chart_try env"
        "kinds = [ValidationError, ChartError]"
    | "opn = ''create_pivot_table''" "sig = create_pivot_table_sig"
        "body = create_pivot_table_try env" "kinds = [ValidationError, PivotError]"
    by (elim set_ConsD [elim_format] disjE) simp_all
  then have "map_of (operation_registry env) opn
      = Some (sig, \<lambda>p a. tool_except kinds (body p a))"
    by cases (simp_all add: operation_registry_def t)
  from dispatch_runs_tool [OF this bind] body show ?thesis
    by (simp add: tool_except_cases)
qed

lemma first_call_shape:
  assumes tool: "tool = tool_except kinds (then_do m k)"
    and pure: "\<And>x v. snd (k x v) = v"
    and run: "m w = (r, w')"
  shows "(\<forall>e. r = Inl e \<longrightarrow>
            tool w = (if kind e \<in> set kinds then Inr (PStr (''Error: '' @ message e))
                      else Inl e, w'))
         \<and> snd (tool w) = w'"
proof (cases r)
  case (Inl e)
  with run show ?thesis
    unfolding tool by (simp add: tool_except_cases then_do_def)
next
  case (Inr x)
  obtain y v where kx: "k x w' = (y, v)"
    by (cases "k x w'")
  with pure [of x w'] have "v = w'"
    by simp
  with run Inr kx show ?thesis
    unfolding tool by (simp add: tool_except_cases then_do_def split: sum.splits)
qed

lemma tool_except_snd: "snd (tool_except kinds body w) = snd (body w)"
  by (simp add: tool_except_cases split: prod.splits sum.splits)

lemma then_do_Inr: "m w = (Inr x, w') \<Longrightarrow> then_do m k w = k x w'"
  by (simp add: then_do_def)

lemma pure_message: "snd (pure_result (py_getitem env x ''message'') v) = v"
  by (simp add: pure_result_def split: sum.splits)

lemma message_tool_first_call:
  assumes "lib_call env callee (get_excel_path env f) (args_of a names) w = (r, w')"
  shows "(\<forall>e. r = Inl e \<longrightarrow>
            message_tool env kinds callee names f a w
              = (if kind e \<in> set kinds then Inr (PStr (''Error: '' @ message e))
                 else Inl e, w'))
         \<and> snd (message_tool env kinds callee names f a w) = w'"
  by (rule first_call_shape
      [where tool = "message_tool env kinds callee names f a"
         and m = "lib_call env callee (get_excel_path env f) (args_of a names)"
         and w = w, OF _ _ assms])
    (simp add: message_tool_def Let_def, rule pure_message)

lemma validate_formula_syntax_first_call:
  assumes "lib_call env ''validation.validate_formula_in_cell_operation''
             (get_excel_path env f) (args_of a [''sheet_name'', ''cell'', ''formula'']) w
           = (r, w')"
  shows "(\<forall>e. r = Inl e \<longrightarrow>
            validate_formula_syntax env f a w
              = (if kind e \<in> set [ValidationError, CalculationError]
                 then Inr (PStr (''Error: '' @ message e)) else Inl e, w'))
         \<and> snd (validate_formula_syntax env f a w) = w'"
  by (rule first_call_shape
      [where tool = "validate_formula_syntax env f a"
         and m = "lib_call env ''validation.validate_formula_in_cell_operation''
             (get_excel_path env f) (args_of a [''sheet_name'', ''cell'', ''formula''])"
         and w = w, OF _ _ assms])
    (simp add: validate_formula_syntax_def Let_def, rule pure_message)

lemma format_range_first_call:
  assumes "lib_call env ''formatting.format_range'' (get_excel_path env f)
             (args_of a [''sheet_name'', ''start_cell'', ''end_cell'', ''bold'',
                ''italic'', ''underline'', ''font_size'', ''font_color'', ''bg_color'',
                ''border_style'', ''border_color'', ''number_format'', ''alignment'',
                ''wrap_text'', ''merge_cells'', ''protection'', ''conditional_format'']) w
           = (r, w')"
  shows "(\<forall>e. r = Inl e \<longrightarrow>
            format_range env f a w
              = (if kind e \<in> set [ValidationError, FormattingError]
                 then Inr (PStr (''Error: '' @ message e)) else Inl e, w'))
         \<and> snd (format_range env f a w) = w'"
  by (rule first_call_shape
      [where tool = "format_range env f a"
         and m = "lib_call env ''formatting.format_range'' (get_excel_path env f)
             (args_of a [''sheet_name'', ''start_cell'', ''end_cell'', ''bold'',
                ''italic'', ''underline'', ''font_size'', ''font_color'', ''bg_color'',
                ''border_style'', ''border_color'', ''number_format'', ''alignment'',
                ''wrap_text'', ''merge_cells'', ''protection'', ''conditional_format''])"
         and w = w, OF _ _ assms])
    (simp add: format_range_def format_range_try_def Let_def, simp add: returns_def)

lemma read_data_from_excel_first_call:
  assumes "lib_call env ''data.read_excel_range'' (get_excel_path env f)
             (args_of a [''sheet_name'', ''start_cell'', ''end_cell'', ''preview_only'']) w
           = (r, w')"
  shows "(\<forall>e. r = Inl e \<longrightarrow>
            read_data_from_excel env f a w
              = (if kind e \<in> set []
                 then Inr (PStr (''Error: '' @ message e)) else Inl e, w'))
         \<and> snd (read_data_from_excel env f a w) = w'"
  by (rule first_call_shape
      [where tool = "read_data_from_excel env f a"
         and m = "lib_call env ''data.read_excel_range'' (get_excel_path env f)
             (args_of a [''sheet_name'', ''start_cell'', ''end_cell'', ''preview_only''])"
         and w = w, OF _ _ assms])
    (simp add: read_data_from_excel_def Let_def,
     simp add: returns_def then_do_def pure_result_def split: sum.splits)

lemma write_data_to_excel_first_call:
  assumes "lib_call env ''data.write_data'' (get_excel_path env f)
             (args_of a [''sheet_name'', ''data'', ''start_cell'', ''write_headers'']) w
           = (r, w')"
  shows "(\<forall>e. r = Inl e \<longrightarrow>
            write_data_to_excel env f a w
              = (if kind e \<in> set [ValidationError, DataError]
                 then Inr (PStr (''Error: '' @ message e)) else Inl e, w'))
         \<and> snd (write_data_to_excel env f a w) = w'"
  by (rule first_call_shape
      [where tool = "write_data_to_excel env f a"
         and m = "lib_call env ''data.write_data'' (get_excel_path env f)
             (args_of a [''sheet_name'', ''data'', ''start_cell'', ''write_headers''])"
         and w = w, OF _ _ assms])
    (simp add: write_data_to_excel_def write_data_to_excel_try_def Let_def, rule pure_message)

lemma create_workbook_first_call:
  assumes "workbook_py env ''create_workbook'' (get_excel_path env f)
             (args_of a [''upload'']) w = (r, w')"
  shows "(\<forall>e. r = Inl e \<longrightarrow>
            create_workbook env f a w
              = (if kind e \<in> set [WorkbookError]
                 then Inr (PStr (''Error: '' @ message e)) else Inl e, w'))
         \<and> snd (create_workbook env f a w) = w'"
  by (rule first_call_shape
      [where tool = "create_workbook env f a"
         and m = "workbook_py env ''create_workbook'' (get_excel_path env f)
             (args_of a [''upload''])"
         and w = w, OF _ _ assms])
    (simp add: create_workbook_def Let_def,
     simp add: returns_def then_do_def pure_result_def split: sum.splits)

lemma create_worksheet_first_call:
  assumes "workbook_py env ''create_sheet'' (get_excel_path env f)
             (args_of a [''sheet_name'']) w = (r, w')"
  shows "(\<forall>e. r = Inl e \<longrightarrow>
            create_worksheet env f a w
              = (if kind e \<in> set [ValidationError, WorkbookError]
                 then Inr (PStr (''Error: '' @ message e)) else Inl e, w'))
         \<and> snd (create_worksheet env f a w) = w'"
  by (rule first_call_shape
      [where tool = "create_worksheet env f a"
         and m = "workbook_py env ''create_sheet'' (get_excel_path env f)
             (args_of a [''sheet_name''])"
         and w = w, OF _ _ assms])
    (simp add: create_worksheet_def Let_def, rule pure_message)

lemma get_workbook_metadata_first_call:
  assumes "workbook_py env ''get_workbook_info'' (get_excel_path env f)
             (args_of a [''include_ranges'']) w = (r, w')"
  shows "(\<forall>e. r = Inl e \<longrightarrow>
            get_workbook_metadata env f a w
              = (if kind e \<in> set [WorkbookError]
                 then Inr (PStr (''Error: '' @ message e)) else Inl e, w'))
         \<and> snd (get_workbook_metadata env f a w) = w'"
  by (rule first_call_shape
      [where tool = "get_workbook_metadata env f a"
         and m = "workbook_py env ''get_workbook_info'' (get_excel_path env f)
             (args_of a [''include_ranges''])"
         and w = w, OF _ _ assms])
    (simp add: get_workbook_metadata_def Let_def, simp add: returns_def)

lemma create_chart_first_call:
  assumes "lib_call env ''chart.create_chart_in_sheet'' (get_excel_path env f)
             (args_of a [''sheet_name'', ''data_range'', ''chart_type'', ''target_cell'',
                ''title'', ''x_axis'', ''y_axis'']) w = (r, w')"
  shows "(\<forall>e. r = Inl e \<longrightarrow>
            create_chart env f a w
              = (if kind e \<in> set [ValidationError, ChartError]
                 then Inr (PStr (''Error: '' @ message e)) else Inl e, w'))
         \<and> snd (create_chart env f a w) = w'"
  by (rule first_call_shape
      [where tool = "create_chart env f a"
         and m = "lib_call env ''chart.create_chart_in_sheet'' (get_excel_path env f)
             (args_of a [''sheet_name'', ''data_range'', ''chart_type'', ''target_cell'',
                ''title'', ''x_axis'', ''y_axis''])"
         and w = w, OF _ _ assms])
    (simp add: create_chart_def create_chart_try_def Let_def, rule pure_message)

lemma create_pivot_table_first_call:
  assumes "lib_call env ''pivot.create_pivot_table'' (get_excel_path env f)
             [(''sheet_name'', arg a ''sheet_name''), (''data_range'', arg a ''data_range''),
              (''rows'', arg a ''rows''), (''values'', arg a ''values''),
              (''columns'', if truthy (arg a ''columns'') then arg a ''columns'' else PList []),
              (''agg_func'', arg a ''agg_func'')] w = (r, w')"
  shows "(\<forall>e. r = Inl e \<longrightarrow>
            create_pivot_table env f a w
              = (if kind e \<in> set [ValidationError, PivotError]
                 then Inr (PStr (''Error: '' @ message e)) else Inl e, w'))
         \<and> snd (create_pivot_table env f a w) = w'"
  by (rule first_call_shape
      [where tool = "create_pivot_table env f a"
         and m = "lib_call env ''pivot.create_pivot_table'' (get_excel_path env f)
             [(''sheet_name'', arg a ''sheet_name''), (''data_range'', arg a ''data_range''),
              (''rows'', arg a ''rows''), (''values'', arg a ''values''),
              (''columns'', if truthy (arg a ''columns'') then arg a ''columns'' else PList []),
              (''agg_func'', arg a ''agg_func'')]"
         and w = w, OF _ _ assms])
    (simp add: create_pivot_table_def create_pivot_table_try_def Let_def, rule pure_message)

lemma validate_excel_range_first_call:
  assumes "lib_call env ''validation.validate_range_in_sheet_operation''
             (get_excel_path env f)
             [(''sheet_name'', arg a ''sheet_name''),
              (''range_str'', if \<not> truthy (arg a ''end_cell'') then arg a ''start_cell''
                 else PStr (str_of env (arg a ''start_cell'') @ '':''
                              @ str_of env (arg a ''end_cell'')))] w = (r, w')"
  shows "(\<forall>e. r = Inl e \<longrightarrow>
            validate_excel_range env f a w
              = (if kind e \<in> set [ValidationError]
                 then Inr (PStr (''Error: '' @ message e)) else Inl e, w'))
         \<and> snd (validate_excel_range env f a w) = w'"
  by (rule first_call_shape
      [where tool = "validate_excel_range env f a"
         and m = "lib_call env ''validation.validate_range_in_sheet_operation''
             (get_excel_path env f)
             [(''sheet_name'', arg a ''sheet_name''),
              (''range_str'', if \<not> truthy (arg a ''end_cell'') then arg a ''start_cell''
                 else PStr (str_of env (arg a ''start_cell'') @ '':''
                              @ str_of env (arg a ''end_cell'')))]"
         and w = w, OF _ _ assms])
    (simp add: validate_excel_range_def Let_def, rule pure_message)

lemma apply_formula_first_call:
  assumes "lib_call env ''validation.validate_formula_in_cell_operation''
             (get_excel_path env f) (args_of a [''sheet_name'', ''cell'', ''formula'']) w
           = (r, w')"
  shows "(\<forall>e. r = Inl e \<longrightarrow>
            apply_formula env f a w
              = (if kind e \<in> set [ValidationError, CalculationError]
                 then Inr (PStr (''Error: '' @ message e)) else Inl e, w'))
         \<and> (snd (apply_formula env f a w) = w'
            \<or> snd (apply_formula env f a w)
                = snd (lib_call env ''calculations.apply_formula'' (get_excel_path env f)
                         (args_of a [''sheet_name'', ''cell'', ''formula'']) w'))"
proof (cases r)
  case (Inl e)
  with assms show ?thesis
    by (simp add: apply_formula_def apply_formula_try_def Let_def tool_except_cases
        then_do_def)
next
  case (Inr v)
  let ?first = "lib_call env ''validation.validate_formula_in_cell_operation''
                  (get_excel_path env f) (args_of a [''sheet_name'', ''cell'', ''formula''])"
  let ?second = "lib_call env ''calculations.apply_formula'' (get_excel_path env f)
                   (args_of a [''sheet_name'', ''cell'', ''formula''])"
  let ?absorbed = "then_do (pure_result (py_getitem env v ''error''))
                     (\<lambda>err. returns (PStr (''Error: '' @ str_of env err)))"
  let ?applied = "then_do ?second (\<lambda>result. pure_result (py_getitem env result ''message''))"
  have first: "lib_call env ''validation.validate_formula_in_cell_operation''
             (get_excel_path env f) (args_of a [''sheet_name'', ''cell'', ''formula'']) w
           = (Inr v, w')"
    using assms Inr by simp
  have body: "apply_formula_try env f a w
      = (if (case v of PDict d \<Rightarrow> ''error'' \<in> set (map fst d) | _ \<Rightarrow> False)
         then ?absorbed w' else ?applied w')"
    by (simp add: apply_formula_try_def Let_def then_do_Inr [where m = ?first and w = w, OF first])
  have tool: "snd (apply_formula env f a w) = snd (apply_formula_try env f a w)"
    by (simp add: apply_formula_def tool_except_snd)
  have ab: "snd (?absorbed w') = w'"
    by (simp add: then_do_def pure_result_def returns_def split: sum.splits)
  have ap: "snd (?applied w') = snd (?second w')"
    by (simp add: then_do_def pure_result_def split: sum.splits prod.splits)
  have "snd (apply_formula env f a w) = w'
      \<or> snd (apply_formula env f a w) = snd (?second w')"
    unfolding tool body using ab ap by (simp split: if_splits)
  with Inr show ?thesis
    by simp
qed

lemma lib_call_at_path:
  "trace (snd (lib_call env n p args w)) = trace w @ [LibCall n p args]
   \<and> fst (lib_call env n p args w) = fst (lib env n p args (files w p))"
  by (simp add: lib_call_def log_event_def Let_def split: prod.splits)

lemma direct_tools_first_call:
  assumes mem: "(name, tool, callee, kinds) \<in> set
       [(''apply_formula'', apply_formula env, (\<lambda>path a. lib_call env
          ''validation.validate_formula_in_cell_operation'' path (args_of a [''sheet_name'',
          ''cell'', ''formula''])), [ValidationError, CalculationError]),
        (''validate_formula_syntax'', validate_formula_syntax env, (\<lambda>path a. lib_call
          env ''validation.validate_formula_in_cell_operation'' path (args_of a [''sheet_name'',
          ''cell'', ''formula''])), [ValidationError, CalculationError]),
        (''format_range'', format_range env, (\<lambda>path a. lib_call env
          ''formatting.format_range'' path (args_of a [''sheet_name'', ''start_cell'',
          ''end_cell'', ''bold'', ''italic'', ''underline'', ''font_size'', ''font_color'',
          ''bg_color'', ''border_style'', ''border_color'', ''number_format'', ''alignment'',
          ''wrap_text'', ''merge_cells'', ''protection'', ''conditional_format''])),
          [ValidationError, FormattingError]),
        (''read_data_from_excel'', read_data_from_excel env, (\<lambda>path a. lib_call env
          ''data.read_excel_range'' path (args_of a [''sheet_name'', ''start_cell'', ''end_cell'',
          ''preview_only''])), []),
        (''write_data_to_excel'', write_data_to_excel env, (\<lambda>path a. lib_call env
          ''data.write_data'' path (args_of a [''sheet_name'', ''data'', ''start_cell'',
          ''write_headers''])), [ValidationError, DataError]),
        (''create_workbook'', create_workbook env, (\<lambda>path a. workbook_py env
          ''create_workbook'' path (args_of a [''upload''])), [WorkbookError]),
        (''create_worksheet'', create_worksheet env, (\<lambda>path a. workbook_py env
          ''create_sheet'' path (args_of a [''sheet_name''])), [ValidationError, WorkbookError]),
        (''create_chart'', create_chart env, (\<lambda>path a. lib_call env
          ''chart.create_chart_in_sheet'' path (args_of a [''sheet_name'', ''data_range'',
          ''chart_type'', ''target_cell'', ''title'', ''x_axis'', ''y_axis''])), [ValidationError,
          ChartError]),
        (''create_pivot_table'', create_pivot_table env, (\<lambda>path a. lib_call env
          ''pivot.create_pivot_table'' path [(''sheet_name'', arg a ''sheet_name''),
          (''data_range'', arg a ''data_range''), (''rows'', arg a ''rows''), (''values'', arg a
          ''values''), (''columns'', if truthy (arg a ''columns'') then arg a ''columns'' else
          PList []), (''agg_func'', arg a ''agg_func'')]), [ValidationError, PivotError]),
        (''copy_worksheet'', copy_worksheet env, (\<lambda>path a. lib_call env
          ''sheet.copy_sheet'' path (args_of a [''source_sheet'', ''target_sheet''])),
          [ValidationError, SheetError]),
        (''delete_worksheet'', delete_worksheet env, (\<lambda>path a. lib_call env
          ''sheet.delete_sheet'' path (args_of a [''sheet_name''])), [ValidationError,
          SheetError]),
        (''rename_worksheet'', rename_worksheet env, (\<lambda>path a. lib_call env
          ''sheet.rename_sheet'' path (args_of a [''old_name'', ''new_name''])), [ValidationError,
          SheetError]),
        (''get_workbook_metadata'', get_workbook_metadata env, (\<lambda>path a. workbook_py env
          ''get_workbook_info'' path (args_of a [''include_ranges''])), [WorkbookError]),
        (''merge_cells'', merge_cells env, (\<lambda>path a. lib_call env ''sheet.merge_range''
          path (args_of a [''sheet_name'', ''start_cell'', ''end_cell''])), [ValidationError,
          SheetError]),
        (''unmerge_cells'', unmerge_cells env, (\<lambda>path a. lib_call env
          ''sheet.unmerge_range'' path (args_of a [''sheet_name'', ''start_cell'',
          ''end_cell''])), [ValidationError, SheetError]),
        (''copy_range'', copy_range env, (\<lambda>path a. lib_call env
          ''sheet.copy_range_operation'' path (args_of a [''sheet_name'', ''source_start'',
          ''source_end'', ''target_start'', ''target_sheet''])), [ValidationError, SheetError]),
        (''delete_range'', delete_range env, (\<lambda>path a. lib_call env
          ''sheet.delete_range_operation'' path (args_of a [''sheet_name'', ''start_cell'',
          ''end_cell'', ''shift_direction''])), [ValidationError, SheetError]),
        (''validate_excel_range'', validate_excel_range env, (\<lambda>path a. lib_call env
          ''validation.validate_range_in_sheet_operation'' path [(''sheet_name'', arg a
          ''sheet_name''), (''range_str'', if \<not> truthy (arg a ''end_cell'') then arg a
          ''start_cell'' else PStr (str_of env (arg a ''start_cell'') @ '':'' @ str_of env (arg a
          ''end_cell'')))]), [ValidationError])]"
    and run: "callee (get_excel_path env f) a w = (r, w')"
  shows "(\<forall>e. r = Inl e \<longrightarrow>
          tool f a w = (if kind e \<in> set kinds then Inr (PStr (''Error: '' @ message e))
                        else Inl e, w'))
       \<and> (snd (tool f a w) = w'
          \<or> name = ''apply_formula''
            \<and> snd (tool f a w)
                = snd (lib_call env ''calculations.apply_formula'' (get_excel_path env f)
                         (args_of a [''sheet_name'', ''cell'', ''formula'']) w'))"
  using mem
proof (elim set_ConsD [elim_format] disjE, goal_cases)
  case 1
  then have eq: "name = ''apply_formula''" "tool = apply_formula env"
      "callee = (\<lambda>path a. lib_call env ''validation.validate_formula_in_cell_operation'' path
        (args_of a [''sheet_name'', ''cell'', ''formula'']))"
      "kinds = [ValidationError, CalculationError]"
    by simp_all
  from apply_formula_first_call [OF run [unfolded eq(3)]]
  show ?case
    unfolding eq(1,2,4) by simp
next
  case 2
  then have eq: "name = ''validate_formula_syntax''" "tool = validate_formula_syntax env"
      "callee = (\<lambda>path a. lib_call env ''validation.validate_formula_in_cell_operation'' path
        (args_of a [''sheet_name'', ''cell'', ''formula'']))"
      "kinds = [ValidationError, CalculationError]"
    by simp_all
  from validate_formula_syntax_first_call [OF run [unfolded eq(3)]]
  show ?case
    unfolding eq(1,2,4) by simp
next
  case 3
  then have eq: "name = ''format_range''" "tool = format_range env"
      "callee = (\<lambda>path a. lib_call env ''formatting.format_range'' path (args_of a
        [''sheet_name'', ''start_cell'', ''end_cell'', ''bold'', ''italic'', ''underline'',
        ''font_size'', ''font_color'', ''bg_color'', ''border_style'', ''border_color'',
        ''number_format'', ''alignment'', ''wrap_text'', ''merge_cells'', ''protection'',
        ''conditional_format'']))"
      "kinds = [ValidationError, FormattingError]"
    by simp_all
  from format_range_first_call [OF run [unfolded eq(3)]]
  show ?case
    unfolding eq(1,2,4) by simp
next
  case 4
  then have eq: "name = ''read_data_from_excel''" "tool = read_data_from_excel env"
      "callee = (\<lambda>path a. lib_call env ''data.read_excel_range'' path (args_of a [''sheet_name'',
        ''start_cell'', ''end_cell'', ''preview_only'']))"
      "kinds = []"
    by simp_all
  from read_data_from_excel_first_call [OF run [unfolded eq(3)]]
  show ?case
    unfolding eq(1,2,4) by simp
next
  case 5
  then have eq: "name = ''write_data_to_excel''" "tool = write_data_to_excel env"
      "callee = (\<lambda>path a. lib_call env ''data.write_data'' path (args_of a [''sheet_name'',
        ''data'', ''start_cell'', ''write_headers'']))"
      "kinds = [ValidationError, DataError]"
    by simp_all
  from write_data_to_excel_first_call [OF run [unfolded eq(3)]]
  show ?case
    unfolding eq(1,2,4) by simp
next
  case 6
  then have eq: "name = ''create_workbook''" "tool = create_workbook env"
      "callee = (\<lambda>path a. workbook_py env ''create_workbook'' path (args_of a [''upload'']))"
      "kinds = [WorkbookError]"
    by simp_all
  from create_workbook_first_call [OF run [unfolded eq(3)]]
  show ?case
    unfolding eq(1,2,4) by simp
next
  case 7
  then have eq: "name = ''create_worksheet''" "tool = create_worksheet env"
      "callee = (\<lambda>path a. workbook_py env ''create_sheet'' path (args_of a [''sheet_name'']))"
      "kinds = [ValidationError, WorkbookError]"
    by simp_all
  from create_worksheet_first_call [OF run [unfolded eq(3)]]
  show ?case
    unfolding eq(1,2,4) by simp
next
  case 8
  then have eq: "name = ''create_chart''" "tool = create_chart env"
      "callee = (\<lambda>path a. lib_call env ''chart.create_chart_in_sheet'' path (args_of a
        [''sheet_name'', ''data_range'', ''chart_type'', ''target_cell'', ''title'', ''x_axis'',
        ''y_axis'']))"
      "kinds = [ValidationError, ChartError]"
    by simp_all
  from create_chart_first_call [OF run [unfolded eq(3)]]
  show ?case
    unfolding eq(1,2,4) by simp
next
  case 9
  then have eq: "name = ''create_pivot_table''" "tool = create_pivot_table env"
      "callee = (\<lambda>path a. lib_call env ''pivot.create_pivot_table'' path [(''sheet_name'', arg a
        ''sheet_name''), (''data_range'', arg a ''data_range''), (''rows'', arg a ''rows''),
        (''values'', arg a ''values''), (''columns'', if truthy (arg a ''columns'') then arg a
        ''columns'' else PList []), (''agg_func'', arg a ''agg_func'')])"
      "kinds = [ValidationError, PivotError]"
    by simp_all
  from create_pivot_table_first_call [OF run [unfolded eq(3)]]
  show ?case
    unfolding eq(1,2,4) by simp
next
  case 10
  then have eq: "name = ''copy_worksheet''" "tool = copy_worksheet env"
      "callee = (\<lambda>path a. lib_call env ''sheet.copy_sheet'' path (args_of a [''source_sheet'',
        ''target_sheet'']))"
      "kinds = [ValidationError, SheetError]"
    by simp_all
  from message_tool_first_call [where kinds = "[ValidationError, SheetError]", OF run [unfolded eq(3)]]
  show ?case
    unfolding eq(1,2,4) copy_worksheet_def by simp
next
  case 11
  then have eq: "name = ''delete_worksheet''" "tool = delete_worksheet env"
      "callee = (\<lambda>path a. lib_call env ''sheet.delete_sheet'' path (args_of a [''sheet_name'']))"
      "kinds = [ValidationError, SheetError]"
    by simp_all
  from message_tool_first_call [where kinds = "[ValidationError, SheetError]", OF run [unfolded eq(3)]]
  show ?case
    unfolding eq(1,2,4) delete_worksheet_def by simp
next
  case 12
  then have eq: "name = ''rename_worksheet''" "tool = rename_worksheet env"
      "callee = (\<lambda>path a. lib_call env ''sheet.rename_sheet'' path (args_of a [''old_name'',
        ''new_name'']))"
      "kinds = [ValidationError, SheetError]"
    by simp_all
  from message_tool_first_call [where kinds = "[ValidationError, SheetError]", OF run [unfolded eq(3)]]
  show ?case
    unfolding eq(1,2,4) rename_worksheet_def by simp
next
  case 13
  then have eq: "name = ''get_workbook_metadata''" "tool = get_workbook_metadata env"
      "callee = (\<lambda>path a. workbook_py env ''get_workbook_info'' path (args_of a
        [''include_ranges'']))"
      "kinds = [WorkbookError]"
    by simp_all
  from get_workbook_metadata_first_call [OF run [unfolded eq(3)]]
  show ?case
    unfolding eq(1,2,4) by simp
next
  case 14
  then have eq: "name = ''merge_cells''" "tool = merge_cells env"
      "callee = (\<lambda>path a. lib_call env ''sheet.merge_range'' path (args_of a [''sheet_name'',
        ''start_cell'', ''end_cell'']))"
      "kinds = [ValidationError, SheetError]"
    by simp_all
  from message_tool_first_call [where kinds = "[ValidationError, SheetError]", OF run [unfolded eq(3)]]
  show ?case
    unfolding eq(1,2,4) merge_cells_def by simp
next
  case 15
  then have eq: "name = ''unmerge_cells''" "tool = unmerge_cells env"
      "callee = (\<lambda>path a. lib_call env ''sheet.unmerge_range'' path (args_of a [''sheet_name'',
        ''start_cell'', ''end_cell'']))"
      "kinds = [ValidationError, SheetError]"
    by simp_all
  from message_tool_first_call [where kinds = "[ValidationError, SheetError]", OF run [unfolded eq(3)]]
  show ?case
    unfolding eq(1,2,4) unmerge_cells_def by simp
next
  case 16
  then have eq: "name = ''copy_range''" "tool = copy_range env"
      "callee = (\<lambda>path a. lib_call env ''sheet.copy_range_operation'' path (args_of a
        [''sheet_name'', ''source_start'', ''source_end'', ''target_start'', ''target_sheet'']))"
      "kinds = [ValidationError, SheetError]"
    by simp_all
  from message_tool_first_call [where kinds = "[ValidationError, SheetError]", OF run [unfolded eq(3)]]
  show ?case
    unfolding eq(1,2,4) copy_range_def by simp
next
  case 17
  then have eq: "name = ''delete_range''" "tool = delete_range env"
      "callee = (\<lambda>path a. lib_call env ''sheet.delete_range_operation'' path (args_of a
        [''sheet_name'', ''start_cell'', ''end_cell'', ''shift_direction'']))"
      "kinds = [ValidationError, SheetError]"
    by simp_all
  from message_tool_first_call [where kinds = "[ValidationError, SheetError]", OF run [unfolded eq(3)]]
  show ?case
    unfolding eq(1,2,4) delete_range_def by simp
next
  case 18
  then have eq: "name = ''validate_excel_range''" "tool = validate_excel_range env"
      "callee = (\<lambda>path a. lib_call env ''validation.validate_range_in_sheet_operation'' path
        [(''sheet_name'', arg a ''sheet_name''), (''range_str'', if \<not> truthy (arg a
        ''end_cell'') then arg a ''start_cell'' else PStr (str_of env (arg a ''start_cell'') @
        '':'' @ str_of env (arg a ''end_cell'')))])"
      "kinds = [ValidationError]"
    by simp_all
  from validate_excel_range_first_call [OF run [unfolded eq(3)]]
  show ?case
    unfolding eq(1,2,4) by simp
next
  case 19
  then show ?case
    by simp
qed

section \<open>Claims\<close>




text \<open>
  Claim C2. Let the operation name have an entry in the registry (it is one of the five
  names, and the entry is that tool of server.py with its signature), let the normalised
  parameters be a mapping, and let the run reach the dispatch (download and staging copy
  succeeded). Then the chain of comparisons makes the call the registry entry stands for,
  \<^verbatim>\<open>tool(processed_filepath, **params)\<close>, where \<^verbatim>\<open>params\<close> is the mapping built from the items
  whose key is not \<^verbatim>\<open>filepath\<close>: it has no key \<^verbatim>\<open>filepath\<close>, and for a mapping (keys distinct)
  it is the list of those items in their order. When the parameters fit the signature, the
  outcome of the dispatch is the outcome of that tool's body, run on the processed path with
  every given parameter bound to its value, in the world that has recorded the call; when
  they do not fit, the call raises the interpreter's \<^verbatim>\<open>TypeError\<close> and no body runs. Over the
  whole run, whatever its outcome, this is the only tool call added to the trace.
\<close>

theorem dispatch_invokes_registry_entry:
  assumes "map_of (operation_registry env) operation = Some (sig, tool)"
    and "normalize_params env operation_params = Inr (PDict d)"
    and "download_file_from_url env url (temp_filepath env) w = (Inr x, w1)"
    and "shutil_copy2 env (temp_filepath env) (processed_filepath env url) w1 = (Inr (), w2)"
  shows "operation \<in> set supported_operations
     \<and> ((operation = ''format_range'' \<and> sig = format_range_sig \<and> tool = format_range env)
        \<or> (operation = ''apply_formula'' \<and> sig = apply_formula_sig
             \<and> tool = apply_formula env)
        \<or> (operation = ''write_data_to_excel'' \<and> sig = write_data_to_excel_sig
             \<and> tool = write_data_to_excel env)
        \<or> (operation = ''create_chart'' \<and> sig = create_chart_sig \<and> tool = create_chart env)
        \<or> (operation = ''create_pivot_table'' \<and> sig = create_pivot_table_sig
             \<and> tool = create_pivot_table env))
     \<and> dispatch env operation (processed_filepath env url) (PDict d) w2
         = call_tool env operation sig tool (processed_filepath env url)
             (dict_from_items (filter (\<lambda>(k, v). k \<noteq> ''filepath'') d)) w2
     \<and> (\<forall>b. bind_kwargs env operation sig
                (dict_from_items (filter (\<lambda>(k, v). k \<noteq> ''filepath'') d)) = Inr b
          \<longrightarrow> dispatch env operation (processed_filepath env url) (PDict d) w2
                = tool (processed_filepath env url) b
                    (log_event (ToolCall operation (processed_filepath env url)
                       (dict_from_items (filter (\<lambda>(k, v). k \<noteq> ''filepath'') d))) w2)
              \<and> (\<forall>k v. map_of (dict_from_items (filter (\<lambda>(k, v). k \<noteq> ''filepath'') d)) k
                           = Some v \<longrightarrow> arg b k = v))
     \<and> (\<forall>e. bind_kwargs env operation sig
                (dict_from_items (filter (\<lambda>(k, v). k \<noteq> ''filepath'') d)) = Inl e
          \<longrightarrow> dispatch env operation (processed_filepath env url) (PDict d) w2
                = (Inl e, log_event (ToolCall operation (processed_filepath env url)
                           (dict_from_items (filter (\<lambda>(k, v). k \<noteq> ''filepath'') d))) w2))
     \<and> filter is_tool_call
           (trace (snd (process_excel_from_url env url operation operation_params w)))
         = filter is_tool_call (trace w)
             @ [ToolCall operation (processed_filepath env url)
                  (dict_from_items (filter (\<lambda>(k, v). k \<noteq> ''filepath'') d))]
     \<and> ''filepath'' \<notin> set (map fst (dict_from_items (filter (\<lambda>(k, v). k \<noteq> ''filepath'') d)))
     \<and> (distinct (map fst d) \<longrightarrow>
          dict_from_items (filter (\<lambda>(k, v). k \<noteq> ''filepath'') d)
            = filter (\<lambda>(k, v). k \<noteq> ''filepath'') d)"
proof -
  let ?P = "processed_filepath env url"
  let ?params = "dict_from_items (filter (\<lambda>(k, v). k \<noteq> ''filepath'') d)"
  have sup: "operation \<in> set supported_operations"
    using registry_supported [of env operation] assms(1) by auto
  note ent = registry_entries [OF assms(1)]
  have reg: "dispatch env operation ?P (PDict d) w2 = call_tool env operation sig tool ?P ?params w2"
    using assms(1) by (rule dispatch_registry)
  have runs: "\<forall>b. bind_kwargs env operation sig ?params = Inr b
          \<longrightarrow> dispatch env operation ?P (PDict d) w2
                = tool ?P b (log_event (ToolCall operation ?P ?params) w2)
              \<and> (\<forall>k v. map_of ?params k = Some v \<longrightarrow> arg b k = v)"
    using dispatch_runs_tool [OF assms(1)] bind_kwargs_arg by blast
  have fails: "\<forall>e. bind_kwargs env operation sig ?params = Inl e
          \<longrightarrow> dispatch env operation ?P (PDict d) w2
                = (Inl e, log_event (ToolCall operation ?P ?params) w2)"
    using dispatch_bind_fails [OF assms(1)] by blast
  obtain r w3 where di: "dispatch env operation ?P (PDict d) w2 = (r, w3)"
    by (cases "dispatch env operation ?P (PDict d) w2")
  have wf: "without_filepath (PDict d) = Inr ?params"
    by (simp add: without_filepath_def py_items_def)
  have "lib_step (get_excel_path env ?P) (log_event (ToolCall operation ?P ?params) w2) w3"
    using di sup wf by (rule dispatch_supported)
  then have t3: "filter is_tool_call (trace w3)
      = filter is_tool_call (trace w2) @ [ToolCall operation ?P ?params]"
    using lib_step_tool_calls by (fastforce simp: log_event_def)
  have t2: "filter is_tool_call (trace w2) = filter is_tool_call (trace w)"
    using download_world [OF assms(3)] copy2_world [OF assms(4)] by simp
  obtain evs where
    "trace (snd (process_excel_from_url env url operation operation_params w)) = trace w3 @ evs"
    "\<forall>ev \<in> set evs. \<not> is_tool_call ev"
    using peu_tail [OF assms(3) assms(4) assms(2) di] by blast
  then have tr: "filter is_tool_call
           (trace (snd (process_excel_from_url env url operation operation_params w)))
         = filter is_tool_call (trace w) @ [ToolCall operation ?P ?params]"
    using t3 t2 by (simp add: filter_none)
  have nk: "''filepath'' \<notin> set (map fst ?params)"
    unfolding dict_from_items_keys by auto
  have di2: "distinct (map fst d) \<longrightarrow> ?params = filter (\<lambda>(k, v). k \<noteq> ''filepath'') d"
    by (simp add: dict_from_items_distinct distinct_map_filter)
  show ?thesis
    by (intro conjI) (rule sup, rule ent, rule reg, rule runs, rule fails, rule tr, rule nk,
      rule di2)
qed


text \<open>The theorem on the sample run: its parameters hold a \<^verbatim>\<open>filepath\<close> entry, which the call
  does not receive; the three others are bound, and the body of \<^verbatim>\<open>apply_formula\<close> runs: it
  calls the library twice and returns its message.\<close>

theorem dispatch_invokes_registry_entry_witness:
  "map_of (operation_registry demo_env) ''apply_formula''
     = Some (apply_formula_sig, apply_formula demo_env)
   \<and> normalize_params demo_env demo_params
       = Inr (PDict [(''filepath'', PStr ''other.xlsx''), (''sheet_name'', PStr ''Sheet1''),
                     (''cell'', PStr ''B2''), (''formula'', PStr ''=A1+1'')])
   \<and> bind_kwargs demo_env ''apply_formula'' apply_formula_sig
        [(''sheet_name'', PStr ''Sheet1''), (''cell'', PStr ''B2''),
         (''formula'', PStr ''=A1+1'')]
       = Inr [(''sheet_name'', PStr ''Sheet1''), (''cell'', PStr ''B2''),
              (''formula'', PStr ''=A1+1'')]
   \<and> dispatch demo_env ''apply_formula'' (processed_filepath demo_env demo_url)
        (PDict [(''filepath'', PStr ''other.xlsx''), (''sheet_name'', PStr ''Sheet1''),
                (''cell'', PStr ''B2''), (''formula'', PStr ''=A1+1'')])
        \<lparr>files = [temp_filepath demo_env \<mapsto> ''PK34'',
                   processed_filepath demo_env demo_url \<mapsto> ''PK34''],
         trace = [HttpGet demo_url]\<rparr>
       = apply_formula demo_env (processed_filepath demo_env demo_url)
           [(''sheet_name'', PStr ''Sheet1''), (''cell'', PStr ''B2''),
            (''formula'', PStr ''=A1+1'')]
           (log_event
              (ToolCall ''apply_formula'' (processed_filepath demo_env demo_url)
                 [(''sheet_name'', PStr ''Sheet1''), (''cell'', PStr ''B2''),
                  (''formula'', PStr ''=A1+1'')])
              \<lparr>files = [temp_filepath demo_env \<mapsto> ''PK34'',
                         processed_filepath demo_env demo_url \<mapsto> ''PK34''],
               trace = [HttpGet demo_url]\<rparr>)
   \<and> fst (dispatch demo_env ''apply_formula'' (processed_filepath demo_env demo_url)
        (PDict [(''filepath'', PStr ''other.xlsx''), (''sheet_name'', PStr ''Sheet1''),
                (''cell'', PStr ''B2''), (''formula'', PStr ''=A1+1'')])
        \<lparr>files = [temp_filepath demo_env \<mapsto> ''PK34'',
                   processed_filepath demo_env demo_url \<mapsto> ''PK34''],
         trace = [HttpGet demo_url]\<rparr>)
       = Inr (PStr ''calculations.apply_formula done'')
   \<and> trace (snd (process_excel_from_url demo_env demo_url ''apply_formula'' demo_params
                    empty_world))
       = [HttpGet ''http://x/test.xlsx'',
          ToolCall ''apply_formula'' ''/srv/excel_files/processed_test.xlsx''
            [(''sheet_name'', PStr ''Sheet1''), (''cell'', PStr ''B2''),
             (''formula'', PStr ''=A1+1'')],
          LibCall ''validation.validate_formula_in_cell_operation''
            ''/srv/excel_files/processed_test.xlsx''
            [(''sheet_name'', PStr ''Sheet1''), (''cell'', PStr ''B2''),
             (''formula'', PStr ''=A1+1'')],
          LibCall ''calculations.apply_formula'' ''/srv/excel_files/processed_test.xlsx''
            [(''sheet_name'', PStr ''Sheet1''), (''cell'', PStr ''B2''),
             (''formula'', PStr ''=A1+1'')],
          HttpPost ''http://localhost:3001/upload'' ''processed_test.xlsx'' ''PK34++'']
   \<and> filter is_tool_call
         (trace (snd (process_excel_from_url demo_env demo_url ''apply_formula'' demo_params
                        empty_world)))
       = [ToolCall ''apply_formula'' ''/srv/excel_files/processed_test.xlsx''
            [(''sheet_name'', PStr ''Sheet1''), (''cell'', PStr ''B2''),
             (''formula'', PStr ''=A1+1'')]]"
proof -
  define D where "D = [(''filepath'', PStr ''other.xlsx''), (''sheet_name'', PStr ''Sheet1''),
                       (''cell'', PStr ''B2''), (''formula'', PStr ''=A1+1'')]"
  define B where "B = [(''sheet_name'', PStr ''Sheet1''), (''cell'', PStr ''B2''),
                       (''formula'', PStr ''=A1+1'')]"
  define W where "W = \<lparr>files = [temp_filepath demo_env \<mapsto> ''PK34'',
                                processed_filepath demo_env demo_url \<mapsto> ''PK34''],
                      trace = [HttpGet demo_url]\<rparr>"
  have reg: "map_of (operation_registry demo_env) ''apply_formula''
      = Some (apply_formula_sig, apply_formula demo_env)"
    by (simp add: operation_registry_def)
  have n: "normalize_params demo_env demo_params = Inr (PDict D)"
    by (simp add: normalize_params_def demo_params_def D_def)
  have pd: "dict_from_items (filter (\<lambda>(k, v). k \<noteq> ''filepath'') D) = B"
    by (simp add: dict_from_items_def D_def B_def)
  have bd: "bind_kwargs demo_env ''apply_formula'' apply_formula_sig B = Inr B"
    by (simp add: bind_kwargs_def apply_formula_sig_def B_def)
  have c: "shutil_copy2 demo_env (temp_filepath demo_env) (processed_filepath demo_env demo_url)
      \<lparr>files = [temp_filepath demo_env \<mapsto> ''PK34''], trace = [HttpGet demo_url]\<rparr>
      = (Inr (), W)"
    unfolding W_def by (rule demo_stage_copy)
  note inst = dispatch_invokes_registry_entry [OF reg n demo_download c, unfolded pd]
  have runs: "dispatch demo_env ''apply_formula'' (processed_filepath demo_env demo_url) (PDict D) W
      = apply_formula demo_env (processed_filepath demo_env demo_url) B
          (log_event (ToolCall ''apply_formula'' (processed_filepath demo_env demo_url) B) W)"
    using inst [THEN conjunct2, THEN conjunct2, THEN conjunct2, THEN conjunct1, rule_format,
      OF bd] by (rule conjunct1)
  have "fst (apply_formula demo_env (processed_filepath demo_env demo_url) B
          (log_event (ToolCall ''apply_formula'' (processed_filepath demo_env demo_url) B) W))
      = Inr (PStr ''calculations.apply_formula done'')"
    unfolding B_def W_def by code_simp
  then have res: "fst (dispatch demo_env ''apply_formula'' (processed_filepath demo_env demo_url)
      (PDict D) W) = Inr (PStr ''calculations.apply_formula done'')"
    using runs by simp
  have tr: "trace (snd (process_excel_from_url demo_env demo_url ''apply_formula'' demo_params
                    empty_world))
       = [HttpGet ''http://x/test.xlsx'',
          ToolCall ''apply_formula'' ''/srv/excel_files/processed_test.xlsx''
            [(''sheet_name'', PStr ''Sheet1''), (''cell'', PStr ''B2''),
             (''formula'', PStr ''=A1+1'')],
          LibCall ''validation.validate_formula_in_cell_operation''
            ''/srv/excel_files/processed_test.xlsx''
            [(''sheet_name'', PStr ''Sheet1''), (''cell'', PStr ''B2''),
             (''formula'', PStr ''=A1+1'')],
          LibCall ''calculations.apply_formula'' ''/srv/excel_files/processed_test.xlsx''
            [(''sheet_name'', PStr ''Sheet1''), (''cell'', PStr ''B2''),
             (''formula'', PStr ''=A1+1'')],
          HttpPost ''http://localhost:3001/upload'' ''processed_test.xlsx'' ''PK34++'']"
    by code_simp
  have "filter is_tool_call
         (trace (snd (process_excel_from_url demo_env demo_url ''apply_formula'' demo_params
                        empty_world)))
       = filter is_tool_call (trace empty_world)
           @ [ToolCall ''apply_formula'' (processed_filepath demo_env demo_url) B]"
    using inst by blast
  then have tc: "filter is_tool_call
         (trace (snd (process_excel_from_url demo_env demo_url ''apply_formula'' demo_params
                        empty_world)))
       = [ToolCall ''apply_formula'' ''/srv/excel_files/processed_test.xlsx'' B]"
    by (simp add: demo_processed empty_world_def)
  show ?thesis
    using reg n bd runs res tr tc unfolding D_def B_def W_def
    by (intro conjI)
qed

text \<open>
  Claim C3. An operation name outside the five makes \<^verbatim>\<open>process_excel_from_url\<close> fail,
  in every environment and for every parameter value: the error is a \<^verbatim>\<open>WorkbookError\<close>, and
  the run adds one event to the trace, the download's GET, so no tool is invoked and nothing
  is uploaded. When the run reaches the chain of comparisons (download, staging copy and the
  decoding of the parameters succeeded), the message is
  "Failed to process Excel from URL: Unsupported operation: " followed by the name. The
  comparison is string equality with the five names: the only assumption on the name is that
  it is none of them.
\<close>

theorem unsupported_operation_rejected:
  assumes "operation \<notin> set supported_operations"
  shows "\<exists>e w'. process_excel_from_url env url operation operation_params w = (Inl e, w')
           \<and> kind e = WorkbookError
           \<and> trace w' = trace w @ [HttpGet url]
           \<and> ((\<exists>x w1 w2 ps.
                  download_file_from_url env url (temp_filepath env) w = (Inr x, w1)
                  \<and> shutil_copy2 env (temp_filepath env) (processed_filepath env url) w1
                        = (Inr (), w2)
                  \<and> normalize_params env operation_params = Inr ps)
               \<longrightarrow> message e = ''Failed to process Excel from URL: Unsupported operation: ''
                                  @ operation)"
proof -
  obtain e w' where run: "process_excel_from_url env url operation operation_params w = (Inl e, w')"
    and k: "kind e = WorkbookError" and t: "trace w' = trace w @ [HttpGet url]"
    using peu_no_dispatch [of env operation_params operation url w] assms by blast
  have "message e = ''Failed to process Excel from URL: Unsupported operation: '' @ operation"
    if "download_file_from_url env url (temp_filepath env) w = (Inr x, w1)"
      and "shutil_copy2 env (temp_filepath env) (processed_filepath env url) w1 = (Inr (), w2)"
      and "normalize_params env operation_params = Inr ps"
    for x w1 w2 ps
    using peu_dispatch_fails [OF that dispatch_unsupported [OF assms]] run
    by simp
  then show ?thesis
    using run k t by blast
qed

text \<open>The theorem on the sample run, for a name that is none of the five; a name that
  differs from a supported one in case only, and a prefix of one, are none of the five
  either.\<close>

theorem unsupported_operation_rejected_witness:
  "''delete_everything'' \<notin> set supported_operations
   \<and> ''Format_Range'' \<notin> set supported_operations
   \<and> ''format'' \<notin> set supported_operations
   \<and> (\<exists>e w'. process_excel_from_url demo_env demo_url ''delete_everything'' demo_params
                  empty_world = (Inl e, w')
         \<and> message e
              = ''Failed to process Excel from URL: Unsupported operation: delete_everything''
         \<and> trace w' = [HttpGet demo_url])"
proof -
  have a: "''delete_everything'' \<notin> set supported_operations"
    and b: "''Format_Range'' \<notin> set supported_operations"
    and c: "''format'' \<notin> set supported_operations"
    by (simp_all add: supported_operations_def)
  have reached: "\<exists>x w1 w2 ps.
      download_file_from_url demo_env demo_url (temp_filepath demo_env) empty_world = (Inr x, w1)
      \<and> shutil_copy2 demo_env (temp_filepath demo_env) (processed_filepath demo_env demo_url) w1
            = (Inr (), w2)
      \<and> normalize_params demo_env demo_params = Inr ps"
    using demo_download demo_stage_copy demo_normalize by blast
  obtain e w' where
    "process_excel_from_url demo_env demo_url ''delete_everything'' demo_params empty_world
       = (Inl e, w')"
    "trace w' = trace empty_world @ [HttpGet demo_url]"
    "message e = ''Failed to process Excel from URL: Unsupported operation: ''
                   @ ''delete_everything''"
    using unsupported_operation_rejected [OF a, of demo_env demo_url demo_params empty_world]
      reached by blast
  then show ?thesis
    using a b c by (auto simp: empty_world_def)
qed

text \<open>
  Claim C4. When \<^verbatim>\<open>operation_params\<close> is a string that \<^verbatim>\<open>json.loads\<close> decodes, the normalised
  parameters are the decoded value itself, a mapping when the text encodes one. When
  \<^verbatim>\<open>json.loads\<close> raises \<^verbatim>\<open>JSONDecodeError\<close>, normalisation raises
  \<^verbatim>\<open>ValueError("Invalid JSON format in operation_params")\<close> and nothing else is tried with
  the text; the run fails with a \<^verbatim>\<open>WorkbookError\<close> and its trace gains the download's GET
  only, so no tool was invoked; when download and staging copy succeeded, the message of
  that error is "Failed to process Excel from URL: Invalid JSON format in operation_params".
  The message names the parameter that held the invalid payload; the payload's text is not
  part of it.
\<close>

theorem string_params_decoded_or_rejected:
  "(\<forall>v. json_loads env s = Inr v \<longrightarrow> normalize_params env (PStr s) = Inr v)
   \<and> ((\<exists>e0. json_loads env s = Inl e0 \<and> kind e0 = JSONDecodeError) \<longrightarrow>
        normalize_params env (PStr s)
          = Inl (Exc ValueError ''Invalid JSON format in operation_params'' None)
        \<and> (\<exists>e w'. process_excel_from_url env url operation (PStr s) w = (Inl e, w')
              \<and> kind e = WorkbookError
              \<and> trace w' = trace w @ [HttpGet url]
              \<and> ((\<exists>x w1 w2.
                     download_file_from_url env url (temp_filepath env) w = (Inr x, w1)
                     \<and> shutil_copy2 env (temp_filepath env) (processed_filepath env url) w1
                           = (Inr (), w2))
                   \<longrightarrow> message e = ''Failed to process Excel from URL: ''
                                      @ ''Invalid JSON format in operation_params'')))"
proof (intro conjI allI impI)
  fix v assume "json_loads env s = Inr v"
  then show "normalize_params env (PStr s) = Inr v"
    by (simp add: normalize_params_def)
next
  assume bad: "\<exists>e0. json_loads env s = Inl e0 \<and> kind e0 = JSONDecodeError"
  then show n: "normalize_params env (PStr s)
      = Inl (Exc ValueError ''Invalid JSON format in operation_params'' None)"
    by (auto simp: normalize_params_def)
  obtain e w' where run: "process_excel_from_url env url operation (PStr s) w = (Inl e, w')"
    and k: "kind e = WorkbookError" and t: "trace w' = trace w @ [HttpGet url]"
    using peu_no_dispatch [of env "PStr s" operation url w] n by auto
  have "message e = ''Failed to process Excel from URL: ''
                      @ ''Invalid JSON format in operation_params''"
    if "download_file_from_url env url (temp_filepath env) w = (Inr x, w1)"
      and "shutil_copy2 env (temp_filepath env) (processed_filepath env url) w1 = (Inr (), w2)"
    for x w1 w2
    using peu_normalize_fails [OF that n, of operation] run by simp
  then show "\<exists>e w'. process_excel_from_url env url operation (PStr s) w = (Inl e, w')
      \<and> kind e = WorkbookError
      \<and> trace w' = trace w @ [HttpGet url]
      \<and> ((\<exists>x w1 w2.
             download_file_from_url env url (temp_filepath env) w = (Inr x, w1)
             \<and> shutil_copy2 env (temp_filepath env) (processed_filepath env url) w1
                   = (Inr (), w2))
           \<longrightarrow> message e = ''Failed to process Excel from URL: ''
                              @ ''Invalid JSON format in operation_params'')"
    using run k t by blast
qed

text \<open>The theorem in the sample environment, on the text of the empty object and on a text
  that is not JSON.\<close>

theorem string_params_decoded_or_rejected_witness:
  "json_loads demo_env ''{}'' = Inr (PDict [])
   \<and> normalize_params demo_env (PStr ''{}'') = Inr (PDict [])
   \<and> json_loads demo_env ''{bad'' = Inl (Exc JSONDecodeError ''Expecting value'' None)
   \<and> normalize_params demo_env (PStr ''{bad'')
       = Inl (Exc ValueError ''Invalid JSON format in operation_params'' None)
   \<and> (\<exists>e w'. process_excel_from_url demo_env demo_url ''apply_formula'' (PStr ''{bad'')
                  empty_world = (Inl e, w')
         \<and> trace w' = [HttpGet demo_url]
         \<and> message e
             = ''Failed to process Excel from URL: Invalid JSON format in operation_params'')"
proof -
  have a: "json_loads demo_env ''{}'' = Inr (PDict [])"
    and b: "json_loads demo_env ''{bad'' = Inl (Exc JSONDecodeError ''Expecting value'' None)"
    by (simp_all add: demo_env_def demo_json_def)
  have b': "\<exists>e0. json_loads demo_env ''{bad'' = Inl e0 \<and> kind e0 = JSONDecodeError"
    using b by simp
  have reached: "\<exists>x w1 w2.
      download_file_from_url demo_env demo_url (temp_filepath demo_env) empty_world = (Inr x, w1)
      \<and> shutil_copy2 demo_env (temp_filepath demo_env) (processed_filepath demo_env demo_url) w1
            = (Inr (), w2)"
    using demo_download demo_stage_copy by blast
  note inst = string_params_decoded_or_rejected
    [of demo_env "''{bad''" demo_url "''apply_formula''" empty_world]
  have n: "normalize_params demo_env (PStr ''{bad'')
       = Inl (Exc ValueError ''Invalid JSON format in operation_params'' None)"
    using inst b' by blast
  obtain e w' where
    "process_excel_from_url demo_env demo_url ''apply_formula'' (PStr ''{bad'') empty_world
       = (Inl e, w')"
    "trace w' = trace empty_world @ [HttpGet demo_url]"
    "message e = ''Failed to process Excel from URL: ''
                     @ ''Invalid JSON format in operation_params''"
    using inst b' reached by blast
  moreover have "normalize_params demo_env (PStr ''{}'') = Inr (PDict [])"
    using string_params_decoded_or_rejected [of demo_env "''{}''"] a by blast
  ultimately show ?thesis
    using a b n by (auto simp: empty_world_def)
qed

text \<open>
  Claim C5. After a run of \<^verbatim>\<open>process_excel_from_url\<close> that returns, no file is left at the
  temporary path (\<^verbatim>\<open>temp_excel_<uuid>.xlsx\<close> in the scratch directory) and there is a file at
  the working directory joined with \<^verbatim>\<open>processed_<basename(url)>\<close>. After a run that fails at
  the dispatch stage, the temporary file is still there; more generally, after any run
  that fails once the download has succeeded: no handler removes it. This rests on the two
  paths, and the path the tool resolves, never being the same string.
\<close>

theorem temp_file_removed_on_success_only:
  "(fst (process_excel_from_url env url operation operation_params w) = Inr s \<longrightarrow>
      files (snd (process_excel_from_url env url operation operation_params w))
        (temp_filepath env) = None
      \<and> files (snd (process_excel_from_url env url operation operation_params w))
          (os_path_join (EXCEL_FILES_PATH env) (''processed_'' @ os_path_basename url)) \<noteq> None)
   \<and> (\<forall>x w1 w2 ps e0 w3.
        download_file_from_url env url (temp_filepath env) w = (Inr x, w1)
        \<and> shutil_copy2 env (temp_filepath env) (processed_filepath env url) w1 = (Inr (), w2)
        \<and> normalize_params env operation_params = Inr ps
        \<and> dispatch env operation (processed_filepath env url) ps w2 = (Inl e0, w3)
        \<longrightarrow> snd (process_excel_from_url env url operation operation_params w) = w3
            \<and> files w3 (temp_filepath env) \<noteq> None)
   \<and> (\<forall>x w1 e.
        download_file_from_url env url (temp_filepath env) w = (Inr x, w1)
        \<and> fst (process_excel_from_url env url operation operation_params w) = Inl e
        \<longrightarrow> files (snd (process_excel_from_url env url operation operation_params w))
              (temp_filepath env) \<noteq> None)"
proof (intro conjI allI impI)
  assume "fst (process_excel_from_url env url operation operation_params w) = Inr s"
  then have "process_excel_from_url env url operation operation_params w
      = (Inr s, snd (process_excel_from_url env url operation operation_params w))"
    by (metis prod.collapse)
  from peu_files_success [OF this]
  show "files (snd (process_excel_from_url env url operation operation_params w))
        (temp_filepath env) = None"
    and "files (snd (process_excel_from_url env url operation operation_params w))
          (os_path_join (EXCEL_FILES_PATH env) (''processed_'' @ os_path_basename url)) \<noteq> None"
    by (simp_all add: processed_filepath_eq)
next
  fix x w1 w2 ps e0 w3
  assume a: "download_file_from_url env url (temp_filepath env) w = (Inr x, w1)
        \<and> shutil_copy2 env (temp_filepath env) (processed_filepath env url) w1 = (Inr (), w2)
        \<and> normalize_params env operation_params = Inr ps
        \<and> dispatch env operation (processed_filepath env url) ps w2 = (Inl e0, w3)"
  then have run: "process_excel_from_url env url operation operation_params w =
     (Inl (Exc WorkbookError (''Failed to process Excel from URL: '' @ message e0) None), w3)"
    using peu_dispatch_fails by blast
  then show "snd (process_excel_from_url env url operation operation_params w) = w3"
    by simp
  show "files w3 (temp_filepath env) \<noteq> None"
    using peu_files_after_download [OF _ run] a by blast
next
  fix x w1 e
  assume a: "download_file_from_url env url (temp_filepath env) w = (Inr x, w1)
        \<and> fst (process_excel_from_url env url operation operation_params w) = Inl e"
  then have "process_excel_from_url env url operation operation_params w
      = (Inl e, snd (process_excel_from_url env url operation operation_params w))"
    by (metis prod.collapse)
  then show "files (snd (process_excel_from_url env url operation operation_params w))
              (temp_filepath env) \<noteq> None"
    using peu_files_after_download a by blast
qed


text \<open>The theorem on the sample run, and on the run whose dispatched tool raises the
  library's \<^verbatim>\<open>SheetError\<close>.\<close>

theorem temp_file_removed_on_success_only_witness:
  "fst (process_excel_from_url demo_env demo_url ''apply_formula'' demo_params empty_world)
     = Inr (''Operation '' @ squote @ ''apply_formula'' @ squote
              @ '' completed successfully. Processed file available at: ''
              @ ''http://localhost:3001/files/processed_test.xlsx'' @ newline
              @ ''Operation result: calculations.apply_formula done'')
   \<and> files (snd (process_excel_from_url demo_env demo_url ''apply_formula'' demo_params
                    empty_world))
       ''/tmp/temp_excel_00000000-0000-0000-0000-000000000000.xlsx'' = None
   \<and> files (snd (process_excel_from_url demo_env demo_url ''apply_formula'' demo_params
                    empty_world))
       ''/srv/excel_files/processed_test.xlsx'' \<noteq> None
   \<and> fst (dispatch demo_env ''apply_formula'' (processed_filepath demo_env demo_url)
            (PDict [(''sheet_name'', PStr ''Missing''), (''cell'', PStr ''B2''),
                    (''formula'', PStr ''=A1+1'')])
            \<lparr>files = [temp_filepath demo_env \<mapsto> ''PK34'',
                       processed_filepath demo_env demo_url \<mapsto> ''PK34''],
             trace = [HttpGet demo_url]\<rparr>)
       = Inl (Exc SheetError ''Sheet Missing not found'' None)
   \<and> files (snd (process_excel_from_url demo_env demo_url ''apply_formula''
                    (PDict [(''sheet_name'', PStr ''Missing''), (''cell'', PStr ''B2''),
                            (''formula'', PStr ''=A1+1'')]) empty_world))
       ''/tmp/temp_excel_00000000-0000-0000-0000-000000000000.xlsx'' \<noteq> None"
proof -
  define ps where "ps = PDict [(''sheet_name'', PStr ''Missing''), (''cell'', PStr ''B2''),
                              (''formula'', PStr ''=A1+1'')]"
  define w2 where "w2 = \<lparr>files = [temp_filepath demo_env \<mapsto> ''PK34'',
                                  processed_filepath demo_env demo_url \<mapsto> ''PK34''],
                        trace = [HttpGet demo_url]\<rparr>"
  define w3 where "w3 = snd (dispatch demo_env ''apply_formula''
                               (processed_filepath demo_env demo_url) ps w2)"
  have pj: "os_path_join (EXCEL_FILES_PATH demo_env) (''processed_'' @ os_path_basename demo_url)
      = ''/srv/excel_files/processed_test.xlsx''"
    by code_simp
  have ok: "files (snd (process_excel_from_url demo_env demo_url ''apply_formula'' demo_params
                          empty_world))
              ''/tmp/temp_excel_00000000-0000-0000-0000-000000000000.xlsx'' = None
        \<and> files (snd (process_excel_from_url demo_env demo_url ''apply_formula'' demo_params
                          empty_world))
              ''/srv/excel_files/processed_test.xlsx'' \<noteq> None"
    using temp_file_removed_on_success_only
      [of demo_env demo_url "''apply_formula''" demo_params empty_world] demo_run_fst
    unfolding demo_temp pj by blast
  have n: "normalize_params demo_env ps = Inr ps"
    by (simp add: normalize_params_def ps_def)
  have df: "fst (dispatch demo_env ''apply_formula'' (processed_filepath demo_env demo_url) ps w2)
      = Inl (Exc SheetError ''Sheet Missing not found'' None)"
    unfolding ps_def w2_def by code_simp
  then have di: "dispatch demo_env ''apply_formula'' (processed_filepath demo_env demo_url) ps w2
      = (Inl (Exc SheetError ''Sheet Missing not found'' None), w3)"
    unfolding w3_def by (metis prod.collapse)
  have c: "shutil_copy2 demo_env (temp_filepath demo_env) (processed_filepath demo_env demo_url)
     \<lparr>files = [temp_filepath demo_env \<mapsto> ''PK34''], trace = [HttpGet demo_url]\<rparr>
     = (Inr (), w2)"
    unfolding w2_def by (rule demo_stage_copy)
  have "snd (process_excel_from_url demo_env demo_url ''apply_formula'' ps empty_world) = w3
      \<and> files w3 (temp_filepath demo_env) \<noteq> None"
    using temp_file_removed_on_success_only
      [of demo_env demo_url "''apply_formula''" ps empty_world] demo_download c n di
    by blast
  then have left: "files (snd (process_excel_from_url demo_env demo_url ''apply_formula'' ps
                                 empty_world))
      ''/tmp/temp_excel_00000000-0000-0000-0000-000000000000.xlsx'' \<noteq> None"
    unfolding demo_temp by simp
  show ?thesis
    using demo_run_fst ok df left unfolding ps_def w2_def by blast
qed

text \<open>
  Claim C6 as stated does not hold: not every error raised inside
  \<^verbatim>\<open>process_excel_from_url\<close> reaches the top-level handler. In the sample environment the
  library raises a \<^verbatim>\<open>ValidationError\<close> for the formula \<^verbatim>\<open>A1+1\<close> while the run is inside the
  dispatched \<^verbatim>\<open>apply_formula\<close>; the tool's own handler turns it into the string
  "Error: Formula must start with =", the file is uploaded, and the run returns its
  success string instead of raising a wrapped \<^verbatim>\<open>WorkbookError\<close>.
\<close>

theorem every_error_wrapped_counterexample:
  "fst (lib demo_env ''validation.validate_formula_in_cell_operation''
          ''/srv/excel_files/processed_test.xlsx''
          [(''sheet_name'', PStr ''Sheet1''), (''cell'', PStr ''B2''),
           (''formula'', PStr ''A1+1'')] (Some ''PK34''))
     = Inl (Exc ValidationError ''Formula must start with ='' None)
   \<and> fst (apply_formula_try demo_env ''/srv/excel_files/processed_test.xlsx''
          [(''sheet_name'', PStr ''Sheet1''), (''cell'', PStr ''B2''),
           (''formula'', PStr ''A1+1'')]
          \<lparr>files = [''/srv/excel_files/processed_test.xlsx'' \<mapsto> ''PK34''], trace = []\<rparr>)
     = Inl (Exc ValidationError ''Formula must start with ='' None)
   \<and> trace (snd (process_excel_from_url demo_env demo_url ''apply_formula''
                    (PDict [(''sheet_name'', PStr ''Sheet1''), (''cell'', PStr ''B2''),
                            (''formula'', PStr ''A1+1'')]) empty_world))
     = [HttpGet ''http://x/test.xlsx'',
        ToolCall ''apply_formula'' ''/srv/excel_files/processed_test.xlsx''
          [(''sheet_name'', PStr ''Sheet1''), (''cell'', PStr ''B2''),
           (''formula'', PStr ''A1+1'')],
        LibCall ''validation.validate_formula_in_cell_operation''
          ''/srv/excel_files/processed_test.xlsx''
          [(''sheet_name'', PStr ''Sheet1''), (''cell'', PStr ''B2''),
           (''formula'', PStr ''A1+1'')],
        HttpPost ''http://localhost:3001/upload'' ''processed_test.xlsx'' ''PK34'']
   \<and> fst (process_excel_from_url demo_env demo_url ''apply_formula''
            (PDict [(''sheet_name'', PStr ''Sheet1''), (''cell'', PStr ''B2''),
                    (''formula'', PStr ''A1+1'')]) empty_world)
     = Inr (''Operation '' @ squote @ ''apply_formula'' @ squote
              @ '' completed successfully. Processed file available at: ''
              @ ''http://localhost:3001/files/processed_test.xlsx'' @ newline
              @ ''Operation result: Error: Formula must start with ='')"
proof (intro conjI)
  show "fst (lib demo_env ''validation.validate_formula_in_cell_operation''
          ''/srv/excel_files/processed_test.xlsx''
          [(''sheet_name'', PStr ''Sheet1''), (''cell'', PStr ''B2''),
           (''formula'', PStr ''A1+1'')] (Some ''PK34''))
     = Inl (Exc ValidationError ''Formula must start with ='' None)"
    by code_simp
  show "fst (apply_formula_try demo_env ''/srv/excel_files/processed_test.xlsx''
          [(''sheet_name'', PStr ''Sheet1''), (''cell'', PStr ''B2''),
           (''formula'', PStr ''A1+1'')]
          \<lparr>files = [''/srv/excel_files/processed_test.xlsx'' \<mapsto> ''PK34''], trace = []\<rparr>)
     = Inl (Exc ValidationError ''Formula must start with ='' None)"
    by code_simp
  show "trace (snd (process_excel_from_url demo_env demo_url ''apply_formula''
                    (PDict [(''sheet_name'', PStr ''Sheet1''), (''cell'', PStr ''B2''),
                            (''formula'', PStr ''A1+1'')]) empty_world))
     = [HttpGet ''http://x/test.xlsx'',
        ToolCall ''apply_formula'' ''/srv/excel_files/processed_test.xlsx''
          [(''sheet_name'', PStr ''Sheet1''), (''cell'', PStr ''B2''),
           (''formula'', PStr ''A1+1'')],
        LibCall ''validation.validate_formula_in_cell_operation''
          ''/srv/excel_files/processed_test.xlsx''
          [(''sheet_name'', PStr ''Sheet1''), (''cell'', PStr ''B2''),
           (''formula'', PStr ''A1+1'')],
        HttpPost ''http://localhost:3001/upload'' ''processed_test.xlsx'' ''PK34'']"
    by code_simp
  show "fst (process_excel_from_url demo_env demo_url ''apply_formula''
            (PDict [(''sheet_name'', PStr ''Sheet1''), (''cell'', PStr ''B2''),
                    (''formula'', PStr ''A1+1'')]) empty_world)
     = Inr (''Operation '' @ squote @ ''apply_formula'' @ squote
              @ '' completed successfully. Processed file available at: ''
              @ ''http://localhost:3001/files/processed_test.xlsx'' @ newline
              @ ''Operation result: Error: Formula must start with ='')"
    by code_simp
qed

text \<open>
  Claim C6, amended. \<^verbatim>\<open>process_excel_from_url\<close> raises only from its top-level handler: when
  it fails, one of its stages (download, staging copy, parameter normalisation, dispatch,
  upload, removal of the temp file) has failed with an error, the stages before it having
  succeeded, and the error that leaves the function is a \<^verbatim>\<open>WorkbookError\<close> whose message is
  "Failed to process Excel from URL: " followed by \<^verbatim>\<open>str()\<close> of that stage's error, the
  prefix put in front once. Conversely the failure of any stage, with an error of any
  class, ends the run with that wrapped error, in the world the stage left behind. The new
  error is raised without \<^verbatim>\<open>from\<close>: no explicit cause is given, the detail of the original
  error is in the message text (the implicit link the interpreter keeps from an error
  raised inside a handler to the error handled is not part of the model). Not every error
  raised during the run is an error of a stage: when the body of the dispatched tool
  raises a \<^verbatim>\<open>ValidationError\<close> or the tool's own domain error, the dispatch stage returns the
  string "Error: " followed by the error's message, and a run whose upload and removal
  then succeed returns its success string with that text as the operation's result; an
  error of any other class raised by the tool's body is the dispatch stage's error and is
  wrapped.
\<close>

theorem stage_errors_wrapped_tool_errors_absorbed:
  "(\<forall>e w'. process_excel_from_url env url operation operation_params w = (Inl e, w')
      \<longrightarrow> (\<exists>e0. e = Exc WorkbookError (''Failed to process Excel from URL: '' @ message e0) None
     \<and> (download_file_from_url env url (temp_filepath env) w = (Inl e0, w')
        \<or> (\<exists>x w1. download_file_from_url env url (temp_filepath env) w = (Inr x, w1)
            \<and> (shutil_copy2 env (temp_filepath env) (processed_filepath env url) w1 = (Inl e0, w')
               \<or> (\<exists>w2. shutil_copy2 env (temp_filepath env) (processed_filepath env url) w1
                            = (Inr (), w2)
                   \<and> (normalize_params env operation_params = Inl e0 \<and> w' = w2
                      \<or> (\<exists>ps. normalize_params env operation_params = Inr ps
                          \<and> (dispatch env operation (processed_filepath env url) ps w2 = (Inl e0, w')
                             \<or> (\<exists>msg w3. dispatch env operation (processed_filepath env url) ps w2
                                            = (Inr msg, w3)
                                 \<and> (upload_file_to_server env (processed_filepath env url) w3
                                       = (Inl e0, w')
                                    \<or> (\<exists>up w4. upload_file_to_server env
                                                    (processed_filepath env url) w3 = (Inr up, w4)
                                        \<and> os_remove env (temp_filepath env) w4
                                              = (Inl e0, w')))))))))))))
   \<and> (\<forall>e0 w1. download_file_from_url env url (temp_filepath env) w = (Inl e0, w1)
        \<longrightarrow> process_excel_from_url env url operation operation_params w
              = (Inl (Exc WorkbookError
                        (''Failed to process Excel from URL: '' @ message e0) None), w1))
   \<and> (\<forall>x w1 e0 w2.
        download_file_from_url env url (temp_filepath env) w = (Inr x, w1)
        \<and> shutil_copy2 env (temp_filepath env) (processed_filepath env url) w1 = (Inl e0, w2)
        \<longrightarrow> process_excel_from_url env url operation operation_params w
              = (Inl (Exc WorkbookError
                        (''Failed to process Excel from URL: '' @ message e0) None), w2))
   \<and> (\<forall>x w1 w2 e0.
        download_file_from_url env url (temp_filepath env) w = (Inr x, w1)
        \<and> shutil_copy2 env (temp_filepath env) (processed_filepath env url) w1 = (Inr (), w2)
        \<and> normalize_params env operation_params = Inl e0
        \<longrightarrow> process_excel_from_url env url operation operation_params w
              = (Inl (Exc WorkbookError
                        (''Failed to process Excel from URL: '' @ message e0) None), w2))
   \<and> (\<forall>x w1 w2 ps e0 w3.
        download_file_from_url env url (temp_filepath env) w = (Inr x, w1)
        \<and> shutil_copy2 env (temp_filepath env) (processed_filepath env url) w1 = (Inr (), w2)
        \<and> normalize_params env operation_params = Inr ps
        \<and> dispatch env operation (processed_filepath env url) ps w2 = (Inl e0, w3)
        \<longrightarrow> process_excel_from_url env url operation operation_params w
              = (Inl (Exc WorkbookError
                        (''Failed to process Excel from URL: '' @ message e0) None), w3))
   \<and> (\<forall>x w1 w2 ps msg w3 e0 w4.
        download_file_from_url env url (temp_filepath env) w = (Inr x, w1)
        \<and> shutil_copy2 env (temp_filepath env) (processed_filepath env url) w1 = (Inr (), w2)
        \<and> normalize_params env operation_params = Inr ps
        \<and> dispatch env operation (processed_filepath env url) ps w2 = (Inr msg, w3)
        \<and> upload_file_to_server env (processed_filepath env url) w3 = (Inl e0, w4)
        \<longrightarrow> process_excel_from_url env url operation operation_params w
              = (Inl (Exc WorkbookError
                        (''Failed to process Excel from URL: '' @ message e0) None), w4))
   \<and> (\<forall>x w1 w2 ps msg w3 up w4 e0 w5.
        download_file_from_url env url (temp_filepath env) w = (Inr x, w1)
        \<and> shutil_copy2 env (temp_filepath env) (processed_filepath env url) w1 = (Inr (), w2)
        \<and> normalize_params env operation_params = Inr ps
        \<and> dispatch env operation (processed_filepath env url) ps w2 = (Inr msg, w3)
        \<and> upload_file_to_server env (processed_filepath env url) w3 = (Inr up, w4)
        \<and> os_remove env (temp_filepath env) w4 = (Inl e0, w5)
        \<longrightarrow> process_excel_from_url env url operation operation_params w
              = (Inl (Exc WorkbookError
                        (''Failed to process Excel from URL: '' @ message e0) None), w5))
   \<and> (\<forall>(opn, sig, body, kinds) \<in> set
         [(''format_range'', format_range_sig, format_range_try env,
             [ValidationError, FormattingError]),
          (''apply_formula'', apply_formula_sig, apply_formula_try env,
             [ValidationError, CalculationError]),
          (''write_data_to_excel'', write_data_to_excel_sig, write_data_to_excel_try env,
             [ValidationError, DataError]),
          (''create_chart'', create_chart_sig, create_chart_try env,
             [ValidationError, ChartError]),
          (''create_pivot_table'', create_pivot_table_sig, create_pivot_table_try env,
             [ValidationError, PivotError])].
        \<forall>d b e wt.
          bind_kwargs env opn sig
             (dict_from_items (filter (\<lambda>(k, v). k \<noteq> ''filepath'') d)) = Inr b
          \<and> body p b (log_event (ToolCall opn p
                (dict_from_items (filter (\<lambda>(k, v). k \<noteq> ''filepath'') d))) wd) = (Inl e, wt)
          \<longrightarrow> dispatch env opn p (PDict d) wd
                = (if kind e \<in> set kinds then Inr (PStr (''Error: '' @ message e)) else Inl e,
                   wt))
   \<and> (\<forall>(opn, sig, body, kinds) \<in> set
         [(''format_range'', format_range_sig, format_range_try env,
             [ValidationError, FormattingError]),
          (''apply_formula'', apply_formula_sig, apply_formula_try env,
             [ValidationError, CalculationError]),
          (''write_data_to_excel'', write_data_to_excel_sig, write_data_to_excel_try env,
             [ValidationError, DataError]),
          (''create_chart'', create_chart_sig, create_chart_try env,
             [ValidationError, ChartError]),
          (''create_pivot_table'', create_pivot_table_sig, create_pivot_table_try env,
             [ValidationError, PivotError])].
        \<forall>x w1 w2 d b e w3 up w4 w5.
          download_file_from_url env url (temp_filepath env) w = (Inr x, w1)
          \<and> shutil_copy2 env (temp_filepath env) (processed_filepath env url) w1 = (Inr (), w2)
          \<and> normalize_params env operation_params = Inr (PDict d)
          \<and> bind_kwargs env opn sig
               (dict_from_items (filter (\<lambda>(k, v). k \<noteq> ''filepath'') d)) = Inr b
          \<and> body (processed_filepath env url) b
               (log_event (ToolCall opn (processed_filepath env url)
                  (dict_from_items (filter (\<lambda>(k, v). k \<noteq> ''filepath'') d))) w2) = (Inl e, w3)
          \<and> kind e \<in> set kinds
          \<and> upload_file_to_server env (processed_filepath env url) w3 = (Inr up, w4)
          \<and> os_remove env (temp_filepath env) w4 = (Inr (), w5)
          \<longrightarrow> process_excel_from_url env url opn operation_params w
                = (Inr (success_message env opn up (PStr (''Error: '' @ message e))), w5))"
  apply (intro conjI)
  subgoal by (intro allI impI) (rule peu_failure_stages)
  subgoal by (blast intro: peu_download_fails)
  subgoal by (blast intro: peu_copy_fails)
  subgoal by (blast intro: peu_normalize_fails)
  subgoal by (blast intro: peu_dispatch_fails)
  subgoal by (blast intro: peu_upload_fails)
  subgoal by (blast intro: peu_remove_fails)
  subgoal
    apply (intro ballI)
    apply clarify
    by (rule dispatch_try_fails)
  subgoal
  proof (intro ballI, clarify)
    fix opn sig body kinds x w1 w2 d b e w3 up w4 w5
    assume mem: "(opn, sig, body, kinds) \<in> set
         [(''format_range'', format_range_sig, format_range_try env,
             [ValidationError, FormattingError]),
          (''apply_formula'', apply_formula_sig, apply_formula_try env,
             [ValidationError, CalculationError]),
          (''write_data_to_excel'', write_data_to_excel_sig, write_data_to_excel_try env,
             [ValidationError, DataError]),
          (''create_chart'', create_chart_sig, create_chart_try env,
             [ValidationError, ChartError]),
          (''create_pivot_table'', create_pivot_table_sig, create_pivot_table_try env,
             [ValidationError, PivotError])]"
      and dl: "download_file_from_url env url (temp_filepath env) w = (Inr x, w1)"
      and cp: "shutil_copy2 env (temp_filepath env) (processed_filepath env url) w1
                 = (Inr (), w2)"
      and np: "normalize_params env operation_params = Inr (PDict d)"
      and bd: "bind_kwargs env opn sig
               (dict_from_items (filter (\<lambda>(k, v). k \<noteq> ''filepath'') d)) = Inr b"
      and bo: "body (processed_filepath env url) b
               (log_event (ToolCall opn (processed_filepath env url)
                  (dict_from_items (filter (\<lambda>(k, v). k \<noteq> ''filepath'') d))) w2) = (Inl e, w3)"
      and ki: "kind e \<in> set kinds"
      and up: "upload_file_to_server env (processed_filepath env url) w3 = (Inr up, w4)"
      and rm: "os_remove env (temp_filepath env) w4 = (Inr (), w5)"
    have "dispatch env opn (processed_filepath env url) (PDict d) w2
        = (Inr (PStr (''Error: '' @ message e)), w3)"
      using dispatch_try_fails [OF mem bd bo] ki by simp
    from peu_succeeds [OF dl cp np this up rm]
    show "process_excel_from_url env url opn operation_params w
        = (Inr (success_message env opn up (PStr (''Error: '' @ message e))), w5)" .
  qed
  done

text \<open>The theorem in the sample environment: a download answered 404, whose own
  \<^verbatim>\<open>WorkbookError\<close> is wrapped; a \<^verbatim>\<open>SheetError\<close> of the library, which \<^verbatim>\<open>apply_formula\<close> hands
  on and the handler wraps; and the \<^verbatim>\<open>ValidationError\<close> for the formula \<^verbatim>\<open>A1+1\<close>, which
  \<^verbatim>\<open>apply_formula\<close> returns as a string, so that the run returns.\<close>

theorem stage_errors_wrapped_tool_errors_absorbed_witness:
  "fst (process_excel_from_url demo_env ''http://x/missing.xlsx'' ''apply_formula''
          demo_params empty_world)
     = Inl (Exc WorkbookError
         ''Failed to process Excel from URL: Failed to download file: 404 Client Error: Not Found''
         None)
   \<and> fst (apply_formula_try demo_env (processed_filepath demo_env demo_url)
            [(''sheet_name'', PStr ''Missing''), (''cell'', PStr ''B2''),
             (''formula'', PStr ''=A1+1'')]
            (log_event (ToolCall ''apply_formula'' (processed_filepath demo_env demo_url)
               [(''sheet_name'', PStr ''Missing''), (''cell'', PStr ''B2''),
                (''formula'', PStr ''=A1+1'')])
             \<lparr>files = [temp_filepath demo_env \<mapsto> ''PK34'',
                        processed_filepath demo_env demo_url \<mapsto> ''PK34''],
              trace = [HttpGet demo_url]\<rparr>))
     = Inl (Exc SheetError ''Sheet Missing not found'' None)
   \<and> fst (process_excel_from_url demo_env demo_url ''apply_formula''
            (PDict [(''sheet_name'', PStr ''Missing''), (''cell'', PStr ''B2''),
                    (''formula'', PStr ''=A1+1'')]) empty_world)
     = Inl (Exc WorkbookError ''Failed to process Excel from URL: Sheet Missing not found'' None)
   \<and> fst (apply_formula_try demo_env (processed_filepath demo_env demo_url)
            [(''sheet_name'', PStr ''Sheet1''), (''cell'', PStr ''B2''),
             (''formula'', PStr ''A1+1'')]
            (log_event (ToolCall ''apply_formula'' (processed_filepath demo_env demo_url)
               [(''sheet_name'', PStr ''Sheet1''), (''cell'', PStr ''B2''),
                (''formula'', PStr ''A1+1'')])
             \<lparr>files = [temp_filepath demo_env \<mapsto> ''PK34'',
                        processed_filepath demo_env demo_url \<mapsto> ''PK34''],
              trace = [HttpGet demo_url]\<rparr>))
     = Inl (Exc ValidationError ''Formula must start with ='' None)
   \<and> fst (process_excel_from_url demo_env demo_url ''apply_formula''
            (PDict [(''sheet_name'', PStr ''Sheet1''), (''cell'', PStr ''B2''),
                    (''formula'', PStr ''A1+1'')]) empty_world)
     = Inr (''Operation '' @ squote @ ''apply_formula'' @ squote
              @ '' completed successfully. Processed file available at: ''
              @ ''http://localhost:3001/files/processed_test.xlsx'' @ newline
              @ ''Operation result: Error: Formula must start with ='')"
proof -
  define P where "P = processed_filepath demo_env demo_url"
  define T where "T = temp_filepath demo_env"
  define M where "M = [(''sheet_name'', PStr ''Missing''), (''cell'', PStr ''B2''),
                       (''formula'', PStr ''=A1+1'')]"
  define V where "V = [(''sheet_name'', PStr ''Sheet1''), (''cell'', PStr ''B2''),
                       (''formula'', PStr ''A1+1'')]"
  define w2 where "w2 = \<lparr>files = [T \<mapsto> ''PK34'', P \<mapsto> ''PK34''], trace = [HttpGet demo_url]\<rparr>"
  note thm0 = stage_errors_wrapped_tool_errors_absorbed
  \<comment> \<open>the download fails\<close>
  define wd where "wd = snd (download_file_from_url demo_env ''http://x/missing.xlsx'' T
                               empty_world)"
  have "fst (download_file_from_url demo_env ''http://x/missing.xlsx'' T empty_world)
      = Inl (Exc WorkbookError ''Failed to download file: 404 Client Error: Not Found'' None)"
    unfolding T_def by code_simp
  then have d0: "download_file_from_url demo_env ''http://x/missing.xlsx'' (temp_filepath demo_env)
       empty_world
      = (Inl (Exc WorkbookError ''Failed to download file: 404 Client Error: Not Found'' None),
         wd)"
    unfolding wd_def T_def by (metis prod.collapse)
  have r1: "fst (process_excel_from_url demo_env ''http://x/missing.xlsx'' ''apply_formula''
          demo_params empty_world)
     = Inl (Exc WorkbookError
         ''Failed to process Excel from URL: Failed to download file: 404 Client Error: Not Found''
         None)"
    using thm0 [where env = demo_env and url = "''http://x/missing.xlsx''"
        and operation = "''apply_formula''" and operation_params = demo_params
        and w = empty_world,
        THEN conjunct2, THEN conjunct1, rule_format, OF d0]
    by simp
  \<comment> \<open>the stages of the two other runs\<close>
  have c: "shutil_copy2 demo_env (temp_filepath demo_env) (processed_filepath demo_env demo_url)
     \<lparr>files = [temp_filepath demo_env \<mapsto> ''PK34''], trace = [HttpGet demo_url]\<rparr>
     = (Inr (), w2)"
    unfolding w2_def T_def P_def by (rule demo_stage_copy)
  have nM: "normalize_params demo_env (PDict M) = Inr (PDict M)"
    and nV: "normalize_params demo_env (PDict V) = Inr (PDict V)"
    by (simp_all add: normalize_params_def)
  have pM: "dict_from_items (filter (\<lambda>(k, v). k \<noteq> ''filepath'') M) = M"
    and pV: "dict_from_items (filter (\<lambda>(k, v). k \<noteq> ''filepath'') V) = V"
    by (simp_all add: dict_from_items_def M_def V_def)
  have bM: "bind_kwargs demo_env ''apply_formula'' apply_formula_sig
              (dict_from_items (filter (\<lambda>(k, v). k \<noteq> ''filepath'') M)) = Inr M"
    and bV: "bind_kwargs demo_env ''apply_formula'' apply_formula_sig
              (dict_from_items (filter (\<lambda>(k, v). k \<noteq> ''filepath'') V)) = Inr V"
    unfolding pM pV by (simp_all add: bind_kwargs_def apply_formula_sig_def M_def V_def)
  have mem: "(''apply_formula'', apply_formula_sig, apply_formula_try demo_env,
              [ValidationError, CalculationError]) \<in> set
         [(''format_range'', format_range_sig, format_range_try demo_env,
             [ValidationError, FormattingError]),
          (''apply_formula'', apply_formula_sig, apply_formula_try demo_env,
             [ValidationError, CalculationError]),
          (''write_data_to_excel'', write_data_to_excel_sig, write_data_to_excel_try demo_env,
             [ValidationError, DataError]),
          (''create_chart'', create_chart_sig, create_chart_try demo_env,
             [ValidationError, ChartError]),
          (''create_pivot_table'', create_pivot_table_sig, create_pivot_table_try demo_env,
             [ValidationError, PivotError])]"
    by simp
  \<comment> \<open>the library raises an error that the tool hands on\<close>
  define wM where "wM = snd (apply_formula_try demo_env P M
                               (log_event (ToolCall ''apply_formula'' P M) w2))"
  have tM: "fst (apply_formula_try demo_env P M (log_event (ToolCall ''apply_formula'' P M) w2))
      = Inl (Exc SheetError ''Sheet Missing not found'' None)"
    unfolding P_def M_def w2_def T_def by code_simp
  then have tM': "apply_formula_try demo_env (processed_filepath demo_env demo_url) M
       (log_event (ToolCall ''apply_formula'' (processed_filepath demo_env demo_url)
          (dict_from_items (filter (\<lambda>(k, v). k \<noteq> ''filepath'') M))) w2)
      = (Inl (Exc SheetError ''Sheet Missing not found'' None), wM)"
    unfolding wM_def pM P_def by (metis prod.collapse)
  have dM: "dispatch demo_env ''apply_formula'' (processed_filepath demo_env demo_url) (PDict M) w2
      = (Inl (Exc SheetError ''Sheet Missing not found'' None), wM)"
    using thm0 [where env = demo_env and p = "processed_filepath demo_env demo_url"
        and wd = w2,
        THEN conjunct2, THEN conjunct2, THEN conjunct2, THEN conjunct2, THEN conjunct2,
        THEN conjunct2, THEN conjunct2, THEN conjunct1, THEN bspec, OF mem,
        unfolded prod.case, rule_format, OF conjI, OF bM tM']
    by simp
  have r2: "fst (process_excel_from_url demo_env demo_url ''apply_formula'' (PDict M) empty_world)
     = Inl (Exc WorkbookError ''Failed to process Excel from URL: Sheet Missing not found'' None)"
    using thm0 [where env = demo_env and url = demo_url and operation = "''apply_formula''"
        and operation_params = "PDict M" and w = empty_world,
        THEN conjunct2, THEN conjunct2, THEN conjunct2, THEN conjunct2, THEN conjunct1,
        rule_format, of "temp_filepath demo_env" _ w2 "PDict M" _ wM]
      demo_download c nM dM
    by simp
  \<comment> \<open>the library raises an error that the tool returns as a string\<close>
  define w3 where "w3 = snd (apply_formula_try demo_env P V
                               (log_event (ToolCall ''apply_formula'' P V) w2))"
  define up where "up = \<lparr>up_message = ''File uploaded successfully'',
                          file_url = ''http://localhost:3001/files/processed_test.xlsx'',
                          up_filename = ''processed_test.xlsx''\<rparr>"
  define w4 where "w4 = snd (upload_file_to_server demo_env P w3)"
  define w5 where "w5 = snd (os_remove demo_env T w4)"
  have tV: "fst (apply_formula_try demo_env P V (log_event (ToolCall ''apply_formula'' P V) w2))
      = Inl (Exc ValidationError ''Formula must start with ='' None)"
    unfolding P_def V_def w2_def T_def by code_simp
  then have tV': "apply_formula_try demo_env (processed_filepath demo_env demo_url) V
       (log_event (ToolCall ''apply_formula'' (processed_filepath demo_env demo_url)
          (dict_from_items (filter (\<lambda>(k, v). k \<noteq> ''filepath'') V))) w2)
      = (Inl (Exc ValidationError ''Formula must start with ='' None), w3)"
    unfolding w3_def pV P_def by (metis prod.collapse)
  have "fst (upload_file_to_server demo_env P w3) = Inr up"
    unfolding w3_def P_def V_def w2_def T_def up_def by code_simp
  then have u: "upload_file_to_server demo_env (processed_filepath demo_env demo_url) w3
      = (Inr up, w4)"
    unfolding w4_def P_def by (metis prod.collapse)
  have "fst (os_remove demo_env T w4) = Inr ()"
    unfolding w4_def w3_def P_def V_def w2_def T_def by code_simp
  then have rm: "os_remove demo_env (temp_filepath demo_env) w4 = (Inr (), w5)"
    unfolding w5_def T_def by (metis prod.collapse)
  have ki: "kind (Exc ValidationError ''Formula must start with ='' None)
      \<in> set [ValidationError, CalculationError]"
    by simp
  have run: "process_excel_from_url demo_env demo_url ''apply_formula'' (PDict V) empty_world
      = (Inr (success_message demo_env ''apply_formula'' up
            (PStr (''Error: '' @ message (Exc ValidationError ''Formula must start with =''
               None)))), w5)"
    using thm0 [where env = demo_env and url = demo_url and operation_params = "PDict V"
        and w = empty_world,
        THEN conjunct2, THEN conjunct2, THEN conjunct2, THEN conjunct2, THEN conjunct2,
        THEN conjunct2, THEN conjunct2, THEN conjunct2, THEN bspec, OF mem,
        unfolded prod.case, rule_format,
        of "temp_filepath demo_env" _ w2 V V _ w3 up w4 w5]
      demo_download c nV bV tV' ki u rm
    by simp
  have r3: "fst (process_excel_from_url demo_env demo_url ''apply_formula'' (PDict V) empty_world)
     = Inr (''Operation '' @ squote @ ''apply_formula'' @ squote
              @ '' completed successfully. Processed file available at: ''
              @ ''http://localhost:3001/files/processed_test.xlsx'' @ newline
              @ ''Operation result: Error: Formula must start with ='')"
    unfolding run by (simp add: success_message_def up_def str_of_def)
  show ?thesis
    using r1 tM r2 tV r3 unfolding P_def M_def V_def w2_def T_def
    by (intro conjI)
qed

text \<open>
  Claim C7. A run of \<^verbatim>\<open>process_excel_from_url\<close> that returns, returns the string
  \<^verbatim>\<open>Operation '<op>' completed successfully. Processed file available at: <url>\<close>,
  a newline, \<^verbatim>\<open>Operation result: <message>\<close>, where \<^verbatim>\<open><op>\<close> is the operation name as
  given, \<^verbatim>\<open><url>\<close> is the \<^verbatim>\<open>file_url\<close> of the record the upload returned in this run (the
  file server's access URL followed by \<^verbatim>\<open>processed_\<close> and the URL's basename) and
  \<^verbatim>\<open><message>\<close> is what the dispatched tool returned in this run, formatted as the f-string
  does (\<^verbatim>\<open>str_of\<close>; by \<open>str_of_string\<close> a string stands for itself).
\<close>

theorem success_response_string:
  assumes "fst (process_excel_from_url env url operation operation_params w) = Inr s"
  shows "\<exists>x w1 w2 ps msg w3 up w4.
      download_file_from_url env url (temp_filepath env) w = (Inr x, w1)
      \<and> shutil_copy2 env (temp_filepath env) (processed_filepath env url) w1 = (Inr (), w2)
      \<and> normalize_params env operation_params = Inr ps
      \<and> dispatch env operation (processed_filepath env url) ps w2 = (Inr msg, w3)
      \<and> upload_file_to_server env (processed_filepath env url) w3 = (Inr up, w4)
      \<and> file_url up = ''http://localhost:3001/files/processed_'' @ os_path_basename url
      \<and> s = ''Operation '' @ squote @ operation @ squote
               @ '' completed successfully. Processed file available at: '' @ file_url up
               @ newline @ ''Operation result: '' @ str_of env msg"
proof -
  obtain w' where "process_excel_from_url env url operation operation_params w = (Inr s, w')"
    using assms by (metis prod.collapse)
  from peu_success_stages [OF this] obtain x w1 w2 ps msg w3 up w4 where
    st: "download_file_from_url env url (temp_filepath env) w = (Inr x, w1)"
      "shutil_copy2 env (temp_filepath env) (processed_filepath env url) w1 = (Inr (), w2)"
      "normalize_params env operation_params = Inr ps"
      "dispatch env operation (processed_filepath env url) ps w2 = (Inr msg, w3)"
      "upload_file_to_server env (processed_filepath env url) w3 = (Inr up, w4)"
    and s: "s = success_message env operation up msg"
    by blast
  have "file_url up = ''http://localhost:3001/files/processed_'' @ os_path_basename url"
    using upload_success [OF st(5)] file_access_url [of env url] by auto
  then show ?thesis
    using st s by (auto simp: success_message_def str_of_def)
qed

text \<open>The theorem on the sample run: the spec's end-to-end example.\<close>

theorem success_response_string_witness:
  "fst (process_excel_from_url demo_env demo_url ''apply_formula'' demo_params empty_world)
     = Inr (''Operation '' @ squote @ ''apply_formula'' @ squote
              @ '' completed successfully. Processed file available at: ''
              @ ''http://localhost:3001/files/processed_test.xlsx'' @ newline
              @ ''Operation result: calculations.apply_formula done'')
   \<and> (\<exists>x w1 w2 ps msg w3 up w4.
      download_file_from_url demo_env demo_url (temp_filepath demo_env) empty_world = (Inr x, w1)
      \<and> shutil_copy2 demo_env (temp_filepath demo_env) (processed_filepath demo_env demo_url) w1
            = (Inr (), w2)
      \<and> normalize_params demo_env demo_params = Inr ps
      \<and> dispatch demo_env ''apply_formula'' (processed_filepath demo_env demo_url) ps w2
            = (Inr msg, w3)
      \<and> upload_file_to_server demo_env (processed_filepath demo_env demo_url) w3 = (Inr up, w4)
      \<and> file_url up = ''http://localhost:3001/files/processed_'' @ os_path_basename demo_url
      \<and> ''Operation '' @ squote @ ''apply_formula'' @ squote
              @ '' completed successfully. Processed file available at: ''
              @ ''http://localhost:3001/files/processed_test.xlsx'' @ newline
              @ ''Operation result: calculations.apply_formula done''
           = ''Operation '' @ squote @ ''apply_formula'' @ squote
               @ '' completed successfully. Processed file available at: '' @ file_url up
               @ newline @ ''Operation result: '' @ str_of demo_env msg)"
  using demo_run_fst success_response_string [OF demo_run_fst] by (rule conjI)

text \<open>
  Claim C8. Take an upload of a file that exists and can be read, to which the file server
  returns a response. If the status is not 200, \<^verbatim>\<open>upload_file_to_server\<close> raises a
  \<^verbatim>\<open>WorkbookError\<close> whose message ends in the response's body text (behind the prefix
  "Failed to upload file: ", twice: the function's own handler catches the error it has
  just raised); and a run of \<^verbatim>\<open>process_excel_from_url\<close> that has reached the upload with
  this file and world fails with the message
  "Failed to process Excel from URL: Failed to upload file: Failed to upload file: " followed
  by the body text. If the status is 200, the function returns the record with
  \<^verbatim>\<open>file_url\<close> = \<^verbatim>\<open>http://localhost:3001/files/\<close> followed by the file's basename, and
  that basename as \<^verbatim>\<open>filename\<close>.
\<close>

theorem upload_response_handling:
  assumes "files w p = Some c"
    and "os_fault env ''open_rb'' p = None"
    and "http_post env ''http://localhost:3001/upload'' (os_path_basename p) c = Inr resp"
  shows "(status_code resp \<noteq> 200 \<longrightarrow>
            upload_file_to_server env p w =
              (Inl (Exc WorkbookError
                  (''Failed to upload file: Failed to upload file: '' @ body_text resp) None),
               log_event (HttpPost ''http://localhost:3001/upload'' (os_path_basename p) c) w)
            \<and> (\<forall>url operation operation_params w0 x w1 w2 ps msg.
                  p = processed_filepath env url
                  \<and> download_file_from_url env url (temp_filepath env) w0 = (Inr x, w1)
                  \<and> shutil_copy2 env (temp_filepath env) (processed_filepath env url) w1
                        = (Inr (), w2)
                  \<and> normalize_params env operation_params = Inr ps
                  \<and> dispatch env operation (processed_filepath env url) ps w2 = (Inr msg, w)
                  \<longrightarrow> fst (process_excel_from_url env url operation operation_params w0) =
                        Inl (Exc WorkbookError
                          (''Failed to process Excel from URL: ''
                             @ ''Failed to upload file: Failed to upload file: ''
                             @ body_text resp) None)))
         \<and> (status_code resp = 200 \<longrightarrow>
              upload_file_to_server env p w =
                (Inr \<lparr>up_message = ''File uploaded successfully'',
                      file_url = ''http://localhost:3001/files/'' @ os_path_basename p,
                      up_filename = os_path_basename p\<rparr>,
                 log_event (HttpPost ''http://localhost:3001/upload'' (os_path_basename p) c) w))"
proof -
  have ep: "UPLOAD_ENDPOINT = ''http://localhost:3001/upload''"
    and fa: "FILE_ACCESS_BASE_URL = ''http://localhost:3001/files/''"
    by (simp_all add: UPLOAD_ENDPOINT_def FILE_ACCESS_BASE_URL_def FILE_SERVER_URL_def)
  have post: "http_post env UPLOAD_ENDPOINT (os_path_basename p) c = Inr resp"
    using assms(3) ep by simp
  have ok: "upload_file_to_server env p w =
                (Inr \<lparr>up_message = ''File uploaded successfully'',
                      file_url = ''http://localhost:3001/files/'' @ os_path_basename p,
                      up_filename = os_path_basename p\<rparr>,
                 log_event (HttpPost ''http://localhost:3001/upload'' (os_path_basename p) c) w)"
    if "status_code resp = 200"
    using upload_200 [OF assms(1) assms(2) post that] ep fa by simp
  have bad: "upload_file_to_server env p w =
              (Inl (Exc WorkbookError
                  (''Failed to upload file: Failed to upload file: '' @ body_text resp) None),
               log_event (HttpPost ''http://localhost:3001/upload'' (os_path_basename p) c) w)"
    if "status_code resp \<noteq> 200"
    using upload_non200 [OF assms(1) assms(2) post that] ep by simp
  have run: "fst (process_excel_from_url env url operation operation_params w0) =
                        Inl (Exc WorkbookError
                          (''Failed to process Excel from URL: ''
                             @ ''Failed to upload file: Failed to upload file: ''
                             @ body_text resp) None)"
    if "status_code resp \<noteq> 200" and "p = processed_filepath env url"
      and "download_file_from_url env url (temp_filepath env) w0 = (Inr x, w1)"
      and "shutil_copy2 env (temp_filepath env) (processed_filepath env url) w1 = (Inr (), w2)"
      and "normalize_params env operation_params = Inr ps"
      and "dispatch env operation (processed_filepath env url) ps w2 = (Inr msg, w)"
    for url operation operation_params w0 x w1 w2 ps msg
    using peu_upload_fails [OF that(3) that(4) that(5) that(6)] bad [OF that(1)] that(2)
    by simp
  show ?thesis
    using ok bad run by blast
qed

text \<open>The theorem in the sample environment: the run on \<^verbatim>\<open>http://x/huge.xlsx\<close>, whose upload
  the server refuses with status 413, and the upload of a small file that it accepts.\<close>

theorem upload_response_handling_witness:
  "fst (process_excel_from_url demo_env ''http://x/huge.xlsx'' ''apply_formula'' demo_params
          empty_world)
     = Inl (Exc WorkbookError
         (''Failed to process Excel from URL: ''
            @ ''Failed to upload file: Failed to upload file: file too large'') None)
   \<and> fst (upload_file_to_server demo_env ''/srv/excel_files/processed_test.xlsx''
            \<lparr>files = [''/srv/excel_files/processed_test.xlsx'' \<mapsto> ''PK34''], trace = []\<rparr>)
     = Inr \<lparr>up_message = ''File uploaded successfully'',
            file_url = ''http://localhost:3001/files/processed_test.xlsx'',
            up_filename = ''processed_test.xlsx''\<rparr>"
proof -
  define u where "u = ''http://x/huge.xlsx''"
  define p where "p = processed_filepath demo_env u"
  define w1 where "w1 = snd (download_file_from_url demo_env u (temp_filepath demo_env) empty_world)"
  define w2 where "w2 = snd (shutil_copy2 demo_env (temp_filepath demo_env) p w1)"
  define w3 where "w3 = snd (dispatch demo_env ''apply_formula'' p demo_params w2)"
  have "fst (download_file_from_url demo_env u (temp_filepath demo_env) empty_world)
      = Inr (temp_filepath demo_env)"
    unfolding u_def by code_simp
  then have d: "download_file_from_url demo_env u (temp_filepath demo_env) empty_world
      = (Inr (temp_filepath demo_env), w1)"
    unfolding w1_def by (metis prod.collapse)
  have "fst (shutil_copy2 demo_env (temp_filepath demo_env) p w1) = Inr ()"
    unfolding w1_def p_def u_def by code_simp
  then have c: "shutil_copy2 demo_env (temp_filepath demo_env) (processed_filepath demo_env u) w1
      = (Inr (), w2)"
    unfolding w2_def p_def by (metis prod.collapse)
  have n: "normalize_params demo_env demo_params = Inr demo_params"
    by (rule demo_normalize)
  have "fst (dispatch demo_env ''apply_formula'' p demo_params w2)
      = Inr (PStr ''calculations.apply_formula done'')"
    unfolding w2_def w1_def p_def u_def by code_simp
  then have di: "dispatch demo_env ''apply_formula'' (processed_filepath demo_env u) demo_params w2
      = (Inr (PStr ''calculations.apply_formula done''), w3)"
    unfolding w3_def p_def by (metis prod.collapse)
  have f: "files w3 p = Some ''PK34++''"
    unfolding w3_def w2_def w1_def p_def u_def by code_simp
  have o: "os_fault demo_env ''open_rb'' p = None"
    by (simp add: demo_env_def)
  have bn: "os_path_basename p = ''processed_huge.xlsx''"
    unfolding p_def u_def by code_simp
  have post: "http_post demo_env ''http://localhost:3001/upload'' (os_path_basename p) ''PK34++''
      = Inr \<lparr>status_code = 413, body_text = ''file too large''\<rparr>"
    unfolding bn by (simp add: demo_env_def demo_post_def)
  have "fst (process_excel_from_url demo_env u ''apply_formula'' demo_params empty_world)
     = Inl (Exc WorkbookError
         (''Failed to process Excel from URL: ''
            @ ''Failed to upload file: Failed to upload file: '' @ ''file too large'') None)"
    using upload_response_handling [OF f o post] d c n di p_def by simp
  then have first: "fst (process_excel_from_url demo_env ''http://x/huge.xlsx'' ''apply_formula''
      demo_params empty_world)
     = Inl (Exc WorkbookError
         (''Failed to process Excel from URL: ''
            @ ''Failed to upload file: Failed to upload file: file too large'') None)"
    unfolding u_def by simp
  define q where "q = ''/srv/excel_files/processed_test.xlsx''"
  define v where "v = \<lparr>files = [q \<mapsto> ''PK34''], trace = []\<rparr>"
  have f2: "files v q = Some ''PK34''"
    by (simp add: v_def)
  have o2: "os_fault demo_env ''open_rb'' q = None"
    by (simp add: demo_env_def)
  have bn2: "os_path_basename q = ''processed_test.xlsx''"
    unfolding q_def by code_simp
  have post2: "http_post demo_env ''http://localhost:3001/upload'' (os_path_basename q) ''PK34''
      = Inr \<lparr>status_code = 200, body_text = ''ok''\<rparr>"
    unfolding bn2 by (simp add: demo_env_def demo_post_def)
  have "fst (upload_file_to_server demo_env q v)
     = Inr \<lparr>up_message = ''File uploaded successfully'',
            file_url = ''http://localhost:3001/files/'' @ os_path_basename q,
            up_filename = os_path_basename q\<rparr>"
    using upload_response_handling [OF f2 o2 post2] by simp
  then have second: "fst (upload_file_to_server demo_env ''/srv/excel_files/processed_test.xlsx''
            \<lparr>files = [''/srv/excel_files/processed_test.xlsx'' \<mapsto> ''PK34''], trace = []\<rparr>)
     = Inr \<lparr>up_message = ''File uploaded successfully'',
            file_url = ''http://localhost:3001/files/processed_test.xlsx'',
            up_filename = ''processed_test.xlsx''\<rparr>"
    unfolding bn2 unfolding v_def q_def by simp
  show ?thesis
    using first second by (rule conjI)
qed

text \<open>
  Claim C9. \<^verbatim>\<open>get_excel_path\<close> returns an absolute filename as it is, whatever the working
  directory (so the result need not lie under it), and joins any other filename under
  \<^verbatim>\<open>EXCEL_FILES_PATH\<close>. Each of the eighteen tools that take a \<^verbatim>\<open>filepath\<close> uses it through
  this function only: two filepaths with the same resolved path give the same run. For the
  fifteen tools that call the spreadsheet library, every call into the library is made with
  the resolved path, and no other file changes (\<^verbatim>\<open>lib_step\<close>); the other three hand the
  resolved path to workbook.py. Each tool does make that call: the table lists, for every
  tool of \<^verbatim>\<open>direct_tools\<close>, the function it calls first and the error classes its handler
  turns into a string. Whatever that function does when called with the resolved path, the
  tool does: when the call raises, the tool ends in the world the call left, returning
  "Error: " and the message for a listed class and raising the error otherwise; when the
  call returns, the tool ends in the world the call left, \<^verbatim>\<open>apply_formula\<close> apart, which
  may go on to one call of \<^verbatim>\<open>calculations.apply_formula\<close> with the same resolved path. A
  call into the library is recorded with the path it is given and runs the library on the
  file at that path.
\<close>

theorem tools_resolve_filepath:
  "(os_path_isabs filename \<longrightarrow> get_excel_path env filename = filename)
   \<and> (\<not> os_path_isabs filename \<longrightarrow>
        get_excel_path env filename = os_path_join (EXCEL_FILES_PATH env) filename
        \<and> get_excel_path env filename
            = (if EXCEL_FILES_PATH env = [] \<or> last (EXCEL_FILES_PATH env) = CHR ''/''
               then EXCEL_FILES_PATH env @ filename
               else EXCEL_FILES_PATH env @ ''/'' @ filename))
   \<and> length (direct_tools env) = 18
   \<and> (\<forall>(name, tool) \<in> set (direct_tools env).
        (\<forall>f f' a. get_excel_path env f = get_excel_path env f' \<longrightarrow> tool f a = tool f' a)
        \<and> (name \<notin> {''create_workbook'', ''create_worksheet'', ''get_workbook_metadata''}
             \<longrightarrow> (\<forall>f a w. lib_step (get_excel_path env f) w (snd (tool f a w)))))
   \<and> (\<forall>(name, tool, callee, kinds) \<in> set
        [(''apply_formula'', apply_formula env, (\<lambda>path a. lib_call env
           ''validation.validate_formula_in_cell_operation'' path (args_of a [''sheet_name'',
           ''cell'', ''formula''])), [ValidationError, CalculationError]),
         (''validate_formula_syntax'', validate_formula_syntax env, (\<lambda>path a. lib_call
           env ''validation.validate_formula_in_cell_operation'' path (args_of a [''sheet_name'',
           ''cell'', ''formula''])), [ValidationError, CalculationError]),
         (''format_range'', format_range env, (\<lambda>path a. lib_call env
           ''formatting.format_range'' path (args_of a [''sheet_name'', ''start_cell'',
           ''end_cell'', ''bold'', ''italic'', ''underline'', ''font_size'', ''font_color'',
           ''bg_color'', ''border_style'', ''border_color'', ''number_format'', ''alignment'',
           ''wrap_text'', ''merge_cells'', ''protection'', ''conditional_format''])),
           [ValidationError, FormattingError]),
         (''read_data_from_excel'', read_data_from_excel env, (\<lambda>path a. lib_call env
           ''data.read_excel_range'' path (args_of a [''sheet_name'', ''start_cell'',
           ''end_cell'', ''preview_only''])), []),
         (''write_data_to_excel'', write_data_to_excel env, (\<lambda>path a. lib_call env
           ''data.write_data'' path (args_of a [''sheet_name'', ''data'', ''start_cell'',
           ''write_headers''])), [ValidationError, DataError]),
         (''create_workbook'', create_workbook env, (\<lambda>path a. workbook_py env
           ''create_workbook'' path (args_of a [''upload''])), [WorkbookError]),
         (''create_worksheet'', create_worksheet env, (\<lambda>path a. workbook_py env
           ''create_sheet'' path (args_of a [''sheet_name''])), [ValidationError, WorkbookError]),
         (''create_chart'', create_chart env, (\<lambda>path a. lib_call env
           ''chart.create_chart_in_sheet'' path (args_of a [''sheet_name'', ''data_range'',
           ''chart_type'', ''target_cell'', ''title'', ''x_axis'', ''y_axis''])),
           [ValidationError, ChartError]),
         (''create_pivot_table'', create_pivot_table env, (\<lambda>path a. lib_call env
           ''pivot.create_pivot_table'' path [(''sheet_name'', arg a ''sheet_name''),
           (''data_range'', arg a ''data_range''), (''rows'', arg a ''rows''), (''values'', arg a
           ''values''), (''columns'', if truthy (arg a ''columns'') then arg a ''columns'' else
           PList []), (''agg_func'', arg a ''agg_func'')]), [ValidationError, PivotError]),
         (''copy_worksheet'', copy_worksheet env, (\<lambda>path a. lib_call env
           ''sheet.copy_sheet'' path (args_of a [''source_sheet'', ''target_sheet''])),
           [ValidationError, SheetError]),
         (''delete_worksheet'', delete_worksheet env, (\<lambda>path a. lib_call env
           ''sheet.delete_sheet'' path (args_of a [''sheet_name''])), [ValidationError,
           SheetError]),
         (''rename_worksheet'', rename_worksheet env, (\<lambda>path a. lib_call env
           ''sheet.rename_sheet'' path (args_of a [''old_name'', ''new_name''])),
           [ValidationError, SheetError]),
         (''get_workbook_metadata'', get_workbook_metadata env, (\<lambda>path a. workbook_py
           env ''get_workbook_info'' path (args_of a [''include_ranges''])), [WorkbookError]),
         (''merge_cells'', merge_cells env, (\<lambda>path a. lib_call env ''sheet.merge_range''
           path (args_of a [''sheet_name'', ''start_cell'', ''end_cell''])), [ValidationError,
           SheetError]),
         (''unmerge_cells'', unmerge_cells env, (\<lambda>path a. lib_call env
           ''sheet.unmerge_range'' path (args_of a [''sheet_name'', ''start_cell'',
           ''end_cell''])), [ValidationError, SheetError]),
         (''copy_range'', copy_range env, (\<lambda>path a. lib_call env
           ''sheet.copy_range_operation'' path (args_of a [''sheet_name'', ''source_start'',
           ''source_end'', ''target_start'', ''target_sheet''])), [ValidationError, SheetError]),
         (''delete_range'', delete_range env, (\<lambda>path a. lib_call env
           ''sheet.delete_range_operation'' path (args_of a [''sheet_name'', ''start_cell'',
           ''end_cell'', ''shift_direction''])), [ValidationError, SheetError]),
         (''validate_excel_range'', validate_excel_range env, (\<lambda>path a. lib_call env
           ''validation.validate_range_in_sheet_operation'' path [(''sheet_name'', arg a
           ''sheet_name''), (''range_str'', if \<not> truthy (arg a ''end_cell'') then arg a
           ''start_cell'' else PStr (str_of env (arg a ''start_cell'') @ '':'' @ str_of env (arg a
           ''end_cell'')))]), [ValidationError])].
      \<forall>f a w r w'.
         callee (get_excel_path env f) a w = (r, w')
         \<longrightarrow> (\<forall>e. r = Inl e \<longrightarrow>
               tool f a w = (if kind e \<in> set kinds then Inr (PStr (''Error: '' @ message e))
                             else Inl e, w'))
            \<and> (snd (tool f a w) = w'
               \<or> name = ''apply_formula''
                 \<and> snd (tool f a w)
                     = snd (lib_call env ''calculations.apply_formula'' (get_excel_path env f)
                              (args_of a [''sheet_name'', ''cell'', ''formula'']) w')))
   \<and> map (\<lambda>(name, tool, callee, kinds). (name, tool))
        [(''apply_formula'', apply_formula env, (\<lambda>path a. lib_call env
           ''validation.validate_formula_in_cell_operation'' path (args_of a [''sheet_name'',
           ''cell'', ''formula''])), [ValidationError, CalculationError]),
         (''validate_formula_syntax'', validate_formula_syntax env, (\<lambda>path a. lib_call
           env ''validation.validate_formula_in_cell_operation'' path (args_of a [''sheet_name'',
           ''cell'', ''formula''])), [ValidationError, CalculationError]),
         (''format_range'', format_range env, (\<lambda>path a. lib_call env
           ''formatting.format_range'' path (args_of a [''sheet_name'', ''start_cell'',
           ''end_cell'', ''bold'', ''italic'', ''underline'', ''font_size'', ''font_color'',
           ''bg_color'', ''border_style'', ''border_color'', ''number_format'', ''alignment'',
           ''wrap_text'', ''merge_cells'', ''protection'', ''conditional_format''])),
           [ValidationError, FormattingError]),
         (''read_data_from_excel'', read_data_from_excel env, (\<lambda>path a. lib_call env
           ''data.read_excel_range'' path (args_of a [''sheet_name'', ''start_cell'',
           ''end_cell'', ''preview_only''])), []),
         (''write_data_to_excel'', write_data_to_excel env, (\<lambda>path a. lib_call env
           ''data.write_data'' path (args_of a [''sheet_name'', ''data'', ''start_cell'',
           ''write_headers''])), [ValidationError, DataError]),
         (''create_workbook'', create_workbook env, (\<lambda>path a. workbook_py env
           ''create_workbook'' path (args_of a [''upload''])), [WorkbookError]),
         (''create_worksheet'', create_worksheet env, (\<lambda>path a. workbook_py env
           ''create_sheet'' path (args_of a [''sheet_name''])), [ValidationError, WorkbookError]),
         (''create_chart'', create_chart env, (\<lambda>path a. lib_call env
           ''chart.create_chart_in_sheet'' path (args_of a [''sheet_name'', ''data_range'',
           ''chart_type'', ''target_cell'', ''title'', ''x_axis'', ''y_axis''])),
           [ValidationError, ChartError]),
         (''create_pivot_table'', create_pivot_table env, (\<lambda>path a. lib_call env
           ''pivot.create_pivot_table'' path [(''sheet_name'', arg a ''sheet_name''),
           (''data_range'', arg a ''data_range''), (''rows'', arg a ''rows''), (''values'', arg a
           ''values''), (''columns'', if truthy (arg a ''columns'') then arg a ''columns'' else
           PList []), (''agg_func'', arg a ''agg_func'')]), [ValidationError, PivotError]),
         (''copy_worksheet'', copy_worksheet env, (\<lambda>path a. lib_call env
           ''sheet.copy_sheet'' path (args_of a [''source_sheet'', ''target_sheet''])),
           [ValidationError, SheetError]),
         (''delete_worksheet'', delete_worksheet env, (\<lambda>path a. lib_call env
           ''sheet.delete_sheet'' path (args_of a [''sheet_name''])), [ValidationError,
           SheetError]),
         (''rename_worksheet'', rename_worksheet env, (\<lambda>path a. lib_call env
           ''sheet.rename_sheet'' path (args_of a [''old_name'', ''new_name''])),
           [ValidationError, SheetError]),
         (''get_workbook_metadata'', get_workbook_metadata env, (\<lambda>path a. workbook_py
           env ''get_workbook_info'' path (args_of a [''include_ranges''])), [WorkbookError]),
         (''merge_cells'', merge_cells env, (\<lambda>path a. lib_call env ''sheet.merge_range''
           path (args_of a [''sheet_name'', ''start_cell'', ''end_cell''])), [ValidationError,
           SheetError]),
         (''unmerge_cells'', unmerge_cells env, (\<lambda>path a. lib_call env
           ''sheet.unmerge_range'' path (args_of a [''sheet_name'', ''start_cell'',
           ''end_cell''])), [ValidationError, SheetError]),
         (''copy_range'', copy_range env, (\<lambda>path a. lib_call env
           ''sheet.copy_range_operation'' path (args_of a [''sheet_name'', ''source_start'',
           ''source_end'', ''target_start'', ''target_sheet''])), [ValidationError, SheetError]),
         (''delete_range'', delete_range env, (\<lambda>path a. lib_call env
           ''sheet.delete_range_operation'' path (args_of a [''sheet_name'', ''start_cell'',
           ''end_cell'', ''shift_direction''])), [ValidationError, SheetError]),
         (''validate_excel_range'', validate_excel_range env, (\<lambda>path a. lib_call env
           ''validation.validate_range_in_sheet_operation'' path [(''sheet_name'', arg a
           ''sheet_name''), (''range_str'', if \<not> truthy (arg a ''end_cell'') then arg a
           ''start_cell'' else PStr (str_of env (arg a ''start_cell'') @ '':'' @ str_of env (arg a
           ''end_cell'')))]), [ValidationError])]
       = direct_tools env
   \<and> (\<forall>n p args w.
        trace (snd (lib_call env n p args w)) = trace w @ [LibCall n p args]
        \<and> fst (lib_call env n p args w) = fst (lib env n p args (files w p)))"
proof -
  have a: "os_path_isabs filename \<longrightarrow> get_excel_path env filename = filename"
    by (simp add: get_excel_path_def)
  have b: "\<not> os_path_isabs filename \<longrightarrow>
        get_excel_path env filename = os_path_join (EXCEL_FILES_PATH env) filename
        \<and> get_excel_path env filename
            = (if EXCEL_FILES_PATH env = [] \<or> last (EXCEL_FILES_PATH env) = CHR ''/''
               then EXCEL_FILES_PATH env @ filename
               else EXCEL_FILES_PATH env @ ''/'' @ filename)"
    by (simp add: get_excel_path_def os_path_join_def)
  have c: "length (direct_tools env) = 18"
    by (simp add: direct_tools_def)
  have d: "\<forall>(name, tool) \<in> set (direct_tools env).
        (\<forall>f f' a. get_excel_path env f = get_excel_path env f' \<longrightarrow> tool f a = tool f' a)
        \<and> (name \<notin> {''create_workbook'', ''create_worksheet'', ''get_workbook_metadata''}
             \<longrightarrow> (\<forall>f a w. lib_step (get_excel_path env f) w (snd (tool f a w))))"
  proof (rule ballI, clarify, intro conjI allI impI)
    fix name tool f f' a
    assume "(name, tool) \<in> set (direct_tools env)"
      and "get_excel_path env f = get_excel_path env f'"
    then show "tool f a = tool f' a"
      by (rule direct_tools_resolve)
  next
    fix name tool f a w
    assume "(name, tool) \<in> set (direct_tools env)"
      and "name \<notin> {''create_workbook'', ''create_worksheet'', ''get_workbook_metadata''}"
    then show "lib_step (get_excel_path env f) w (snd (tool f a w))"
      by (rule direct_tools_library_path)
  qed
  have e: "\<forall>(name, tool, callee, kinds) \<in> set
        [(''apply_formula'', apply_formula env, (\<lambda>path a. lib_call env
           ''validation.validate_formula_in_cell_operation'' path (args_of a [''sheet_name'',
           ''cell'', ''formula''])), [ValidationError, CalculationError]),
         (''validate_formula_syntax'', validate_formula_syntax env, (\<lambda>path a. lib_call
           env ''validation.validate_formula_in_cell_operation'' path (args_of a [''sheet_name'',
           ''cell'', ''formula''])), [ValidationError, CalculationError]),
         (''format_range'', format_range env, (\<lambda>path a. lib_call env
           ''formatting.format_range'' path (args_of a [''sheet_name'', ''start_cell'',
           ''end_cell'', ''bold'', ''italic'', ''underline'', ''font_size'', ''font_color'',
           ''bg_color'', ''border_style'', ''border_color'', ''number_format'', ''alignment'',
           ''wrap_text'', ''merge_cells'', ''protection'', ''conditional_format''])),
           [ValidationError, FormattingError]),
         (''read_data_from_excel'', read_data_from_excel env, (\<lambda>path a. lib_call env
           ''data.read_excel_range'' path (args_of a [''sheet_name'', ''start_cell'',
           ''end_cell'', ''preview_only''])), []),
         (''write_data_to_excel'', write_data_to_excel env, (\<lambda>path a. lib_call env
           ''data.write_data'' path (args_of a [''sheet_name'', ''data'', ''start_cell'',
           ''write_headers''])), [ValidationError, DataError]),
         (''create_workbook'', create_workbook env, (\<lambda>path a. workbook_py env
           ''create_workbook'' path (args_of a [''upload''])), [WorkbookError]),
         (''create_worksheet'', create_worksheet env, (\<lambda>path a. workbook_py env
           ''create_sheet'' path (args_of a [''sheet_name''])), [ValidationError, WorkbookError]),
         (''create_chart'', create_chart env, (\<lambda>path a. lib_call env
           ''chart.create_chart_in_sheet'' path (args_of a [''sheet_name'', ''data_range'',
           ''chart_type'', ''target_cell'', ''title'', ''x_axis'', ''y_axis''])),
           [ValidationError, ChartError]),
         (''create_pivot_table'', create_pivot_table env, (\<lambda>path a. lib_call env
           ''pivot.create_pivot_table'' path [(''sheet_name'', arg a ''sheet_name''),
           (''data_range'', arg a ''data_range''), (''rows'', arg a ''rows''), (''values'', arg a
           ''values''), (''columns'', if truthy (arg a ''columns'') then arg a ''columns'' else
           PList []), (''agg_func'', arg a ''agg_func'')]), [ValidationError, PivotError]),
         (''copy_worksheet'', copy_worksheet env, (\<lambda>path a. lib_call env
           ''sheet.copy_sheet'' path (args_of a [''source_sheet'', ''target_sheet''])),
           [ValidationError, SheetError]),
         (''delete_worksheet'', delete_worksheet env, (\<lambda>path a. lib_call env
           ''sheet.delete_sheet'' path (args_of a [''sheet_name''])), [ValidationError,
           SheetError]),
         (''rename_worksheet'', rename_worksheet env, (\<lambda>path a. lib_call env
           ''sheet.rename_sheet'' path (args_of a [''old_name'', ''new_name''])),
           [ValidationError, SheetError]),
         (''get_workbook_metadata'', get_workbook_metadata env, (\<lambda>path a. workbook_py
           env ''get_workbook_info'' path (args_of a [''include_ranges''])), [WorkbookError]),
         (''merge_cells'', merge_cells env, (\<lambda>path a. lib_call env ''sheet.merge_range''
           path (args_of a [''sheet_name'', ''start_cell'', ''end_cell''])), [ValidationError,
           SheetError]),
         (''unmerge_cells'', unmerge_cells env, (\<lambda>path a. lib_call env
           ''sheet.unmerge_range'' path (args_of a [''sheet_name'', ''start_cell'',
           ''end_cell''])), [ValidationError, SheetError]),
         (''copy_range'', copy_range env, (\<lambda>path a. lib_call env
           ''sheet.copy_range_operation'' path (args_of a [''sheet_name'', ''source_start'',
           ''source_end'', ''target_start'', ''target_sheet''])), [ValidationError, SheetError]),
         (''delete_range'', delete_range env, (\<lambda>path a. lib_call env
           ''sheet.delete_range_operation'' path (args_of a [''sheet_name'', ''start_cell'',
           ''end_cell'', ''shift_direction''])), [ValidationError, SheetError]),
         (''validate_excel_range'', validate_excel_range env, (\<lambda>path a. lib_call env
           ''validation.validate_range_in_sheet_operation'' path [(''sheet_name'', arg a
           ''sheet_name''), (''range_str'', if \<not> truthy (arg a ''end_cell'') then arg a
           ''start_cell'' else PStr (str_of env (arg a ''start_cell'') @ '':'' @ str_of env (arg a
           ''end_cell'')))]), [ValidationError])].
      \<forall>f a w r w'.
         callee (get_excel_path env f) a w = (r, w')
         \<longrightarrow> (\<forall>e. r = Inl e \<longrightarrow>
               tool f a w = (if kind e \<in> set kinds then Inr (PStr (''Error: '' @ message e))
                             else Inl e, w'))
            \<and> (snd (tool f a w) = w'
               \<or> name = ''apply_formula''
                 \<and> snd (tool f a w)
                     = snd (lib_call env ''calculations.apply_formula'' (get_excel_path env f)
                              (args_of a [''sheet_name'', ''cell'', ''formula'']) w'))"
  proof (rule ballI)
    fix x
    assume x: "x \<in> set
        [(''apply_formula'', apply_formula env, (\<lambda>path a. lib_call env
           ''validation.validate_formula_in_cell_operation'' path (args_of a [''sheet_name'',
           ''cell'', ''formula''])), [ValidationError, CalculationError]),
         (''validate_formula_syntax'', validate_formula_syntax env, (\<lambda>path a. lib_call
           env ''validation.validate_formula_in_cell_operation'' path (args_of a [''sheet_name'',
           ''cell'', ''formula''])), [ValidationError, CalculationError]),
         (''format_range'', format_range env, (\<lambda>path a. lib_call env
           ''formatting.format_range'' path (args_of a [''sheet_name'', ''start_cell'',
           ''end_cell'', ''bold'', ''italic'', ''underline'', ''font_size'', ''font_color'',
           ''bg_color'', ''border_style'', ''border_color'', ''number_format'', ''alignment'',
           ''wrap_text'', ''merge_cells'', ''protection'', ''conditional_format''])),
           [ValidationError, FormattingError]),
         (''read_data_from_excel'', read_data_from_excel env, (\<lambda>path a. lib_call env
           ''data.read_excel_range'' path (args_of a [''sheet_name'', ''start_cell'',
           ''end_cell'', ''preview_only''])), []),
         (''write_data_to_excel'', write_data_to_excel env, (\<lambda>path a. lib_call env
           ''data.write_data'' path (args_of a [''sheet_name'', ''data'', ''start_cell'',
           ''write_headers''])), [ValidationError, DataError]),
         (''create_workbook'', create_workbook env, (\<lambda>path a. workbook_py env
           ''create_workbook'' path (args_of a [''upload''])), [WorkbookError]),
         (''create_worksheet'', create_worksheet env, (\<lambda>path a. workbook_py env
           ''create_sheet'' path (args_of a [''sheet_name''])), [ValidationError, WorkbookError]),
         (''create_chart'', create_chart env, (\<lambda>path a. lib_call env
           ''chart.create_chart_in_sheet'' path (args_of a [''sheet_name'', ''data_range'',
           ''chart_type'', ''target_cell'', ''title'', ''x_axis'', ''y_axis''])),
           [ValidationError, ChartError]),
         (''create_pivot_table'', create_pivot_table env, (\<lambda>path a. lib_call env
           ''pivot.create_pivot_table'' path [(''sheet_name'', arg a ''sheet_name''),
           (''data_range'', arg a ''data_range''), (''rows'', arg a ''rows''), (''values'', arg a
           ''values''), (''columns'', if truthy (arg a ''columns'') then arg a ''columns'' else
           PList []), (''agg_func'', arg a ''agg_func'')]), [ValidationError, PivotError]),
         (''copy_worksheet'', copy_worksheet env, (\<lambda>path a. lib_call env
           ''sheet.copy_sheet'' path (args_of a [''source_sheet'', ''target_sheet''])),
           [ValidationError, SheetError]),
         (''delete_worksheet'', delete_worksheet env, (\<lambda>path a. lib_call env
           ''sheet.delete_sheet'' path (args_of a [''sheet_name''])), [ValidationError,
           SheetError]),
         (''rename_worksheet'', rename_worksheet env, (\<lambda>path a. lib_call env
           ''sheet.rename_sheet'' path (args_of a [''old_name'', ''new_name''])),
           [ValidationError, SheetError]),
         (''get_workbook_metadata'', get_workbook_metadata env, (\<lambda>path a. workbook_py
           env ''get_workbook_info'' path (args_of a [''include_ranges''])), [WorkbookError]),
         (''merge_cells'', merge_cells env, (\<lambda>path a. lib_call env ''sheet.merge_range''
           path (args_of a [''sheet_name'', ''start_cell'', ''end_cell''])), [ValidationError,
           SheetError]),
         (''unmerge_cells'', unmerge_cells env, (\<lambda>path a. lib_call env
           ''sheet.unmerge_range'' path (args_of a [''sheet_name'', ''start_cell'',
           ''end_cell''])), [ValidationError, SheetError]),
         (''copy_range'', copy_range env, (\<lambda>path a. lib_call env
           ''sheet.copy_range_operation'' path (args_of a [''sheet_name'', ''source_start'',
           ''source_end'', ''target_start'', ''target_sheet''])), [ValidationError, SheetError]),
         (''delete_range'', delete_range env, (\<lambda>path a. lib_call env
           ''sheet.delete_range_operation'' path (args_of a [''sheet_name'', ''start_cell'',
           ''end_cell'', ''shift_direction''])), [ValidationError, SheetError]),
         (''validate_excel_range'', validate_excel_range env, (\<lambda>path a. lib_call env
           ''validation.validate_range_in_sheet_operation'' path [(''sheet_name'', arg a
           ''sheet_name''), (''range_str'', if \<not> truthy (arg a ''end_cell'') then arg a
           ''start_cell'' else PStr (str_of env (arg a ''start_cell'') @ '':'' @ str_of env (arg a
           ''end_cell'')))]), [ValidationError])]"
    obtain n t c k where xe: "x = (n, t, c, k)"
      by (cases x)
    have "\<forall>f a w r w'.
          c (get_excel_path env f) a w = (r, w')
          \<longrightarrow> (\<forall>e. r = Inl e \<longrightarrow>
                t f a w = (if kind e \<in> set k then Inr (PStr (''Error: '' @ message e))
                              else Inl e, w'))
             \<and> (snd (t f a w) = w'
                \<or> n = ''apply_formula''
                  \<and> snd (t f a w)
                      = snd (lib_call env ''calculations.apply_formula'' (get_excel_path env f)
                               (args_of a [''sheet_name'', ''cell'', ''formula'']) w'))"
    proof (intro allI impI)
      fix f a w r w'
      assume run: "c (get_excel_path env f) a w = (r, w')"
      show "(\<forall>e. r = Inl e \<longrightarrow>
                t f a w = (if kind e \<in> set k then Inr (PStr (''Error: '' @ message e))
                              else Inl e, w'))
             \<and> (snd (t f a w) = w'
                \<or> n = ''apply_formula''
                  \<and> snd (t f a w)
                      = snd (lib_call env ''calculations.apply_formula'' (get_excel_path env f)
                               (args_of a [''sheet_name'', ''cell'', ''formula'']) w'))"
        by (rule direct_tools_first_call [OF x [unfolded xe] run])
    qed
    then show "case x of (name, tool, callee, kinds) \<Rightarrow>
      \<forall>f a w r w'.
         callee (get_excel_path env f) a w = (r, w')
         \<longrightarrow> (\<forall>e. r = Inl e \<longrightarrow>
               tool f a w = (if kind e \<in> set kinds then Inr (PStr (''Error: '' @ message e))
                             else Inl e, w'))
            \<and> (snd (tool f a w) = w'
               \<or> name = ''apply_formula''
                 \<and> snd (tool f a w)
                     = snd (lib_call env ''calculations.apply_formula'' (get_excel_path env f)
                              (args_of a [''sheet_name'', ''cell'', ''formula'']) w'))"
      unfolding xe prod.case .
  qed
  have g: "map (\<lambda>(name, tool, callee, kinds). (name, tool))
        [(''apply_formula'', apply_formula env, (\<lambda>path a. lib_call env
           ''validation.validate_formula_in_cell_operation'' path (args_of a [''sheet_name'',
           ''cell'', ''formula''])), [ValidationError, CalculationError]),
         (''validate_formula_syntax'', validate_formula_syntax env, (\<lambda>path a. lib_call
           env ''validation.validate_formula_in_cell_operation'' path (args_of a [''sheet_name'',
           ''cell'', ''formula''])), [ValidationError, CalculationError]),
         (''format_range'', format_range env, (\<lambda>path a. lib_call env
           ''formatting.format_range'' path (args_of a [''sheet_name'', ''start_cell'',
           ''end_cell'', ''bold'', ''italic'', ''underline'', ''font_size'', ''font_color'',
           ''bg_color'', ''border_style'', ''border_color'', ''number_format'', ''alignment'',
           ''wrap_text'', ''merge_cells'', ''protection'', ''conditional_format''])),
           [ValidationError, FormattingError]),
         (''read_data_from_excel'', read_data_from_excel env, (\<lambda>path a. lib_call env
           ''data.read_excel_range'' path (args_of a [''sheet_name'', ''start_cell'',
           ''end_cell'', ''preview_only''])), []),
         (''write_data_to_excel'', write_data_to_excel env, (\<lambda>path a. lib_call env
           ''data.write_data'' path (args_of a [''sheet_name'', ''data'', ''start_cell'',
           ''write_headers''])), [ValidationError, DataError]),
         (''create_workbook'', create_workbook env, (\<lambda>path a. workbook_py env
           ''create_workbook'' path (args_of a [''upload''])), [WorkbookError]),
         (''create_worksheet'', create_worksheet env, (\<lambda>path a. workbook_py env
           ''create_sheet'' path (args_of a [''sheet_name''])), [ValidationError, WorkbookError]),
         (''create_chart'', create_chart env, (\<lambda>path a. lib_call env
           ''chart.create_chart_in_sheet'' path (args_of a [''sheet_name'', ''data_range'',
           ''chart_type'', ''target_cell'', ''title'', ''x_axis'', ''y_axis''])),
           [ValidationError, ChartError]),
         (''create_pivot_table'', create_pivot_table env, (\<lambda>path a. lib_call env
           ''pivot.create_pivot_table'' path [(''sheet_name'', arg a ''sheet_name''),
           (''data_range'', arg a ''data_range''), (''rows'', arg a ''rows''), (''values'', arg a
           ''values''), (''columns'', if truthy (arg a ''columns'') then arg a ''columns'' else
           PList []), (''agg_func'', arg a ''agg_func'')]), [ValidationError, PivotError]),
         (''copy_worksheet'', copy_worksheet env, (\<lambda>path a. lib_call env
           ''sheet.copy_sheet'' path (args_of a [''source_sheet'', ''target_sheet''])),
           [ValidationError, SheetError]),
         (''delete_worksheet'', delete_worksheet env, (\<lambda>path a. lib_call env
           ''sheet.delete_sheet'' path (args_of a [''sheet_name''])), [ValidationError,
           SheetError]),
         (''rename_worksheet'', rename_worksheet env, (\<lambda>path a. lib_call env
           ''sheet.rename_sheet'' path (args_of a [''old_name'', ''new_name''])),
           [ValidationError, SheetError]),
         (''get_workbook_metadata'', get_workbook_metadata env, (\<lambda>path a. workbook_py
           env ''get_workbook_info'' path (args_of a [''include_ranges''])), [WorkbookError]),
         (''merge_cells'', merge_cells env, (\<lambda>path a. lib_call env ''sheet.merge_range''
           path (args_of a [''sheet_name'', ''start_cell'', ''end_cell''])), [ValidationError,
           SheetError]),
         (''unmerge_cells'', unmerge_cells env, (\<lambda>path a. lib_call env
           ''sheet.unmerge_range'' path (args_of a [''sheet_name'', ''start_cell'',
           ''end_cell''])), [ValidationError, SheetError]),
         (''copy_range'', copy_range env, (\<lambda>path a. lib_call env
           ''sheet.copy_range_operation'' path (args_of a [''sheet_name'', ''source_start'',
           ''source_end'', ''target_start'', ''target_sheet''])), [ValidationError, SheetError]),
         (''delete_range'', delete_range env, (\<lambda>path a. lib_call env
           ''sheet.delete_range_operation'' path (args_of a [''sheet_name'', ''start_cell'',
           ''end_cell'', ''shift_direction''])), [ValidationError, SheetError]),
         (''validate_excel_range'', validate_excel_range env, (\<lambda>path a. lib_call env
           ''validation.validate_range_in_sheet_operation'' path [(''sheet_name'', arg a
           ''sheet_name''), (''range_str'', if \<not> truthy (arg a ''end_cell'') then arg a
           ''start_cell'' else PStr (str_of env (arg a ''start_cell'') @ '':'' @ str_of env (arg a
           ''end_cell'')))]), [ValidationError])]
       = direct_tools env"
    by (simp add: direct_tools_def)
  have h: "\<forall>n p args w.
        trace (snd (lib_call env n p args w)) = trace w @ [LibCall n p args]
        \<and> fst (lib_call env n p args w) = fst (lib env n p args (files w p))"
    by (intro allI) (rule lib_call_at_path)
  show ?thesis
    by (intro conjI) (rule a, rule b, rule c, rule d, rule e, rule g, rule h)
qed

text \<open>The theorem in the sample environment: an absolute path outside the working
  directory, a relative one, \<^verbatim>\<open>apply_formula\<close> on two spellings of one file, and
  \<^verbatim>\<open>apply_formula\<close> on a file that does not exist, where the library is called with the
  resolved path and its error is raised by the tool.\<close>

theorem tools_resolve_filepath_witness:
  "os_path_isabs ''/etc/passwd''
   \<and> get_excel_path demo_env ''/etc/passwd'' = ''/etc/passwd''
   \<and> \<not> os_path_isabs ''book.xlsx''
   \<and> get_excel_path demo_env ''book.xlsx'' = ''/srv/excel_files/book.xlsx''
   \<and> (''apply_formula'', apply_formula demo_env) \<in> set (direct_tools demo_env)
   \<and> get_excel_path demo_env ''book.xlsx'' = get_excel_path demo_env ''/srv/excel_files/book.xlsx''
   \<and> apply_formula demo_env ''book.xlsx'' [] empty_world
       = apply_formula demo_env ''/srv/excel_files/book.xlsx'' [] empty_world
   \<and> lib_step ''/srv/excel_files/book.xlsx'' empty_world
        (snd (apply_formula demo_env ''book.xlsx'' [] empty_world))
   \<and> fst (lib_call demo_env ''validation.validate_formula_in_cell_operation''
            ''/srv/excel_files/book.xlsx''
            (args_of [] [''sheet_name'', ''cell'', ''formula'']) empty_world)
       = Inl (no_such_file ''/srv/excel_files/book.xlsx'')
   \<and> fst (apply_formula demo_env ''book.xlsx'' [] empty_world)
       = Inl (no_such_file ''/srv/excel_files/book.xlsx'')
   \<and> trace (snd (apply_formula demo_env ''book.xlsx'' [] empty_world))
       = [LibCall ''validation.validate_formula_in_cell_operation''
            ''/srv/excel_files/book.xlsx'' [(''sheet_name'', PNone), (''cell'', PNone), (''formula'', PNone)]]"
proof -
  have abs: "os_path_isabs ''/etc/passwd''" and rel: "\<not> os_path_isabs ''book.xlsx''"
    by (simp_all add: os_path_isabs_def)
  have mem: "(''apply_formula'', apply_formula demo_env) \<in> set (direct_tools demo_env)"
    by (simp add: direct_tools_def)
  have nm: "''apply_formula''
      \<notin> {''create_workbook'', ''create_worksheet'', ''get_workbook_metadata''}"
    by simp
  note inst1 = tools_resolve_filepath [of "''/etc/passwd''" demo_env]
  note inst2 = tools_resolve_filepath [of "''book.xlsx''" demo_env]
  have p1: "get_excel_path demo_env ''/etc/passwd'' = ''/etc/passwd''"
    using inst1 [THEN conjunct1] abs by simp
  have "os_path_join (EXCEL_FILES_PATH demo_env) ''book.xlsx'' = ''/srv/excel_files/book.xlsx''"
    by (simp add: demo_env_def os_path_join_def os_path_isabs_def)
  moreover have "get_excel_path demo_env ''book.xlsx''
      = os_path_join (EXCEL_FILES_PATH demo_env) ''book.xlsx''"
    using inst2 [THEN conjunct2, THEN conjunct1] rel by simp
  ultimately have p2: "get_excel_path demo_env ''book.xlsx'' = ''/srv/excel_files/book.xlsx''"
    by simp
  have p3: "get_excel_path demo_env ''/srv/excel_files/book.xlsx'' = ''/srv/excel_files/book.xlsx''"
    by (simp add: get_excel_path_def os_path_isabs_def)
  have same: "get_excel_path demo_env ''book.xlsx''
      = get_excel_path demo_env ''/srv/excel_files/book.xlsx''"
    using p2 p3 by simp
  have ball: "\<forall>(name, tool) \<in> set (direct_tools demo_env).
        (\<forall>f f' a. get_excel_path demo_env f = get_excel_path demo_env f'
           \<longrightarrow> tool f a = tool f' a)
        \<and> (name \<notin> {''create_workbook'', ''create_worksheet'', ''get_workbook_metadata''}
             \<longrightarrow> (\<forall>f a w. lib_step (get_excel_path demo_env f) w (snd (tool f a w))))"
    by (rule inst2 [THEN conjunct2, THEN conjunct2, THEN conjunct2, THEN conjunct1])
  note t = bspec [OF ball mem, unfolded prod.case]
  note t1 = t [THEN conjunct1]
  note t2 = t [THEN conjunct2, THEN mp, OF nm]
  have eq: "apply_formula demo_env ''book.xlsx'' [] empty_world
       = apply_formula demo_env ''/srv/excel_files/book.xlsx'' [] empty_world"
    by (rule fun_cong [OF t1 [rule_format, OF same]])
  have ls: "lib_step ''/srv/excel_files/book.xlsx'' empty_world
        (snd (apply_formula demo_env ''book.xlsx'' [] empty_world))"
    using t2 [rule_format, of "''book.xlsx''" empty_world "[]"] unfolding p2 .
  define wl where "wl = snd (lib_call demo_env ''validation.validate_formula_in_cell_operation''
      ''/srv/excel_files/book.xlsx'' (args_of [] [''sheet_name'', ''cell'', ''formula''])
      empty_world)"
  have lf: "fst (lib_call demo_env ''validation.validate_formula_in_cell_operation''
            ''/srv/excel_files/book.xlsx''
            (args_of [] [''sheet_name'', ''cell'', ''formula'']) empty_world)
       = Inl (no_such_file ''/srv/excel_files/book.xlsx'')"
    by code_simp
  then have lrun: "(\<lambda>path a. lib_call demo_env ''validation.validate_formula_in_cell_operation'' path
        (args_of a [''sheet_name'', ''cell'', ''formula'']))
      (get_excel_path demo_env ''book.xlsx'') [] empty_world
      = (Inl (no_such_file ''/srv/excel_files/book.xlsx''), wl)"
    unfolding p2 wl_def by (metis prod.collapse)
  have mem4: "(''apply_formula'', apply_formula demo_env,
       (\<lambda>path a. lib_call demo_env ''validation.validate_formula_in_cell_operation'' path
          (args_of a [''sheet_name'', ''cell'', ''formula''])),
       [ValidationError, CalculationError]) \<in> set
        [(''apply_formula'', apply_formula demo_env, (\<lambda>path a. lib_call demo_env
           ''validation.validate_formula_in_cell_operation'' path (args_of a [''sheet_name'',
           ''cell'', ''formula''])), [ValidationError, CalculationError]),
         (''validate_formula_syntax'', validate_formula_syntax demo_env, (\<lambda>path a.
           lib_call demo_env ''validation.validate_formula_in_cell_operation'' path (args_of a
           [''sheet_name'', ''cell'', ''formula''])), [ValidationError, CalculationError]),
         (''format_range'', format_range demo_env, (\<lambda>path a. lib_call demo_env
           ''formatting.format_range'' path (args_of a [''sheet_name'', ''start_cell'',
           ''end_cell'', ''bold'', ''italic'', ''underline'', ''font_size'', ''font_color'',
           ''bg_color'', ''border_style'', ''border_color'', ''number_format'', ''alignment'',
           ''wrap_text'', ''merge_cells'', ''protection'', ''conditional_format''])),
           [ValidationError, FormattingError]),
         (''read_data_from_excel'', read_data_from_excel demo_env, (\<lambda>path a. lib_call
           demo_env ''data.read_excel_range'' path (args_of a [''sheet_name'', ''start_cell'',
           ''end_cell'', ''preview_only''])), []),
         (''write_data_to_excel'', write_data_to_excel demo_env, (\<lambda>path a. lib_call
           demo_env ''data.write_data'' path (args_of a [''sheet_name'', ''data'', ''start_cell'',
           ''write_headers''])), [ValidationError, DataError]),
         (''create_workbook'', create_workbook demo_env, (\<lambda>path a. workbook_py demo_env
           ''create_workbook'' path (args_of a [''upload''])), [WorkbookError]),
         (''create_worksheet'', create_worksheet demo_env, (\<lambda>path a. workbook_py
           demo_env ''create_sheet'' path (args_of a [''sheet_name''])), [ValidationError,
           WorkbookError]),
         (''create_chart'', create_chart demo_env, (\<lambda>path a. lib_call demo_env
           ''chart.create_chart_in_sheet'' path (args_of a [''sheet_name'', ''data_range'',
           ''chart_type'', ''target_cell'', ''title'', ''x_axis'', ''y_axis''])),
           [ValidationError, ChartError]),
         (''create_pivot_table'', create_pivot_table demo_env, (\<lambda>path a. lib_call
           demo_env ''pivot.create_pivot_table'' path [(''sheet_name'', arg a ''sheet_name''),
           (''data_range'', arg a ''data_range''), (''rows'', arg a ''rows''), (''values'', arg a
           ''values''), (''columns'', if truthy (arg a ''columns'') then arg a ''columns'' else
           PList []), (''agg_func'', arg a ''agg_func'')]), [ValidationError, PivotError]),
         (''copy_worksheet'', copy_worksheet demo_env, (\<lambda>path a. lib_call demo_env
           ''sheet.copy_sheet'' path (args_of a [''source_sheet'', ''target_sheet''])),
           [ValidationError, SheetError]),
         (''delete_worksheet'', delete_worksheet demo_env, (\<lambda>path a. lib_call demo_env
           ''sheet.delete_sheet'' path (args_of a [''sheet_name''])), [ValidationError,
           SheetError]),
         (''rename_worksheet'', rename_worksheet demo_env, (\<lambda>path a. lib_call demo_env
           ''sheet.rename_sheet'' path (args_of a [''old_name'', ''new_name''])),
           [ValidationError, SheetError]),
         (''get_workbook_metadata'', get_workbook_metadata demo_env, (\<lambda>path a.
           workbook_py demo_env ''get_workbook_info'' path (args_of a [''include_ranges''])),
           [WorkbookError]),
         (''merge_cells'', merge_cells demo_env, (\<lambda>path a. lib_call demo_env
           ''sheet.merge_range'' path (args_of a [''sheet_name'', ''start_cell'', ''end_cell''])),
           [ValidationError, SheetError]),
         (''unmerge_cells'', unmerge_cells demo_env, (\<lambda>path a. lib_call demo_env
           ''sheet.unmerge_range'' path (args_of a [''sheet_name'', ''start_cell'',
           ''end_cell''])), [ValidationError, SheetError]),
         (''copy_range'', copy_range demo_env, (\<lambda>path a. lib_call demo_env
           ''sheet.copy_range_operation'' path (args_of a [''sheet_name'', ''source_start'',
           ''source_end'', ''target_start'', ''target_sheet''])), [ValidationError, SheetError]),
         (''delete_range'', delete_range demo_env, (\<lambda>path a. lib_call demo_env
           ''sheet.delete_range_operation'' path (args_of a [''sheet_name'', ''start_cell'',
           ''end_cell'', ''shift_direction''])), [ValidationError, SheetError]),
         (''validate_excel_range'', validate_excel_range demo_env, (\<lambda>path a. lib_call
           demo_env ''validation.validate_range_in_sheet_operation'' path [(''sheet_name'', arg a
           ''sheet_name''), (''range_str'', if \<not> truthy (arg a ''end_cell'') then arg a
           ''start_cell'' else PStr (str_of demo_env (arg a ''start_cell'') @ '':'' @ str_of
           demo_env (arg a ''end_cell'')))]), [ValidationError])]"
    by simp
  note first = inst2 [THEN conjunct2, THEN conjunct2, THEN conjunct2, THEN conjunct2,
    THEN conjunct1, THEN bspec, OF mem4, unfolded prod.case, rule_format, OF lrun]
  have raised: "apply_formula demo_env ''book.xlsx'' [] empty_world
      = (Inl (no_such_file ''/srv/excel_files/book.xlsx''), wl)"
    using first [THEN conjunct1, rule_format, of "no_such_file ''/srv/excel_files/book.xlsx''"]
    by (simp add: no_such_file_def)
  have rf: "fst (apply_formula demo_env ''book.xlsx'' [] empty_world)
       = Inl (no_such_file ''/srv/excel_files/book.xlsx'')"
    using raised by simp
  have "trace wl = trace empty_world
      @ [LibCall ''validation.validate_formula_in_cell_operation''
           ''/srv/excel_files/book.xlsx'' (args_of [] [''sheet_name'', ''cell'', ''formula''])]"
    unfolding wl_def
    by (rule inst2 [THEN conjunct2, THEN conjunct2, THEN conjunct2, THEN conjunct2,
      THEN conjunct2, THEN conjunct2, rule_format, THEN conjunct1])
  then have tr: "trace (snd (apply_formula demo_env ''book.xlsx'' [] empty_world))
       = [LibCall ''validation.validate_formula_in_cell_operation''
            ''/srv/excel_files/book.xlsx'' [(''sheet_name'', PNone), (''cell'', PNone), (''formula'', PNone)]]"
    using raised by (simp add: empty_world_def args_of_def arg_def)
  show ?thesis
    by (intro conjI) (rule abs, rule p1, rule rel, rule p2, rule mem, rule same, rule eq, rule ls,
      rule lf, rule rf, rule tr)
qed

text \<open>
  Claim C10. When no file exists at the path, \<^verbatim>\<open>upload_file_to_server\<close> raises a
  \<^verbatim>\<open>WorkbookError\<close> whose message holds "File not found" and the path, and leaves the
  world as it was: the trace gains no HTTP request, because the existence check comes
  before the file is opened and posted. (The inner "File not found: p" error is caught by
  the function's own handler and raised again behind the prefix "Failed to upload file: ".)
\<close>

theorem upload_missing_file_raises:
  assumes "files w p = None"
  shows "upload_file_to_server env p w =
           (Inl (Exc WorkbookError (''Failed to upload file: File not found: '' @ p) None), w)
         \<and> sublist ''File not found'' (''Failed to upload file: File not found: '' @ p)
         \<and> sublist p (''Failed to upload file: File not found: '' @ p)"
proof -
  have "''Failed to upload file: File not found: '' @ p
          = ''Failed to upload file: '' @ ''File not found'' @ ('': '' @ p)"
    by simp
  then have a: "sublist ''File not found'' (''Failed to upload file: File not found: '' @ p)"
    by (metis sublist_appendI)
  have b: "sublist p (''Failed to upload file: File not found: '' @ p)"
    by (metis sublist_appendI append_Nil2)
  show ?thesis
    using a b upload_missing [OF assms] by simp
qed

text \<open>The theorem at a path that is not in the empty world.\<close>

theorem upload_missing_file_raises_witness:
  "files empty_world ''/srv/gone.xlsx'' = None
   \<and> upload_file_to_server demo_env ''/srv/gone.xlsx'' empty_world =
       (Inl (Exc WorkbookError ''Failed to upload file: File not found: /srv/gone.xlsx'' None),
        empty_world)
   \<and> trace empty_world = []"
proof -
  have h: "files empty_world ''/srv/gone.xlsx'' = None"
    by (simp add: empty_world_def)
  show ?thesis
    using h upload_missing_file_raises [OF h, of demo_env] by (simp add: empty_world_def)
qed

end
